theory Spec2Isabelle
  imports Complex_Main "HOL-Library.Multiset"
begin

section \<open>JavaScript values used by the finance tracker\<close>

subsection \<open>Strings\<close>

text \<open>
  Strings are lists of 8-bit characters. White space is the ASCII part of what
  \<^verbatim>\<open>String.prototype.trim\<close> and the regular expression class \<^verbatim>\<open>\s\<close> remove: tab, line
  feed, vertical tab, form feed, carriage return and space.
\<close>

definition isWhiteSpace :: "char \<Rightarrow> bool" where
  "isWhiteSpace c \<longleftrightarrow> c \<in> {CHR 0x09, CHR 0x0A, CHR 0x0B, CHR 0x0C, CHR 0x0D, CHR '' ''}"

definition trimStart :: "string \<Rightarrow> string" where
  "trimStart s = dropWhile isWhiteSpace s"

definition trimEnd :: "string \<Rightarrow> string" where
  "trimEnd s = rev (dropWhile isWhiteSpace (rev s))"

definition trim :: "string \<Rightarrow> string" where
  "trim s = trimEnd (trimStart s)"

text \<open>\<^verbatim>\<open>s.split(sep)\<close> for a one-character separator; the empty string splits to \<^verbatim>\<open>[""]\<close>.\<close>

fun split_acc :: "char \<Rightarrow> string \<Rightarrow> string \<Rightarrow> string list" where
  "split_acc sep acc [] = [rev acc]"
| "split_acc sep acc (c # cs) =
     (if c = sep then rev acc # split_acc sep [] cs else split_acc sep (c # acc) cs)"

definition split :: "char \<Rightarrow> string \<Rightarrow> string list" where
  "split sep s = split_acc sep [] s"

definition startsWith :: "string \<Rightarrow> string \<Rightarrow> bool" where
  "startsWith s p \<longleftrightarrow> take (length p) s = p"

text \<open>\<^verbatim>\<open>xs.join(sep)\<close>.\<close>

fun join :: "string \<Rightarrow> string list \<Rightarrow> string" where
  "join sep [] = []"
| "join sep [x] = x"
| "join sep (x # y # ys) = x @ sep @ join sep (y # ys)"

subsection \<open>Numbers\<close>

text \<open>
  A JavaScript number is a double of IEEE 754: a rational that the format holds, one of the
  two infinities, or \<^verbatim>\<open>NaN\<close>. Every arithmetic operation rounds its exact result to the
  nearest double, the even one on a tie, and overflows to an infinity. A value \<open>Num r\<close> that
  is read from the store is taken as it is; the results of addition, subtraction,
  multiplication and division are doubles. The sign of zero is the one thing left out: the
  application never divides by a zero and prints no zero with its sign, so it cannot tell
  the two zeros apart.
\<close>

datatype jsnum = NaN | PosInf | NegInf | Num rat

definition isNaN :: "jsnum \<Rightarrow> bool" where
  "isNaN x = (case x of NaN \<Rightarrow> True | _ \<Rightarrow> False)"

text \<open>The integer nearest to a rational, the even one of the two when it lies half way.\<close>

definition roundHalfEven :: "rat \<Rightarrow> int" where
  "roundHalfEven x =
     (let f = \<lfloor>x\<rfloor>; d = x - of_int f in
      if d < 1 / 2 then f else if 1 / 2 < d then f + 1 else if even f then f else f + 1)"

text \<open>
  The binary exponent of a positive rational \<open>a\<close>, the \<open>e\<close> with \<open>2\<^sup>e \<le> a < 2\<^sup>e\<^sup>+\<^sup>1\<close>, found by
  halving or doubling. The bound of 1100 steps covers every magnitude from the smallest
  normal double, \<open>2\<^sup>-\<^sup>1\<^sup>0\<^sup>2\<^sup>2\<close>, up to \<open>2\<^sup>1\<^sup>1\<^sup>0\<^sup>0\<close>; a larger magnitude overflows whatever exponent
  it is given, and a smaller one is rounded on the fixed grid of the subnormal doubles.
\<close>

fun binadeUp :: "nat \<Rightarrow> rat \<Rightarrow> int" where
  "binadeUp 0 r = 0"
| "binadeUp (Suc n) r = (if r < 2 then 0 else binadeUp n (r / 2) + 1)"

fun binadeDown :: "nat \<Rightarrow> rat \<Rightarrow> int" where
  "binadeDown 0 r = 0"
| "binadeDown (Suc n) r = (if 1 \<le> r then 0 else binadeDown n (2 * r) - 1)"

definition binade :: "rat \<Rightarrow> int" where
  "binade a = (if 1 \<le> a then binadeUp 1100 a else binadeDown 1100 a)"

text \<open>The exponent of the unit in the last place: 52 below the binary exponent, and never
  below that of the subnormal doubles.\<close>

definition quantum :: "rat \<Rightarrow> int" where
  "quantum a = (if a < 2 powi (- 1022) then - 1074 else binade a - 52)"

text \<open>The double nearest to a rational: the rounding that every operation ends with.\<close>

definition fl :: "rat \<Rightarrow> jsnum" where
  "fl r =
     (if r = 0 then Num 0
      else
        (let a = \<bar>r\<bar>;
             q = quantum a;
             v = of_int (roundHalfEven (a / 2 powi q)) * 2 powi q
         in if 2 powi 1024 \<le> v then (if r < 0 then NegInf else PosInf)
            else Num (if r < 0 then - v else v)))"

text \<open>The sign of a number, 0 for zero and for \<^verbatim>\<open>NaN\<close>.\<close>

definition signOf :: "jsnum \<Rightarrow> int" where
  "signOf x =
     (case x of
        NaN \<Rightarrow> 0
      | PosInf \<Rightarrow> 1
      | NegInf \<Rightarrow> - 1
      | Num r \<Rightarrow> if 0 < r then 1 else if r < 0 then - 1 else 0)"

instantiation jsnum :: "{plus, minus, uminus, abs, times}"
begin

fun plus_jsnum :: "jsnum \<Rightarrow> jsnum \<Rightarrow> jsnum" where
  "plus_jsnum (Num a) (Num b) = fl (a + b)"
| "plus_jsnum NaN _ = NaN"
| "plus_jsnum _ NaN = NaN"
| "plus_jsnum PosInf NegInf = NaN"
| "plus_jsnum NegInf PosInf = NaN"
| "plus_jsnum PosInf _ = PosInf"
| "plus_jsnum _ PosInf = PosInf"
| "plus_jsnum NegInf _ = NegInf"
| "plus_jsnum _ NegInf = NegInf"

fun uminus_jsnum :: "jsnum \<Rightarrow> jsnum" where
  "uminus_jsnum (Num a) = Num (- a)"
| "uminus_jsnum PosInf = NegInf"
| "uminus_jsnum NegInf = PosInf"
| "uminus_jsnum NaN = NaN"

definition minus_jsnum :: "jsnum \<Rightarrow> jsnum \<Rightarrow> jsnum" where
  "minus_jsnum a b = a + (- b)"

fun abs_jsnum :: "jsnum \<Rightarrow> jsnum" where
  "abs_jsnum (Num a) = Num \<bar>a\<bar>"
| "abs_jsnum PosInf = PosInf"
| "abs_jsnum NegInf = PosInf"
| "abs_jsnum NaN = NaN"

fun times_jsnum :: "jsnum \<Rightarrow> jsnum \<Rightarrow> jsnum" where
  "times_jsnum (Num a) (Num b) = fl (a * b)"
| "times_jsnum x y =
     (if signOf x * signOf y = 0 then NaN
      else if 0 < signOf x * signOf y then PosInf else NegInf)"

instance ..

end

text \<open>Division; a zero divisor is taken to be the positive zero.\<close>

fun num_div :: "jsnum \<Rightarrow> jsnum \<Rightarrow> jsnum" where
  "num_div (Num a) (Num b) =
     (if b = 0 then (if a = 0 then NaN else if 0 < a then PosInf else NegInf)
      else fl (a / b))"
| "num_div NaN _ = NaN"
| "num_div _ NaN = NaN"
| "num_div (Num a) _ = Num 0"
| "num_div x (Num b) = (if (0 < signOf x) = (0 \<le> b) then PosInf else NegInf)"
| "num_div _ _ = NaN"

text \<open>The relational operators on numbers: every comparison with \<^verbatim>\<open>NaN\<close> is false.\<close>

fun num_le :: "jsnum \<Rightarrow> jsnum \<Rightarrow> bool" where
  "num_le (Num a) (Num b) = (a \<le> b)"
| "num_le NaN _ = False"
| "num_le _ NaN = False"
| "num_le NegInf _ = True"
| "num_le _ PosInf = True"
| "num_le _ _ = False"

fun num_ge :: "jsnum \<Rightarrow> jsnum \<Rightarrow> bool" where
  "num_ge (Num a) (Num b) = (a \<ge> b)"
| "num_ge NaN _ = False"
| "num_ge _ NaN = False"
| "num_ge PosInf _ = True"
| "num_ge _ NegInf = True"
| "num_ge _ _ = False"

fun num_gt :: "jsnum \<Rightarrow> jsnum \<Rightarrow> bool" where
  "num_gt (Num a) (Num b) = (a > b)"
| "num_gt NaN _ = False"
| "num_gt _ NaN = False"
| "num_gt _ PosInf = False"
| "num_gt PosInf _ = True"
| "num_gt NegInf _ = False"
| "num_gt _ NegInf = True"

text \<open>Truthiness of a number (\<^verbatim>\<open>0\<close> and \<^verbatim>\<open>NaN\<close> are falsy) and the idiom \<^verbatim>\<open>x || 0\<close>.\<close>

definition num_truthy :: "jsnum \<Rightarrow> bool" where
  "num_truthy x = (case x of NaN \<Rightarrow> False | Num r \<Rightarrow> r \<noteq> 0 | _ \<Rightarrow> True)"

definition or0 :: "jsnum \<Rightarrow> jsnum" where
  "or0 x = (if num_truthy x then x else Num 0)"

subsection \<open>Decimal digits, \<^verbatim>\<open>parseFloat\<close> and \<^verbatim>\<open>toFixed\<close>\<close>

definition isDigit :: "char \<Rightarrow> bool" where
  "isDigit c \<longleftrightarrow> 48 \<le> (of_char c :: nat) \<and> (of_char c :: nat) \<le> 57"

definition digitVal :: "char \<Rightarrow> nat" where
  "digitVal c = of_char c - 48"

definition digitsVal :: "string \<Rightarrow> nat" where
  "digitsVal ds = foldl (\<lambda>n c. 10 * n + digitVal c) 0 ds"

text \<open>
  The exponent part of a decimal literal, \<^verbatim>\<open>e\<close> or \<^verbatim>\<open>E\<close>, an optional sign and at least one
  digit; when it is not well formed the literal ends before it and the factor is 1.
\<close>

definition exponentFactor :: "string \<Rightarrow> rat" where
  "exponentFactor rest =
     (case rest of
        [] \<Rightarrow> 1
      | e # more \<Rightarrow>
          if e = CHR ''e'' \<or> e = CHR ''E'' then
            (case more of
               [] \<Rightarrow> 1
             | s # ds \<Rightarrow>
                 if s = CHR ''-'' then
                   (if takeWhile isDigit ds = [] then 1
                    else 1 / 10 ^ digitsVal (takeWhile isDigit ds))
                 else if s = CHR ''+'' then
                   (if takeWhile isDigit ds = [] then 1
                    else 10 ^ digitsVal (takeWhile isDigit ds))
                 else
                   (if takeWhile isDigit more = [] then 1
                    else 10 ^ digitsVal (takeWhile isDigit more)))
          else 1)"

text \<open>
  An unsigned literal at the start of the string: \<^verbatim>\<open>Infinity\<close>, or digits, an optional point
  with further digits and an optional exponent; a point alone is no number. The value of a
  decimal literal is rounded to the nearest double, so a literal beyond the range reads as
  infinity and one below the smallest double as 0.
\<close>

definition unsignedDecimal :: "string \<Rightarrow> jsnum" where
  "unsignedDecimal s =
     (if startsWith s ''Infinity'' then PosInf
      else
        (let ip = takeWhile isDigit s; r1 = dropWhile isDigit s in
         case r1 of
           [] \<Rightarrow> if ip = [] then NaN else fl (of_nat (digitsVal ip))
         | c # r2 \<Rightarrow>
             if c = CHR ''.'' then
               (let fp = takeWhile isDigit r2; r3 = dropWhile isDigit r2 in
                if ip = [] \<and> fp = [] then NaN
                else fl ((of_nat (digitsVal ip) + of_nat (digitsVal fp) / 10 ^ length fp)
                          * exponentFactor r3))
             else if ip = [] then NaN
             else fl (of_nat (digitsVal ip) * exponentFactor r1)))"

definition parseFloat :: "string \<Rightarrow> jsnum" where
  "parseFloat s =
     (case trimStart s of
        [] \<Rightarrow> NaN
      | c # cs \<Rightarrow>
          if c = CHR ''-'' then - unsignedDecimal cs
          else if c = CHR ''+'' then unsignedDecimal cs
          else unsignedDecimal (c # cs))"

text \<open>The decimal digits of a natural number, most significant first.\<close>

definition digitChar :: "nat \<Rightarrow> char" where
  "digitChar d = ''0123456789'' ! d"

fun natDigits :: "nat \<Rightarrow> string" where
  "natDigits n =
     (if n < 10 then [digitChar n]
      else natDigits (n div 10) @ [digitChar (n mod 10)])"

declare natDigits.simps [simp del]

definition padStart :: "nat \<Rightarrow> char \<Rightarrow> string \<Rightarrow> string" where
  "padStart n c s = replicate (n - length s) c @ s"

text \<open>
  \<^verbatim>\<open>x.toFixed(2)\<close>: \<^verbatim>\<open>"NaN"\<close>, \<^verbatim>\<open>"Infinity"\<close> and \<^verbatim>\<open>"-Infinity"\<close> for the values that are no
  rationals; otherwise the sign, then the integer \<open>n\<close> nearest to \<open>100 * |x|\<close> (the larger one on
  a tie) written with a point before its last two digits. From \<open>10\<^sup>2\<^sup>1\<close> on JavaScript
  switches to exponent notation, which is not modelled.
\<close>

definition roundHundredths :: "rat \<Rightarrow> nat" where
  "roundHundredths r = nat \<lfloor>\<bar>r\<bar> * 100 + 1 / 2\<rfloor>"

definition toFixed2 :: "jsnum \<Rightarrow> string" where
  "toFixed2 x =
     (case x of
        NaN \<Rightarrow> ''NaN''
      | PosInf \<Rightarrow> ''Infinity''
      | NegInf \<Rightarrow> ''-Infinity''
      | Num r \<Rightarrow>
          (let n = roundHundredths r;
               ds = padStart 3 (CHR ''0'') (natDigits n)
           in (if r < 0 then ''-'' else []) @ take (length ds - 2) ds @ ''.'' @ drop (length ds - 2) ds))"

subsection \<open>Dates\<close>

text \<open>
  A \<^verbatim>\<open>Date\<close> object holds a time value, the milliseconds since the epoch, or is the invalid
  date (time value \<^verbatim>\<open>NaN\<close>). The calendar functions follow the definitions of the ECMAScript
  specification (\<open>Day\<close>, \<open>DayFromYear\<close>, \<open>YearFromTime\<close>, \<open>MonthFromTime\<close>, \<open>DateFromTime\<close>,
  \<open>MakeDay\<close>, \<open>TimeClip\<close>). The local time zone is taken to be UTC.
\<close>

datatype jsdate = InvalidDate | ValidDate int

definition msPerDay :: int where
  "msPerDay = 86400000"

definition Day :: "int \<Rightarrow> int" where
  "Day t = t div msPerDay"

definition TimeWithinDay :: "int \<Rightarrow> int" where
  "TimeWithinDay t = t mod msPerDay"

definition DaysInYear :: "int \<Rightarrow> int" where
  "DaysInYear y =
     (if y mod 4 \<noteq> 0 then 365 else if y mod 100 \<noteq> 0 then 366
      else if y mod 400 \<noteq> 0 then 365 else 366)"

definition DayFromYear :: "int \<Rightarrow> int" where
  "DayFromYear y =
     365 * (y - 1970) + (y - 1969) div 4 - (y - 1901) div 100 + (y - 1601) div 400"

text \<open>
  The year of a time value is the largest \<open>y\<close> with \<open>DayFromYear y \<le> Day t\<close>; it is found
  from the mean length of a year and corrected by at most one.
\<close>

definition YearFromTime :: "int \<Rightarrow> int" where
  "YearFromTime t =
     (let d = Day t; y = 1970 + (d * 400) div 146097 in
      if DayFromYear (y + 1) \<le> d then y + 1
      else if d < DayFromYear y then y - 1
      else y)"

definition InLeapYear :: "int \<Rightarrow> int" where
  "InLeapYear t = (if DaysInYear (YearFromTime t) = 366 then 1 else 0)"

definition DayWithinYear :: "int \<Rightarrow> int" where
  "DayWithinYear t = Day t - DayFromYear (YearFromTime t)"

text \<open>The month of a time value, 0 for January to 11 for December.\<close>

definition MonthFromTime :: "int \<Rightarrow> nat" where
  "MonthFromTime t =
     (let d = DayWithinYear t; l = InLeapYear t in
      if d < 31 then 0
      else if d < 59 + l then 1
      else if d < 90 + l then 2
      else if d < 120 + l then 3
      else if d < 151 + l then 4
      else if d < 181 + l then 5
      else if d < 212 + l then 6
      else if d < 243 + l then 7
      else if d < 273 + l then 8
      else if d < 304 + l then 9
      else if d < 334 + l then 10
      else 11)"

text \<open>The day of the year on which month \<open>m\<close> begins, in a year with leap day count \<open>l\<close>.\<close>

definition monthStart :: "int \<Rightarrow> nat \<Rightarrow> int" where
  "monthStart l m =
     [0, 31, 59, 90, 120, 151, 181, 212, 243, 273, 304, 334] ! m + (if 2 \<le> m then l else 0)"

definition DateFromTime :: "int \<Rightarrow> int" where
  "DateFromTime t = DayWithinYear t - monthStart (InLeapYear t) (MonthFromTime t) + 1"

definition MakeDay :: "int \<Rightarrow> int \<Rightarrow> int \<Rightarrow> int" where
  "MakeDay year month date =
     (let ym = year + month div 12; mn = nat (month mod 12) in
      DayFromYear ym + monthStart (if DaysInYear ym = 366 then 1 else 0) mn + date - 1)"

definition MakeTime :: "int \<Rightarrow> int \<Rightarrow> int \<Rightarrow> int \<Rightarrow> int" where
  "MakeTime h m s ms = h * 3600000 + m * 60000 + s * 1000 + ms"

definition MakeDate :: "int \<Rightarrow> int \<Rightarrow> int" where
  "MakeDate day time = day * msPerDay + time"

text \<open>\<^verbatim>\<open>new Date(x)\<close> for a number: \<open>TimeClip\<close> rejects \<^verbatim>\<open>NaN\<close>, the infinities and values
  beyond 8.64e15 and drops the fraction.\<close>

definition truncToInt :: "rat \<Rightarrow> int" where
  "truncToInt r = (if 0 \<le> r then \<lfloor>r\<rfloor> else - \<lfloor>- r\<rfloor>)"

definition TimeClip :: "jsnum \<Rightarrow> jsdate" where
  "TimeClip x =
     (case x of
        Num r \<Rightarrow> if 8640000000000000 < \<bar>r\<bar> then InvalidDate else ValidDate (truncToInt r)
      | _ \<Rightarrow> InvalidDate)"

text \<open>\<^verbatim>\<open>new Date(year, month, 1)\<close> with integer arguments; a year from 0 to 99 means 1900 + year.\<close>

definition newDateYM :: "int \<Rightarrow> int \<Rightarrow> jsdate" where
  "newDateYM year month =
     (let yr = (if 0 \<le> year \<and> year \<le> 99 then 1900 + year else year) in
      TimeClip (Num (of_int (MakeDate (MakeDay yr month 1) 0))))"

definition getTime :: "jsdate \<Rightarrow> jsnum" where
  "getTime d = (case d of InvalidDate \<Rightarrow> NaN | ValidDate t \<Rightarrow> Num (of_int t))"

definition getFullYear :: "jsdate \<Rightarrow> jsnum" where
  "getFullYear d = (case d of InvalidDate \<Rightarrow> NaN | ValidDate t \<Rightarrow> Num (of_int (YearFromTime t)))"

definition getMonth :: "jsdate \<Rightarrow> jsnum" where
  "getMonth d = (case d of InvalidDate \<Rightarrow> NaN | ValidDate t \<Rightarrow> Num (of_nat (MonthFromTime t)))"

text \<open>\<^verbatim>\<open>a >= b\<close> and \<^verbatim>\<open>a <= b\<close> on two dates compare their time values as numbers.\<close>

definition date_ge :: "jsdate \<Rightarrow> jsdate \<Rightarrow> bool" where
  "date_ge a b = num_ge (getTime a) (getTime b)"

definition date_le :: "jsdate \<Rightarrow> jsdate \<Rightarrow> bool" where
  "date_le a b = num_le (getTime a) (getTime b)"

text \<open>
  \<^verbatim>\<open>new Date(string)\<close> reads the date-time string format of the language: a date \<^verbatim>\<open>YYYY\<close>,
  \<^verbatim>\<open>YYYY-MM\<close> or \<^verbatim>\<open>YYYY-MM-DD\<close>, optionally followed by \<^verbatim>\<open>T\<close>, a time \<^verbatim>\<open>HH:mm\<close>, \<^verbatim>\<open>HH:mm:ss\<close>
  or \<^verbatim>\<open>HH:mm:ss.sss\<close>, and an optional zone, \<^verbatim>\<open>Z\<close> or an offset \<^verbatim>\<open>+HH:mm\<close> or \<^verbatim>\<open>-HH:mm\<close>. The
  engine of the runtime (V8) accepts a day of the month up to 31 in every month and counts
  the surplus into the next month, so that \<^verbatim>\<open>2024-02-30\<close> is the first of March; the date
  library's \<^verbatim>\<open>parseISO\<close> checks the day against the month. The flag \<open>strict\<close> tells the two
  apart. A string outside this format goes, in the engine, to a fallback parser that is
  implementation-defined (it reads, for example, \<^verbatim>\<open>Jan 15, 2024\<close>); years with a sign and six
  digits and fractions of a second of other lengths than three are part of the format.
  None of these is modelled: such a string reads as the invalid date.
\<close>

definition digitsN :: "nat \<Rightarrow> string \<Rightarrow> nat option" where
  "digitsN n s = (if length s = n \<and> list_all isDigit s then Some (digitsVal s) else None)"

definition DaysInMonth :: "int \<Rightarrow> nat \<Rightarrow> nat" where
  "DaysInMonth y m =
     (if m = 2 then (if DaysInYear y = 366 then 29 else 28)
      else if m \<in> {4, 6, 9, 11} then 30 else 31)"

definition parseDatePart :: "bool \<Rightarrow> string \<Rightarrow> int option" where
  "parseDatePart strict s =
     (if length s = 4 then
        (case digitsN 4 s of
           Some y \<Rightarrow> Some (MakeDay (int y) 0 1)
         | None \<Rightarrow> None)
      else if length s = 7 \<and> s ! 4 = CHR ''-'' then
        (case (digitsN 4 (take 4 s), digitsN 2 (drop 5 s)) of
           (Some y, Some m) \<Rightarrow>
             if 1 \<le> m \<and> m \<le> 12 then Some (MakeDay (int y) (int m - 1) 1) else None
         | _ \<Rightarrow> None)
      else if length s = 10 \<and> s ! 4 = CHR ''-'' \<and> s ! 7 = CHR ''-'' then
        (case (digitsN 4 (take 4 s), digitsN 2 (take 2 (drop 5 s)), digitsN 2 (drop 8 s)) of
           (Some y, Some m, Some d) \<Rightarrow>
             if 1 \<le> m \<and> m \<le> 12 \<and> 1 \<le> d \<and> d \<le> (if strict then DaysInMonth (int y) m else 31)
             then Some (MakeDay (int y) (int m - 1) (int d)) else None
         | _ \<Rightarrow> None)
      else None)"

definition checkTime :: "nat \<Rightarrow> nat \<Rightarrow> nat \<Rightarrow> nat \<Rightarrow> int option" where
  "checkTime h m s ms =
     (if (h \<le> 23 \<and> m \<le> 59 \<and> s \<le> 59) \<or> (h = 24 \<and> m = 0 \<and> s = 0 \<and> ms = 0)
      then Some (MakeTime (int h) (int m) (int s) (int ms)) else None)"

definition parseTimePart :: "string \<Rightarrow> int option" where
  "parseTimePart s =
     (if length s = 5 \<and> s ! 2 = CHR '':'' then
        (case (digitsN 2 (take 2 s), digitsN 2 (drop 3 s)) of
           (Some h, Some m) \<Rightarrow> checkTime h m 0 0
         | _ \<Rightarrow> None)
      else if length s = 8 \<and> s ! 2 = CHR '':'' \<and> s ! 5 = CHR '':'' then
        (case (digitsN 2 (take 2 s), digitsN 2 (take 2 (drop 3 s)), digitsN 2 (drop 6 s)) of
           (Some h, Some m, Some sec) \<Rightarrow> checkTime h m sec 0
         | _ \<Rightarrow> None)
      else if length s = 12 \<and> s ! 2 = CHR '':'' \<and> s ! 5 = CHR '':'' \<and> s ! 8 = CHR ''.'' then
        (case (digitsN 2 (take 2 s), digitsN 2 (take 2 (drop 3 s)),
               digitsN 2 (take 2 (drop 6 s)), digitsN 3 (drop 9 s)) of
           (Some h, Some m, Some sec, Some ms) \<Rightarrow> checkTime h m sec ms
         | _ \<Rightarrow> None)
      else None)"

text \<open>The zone of a date-time string, as the milliseconds that local time there is ahead of
  UTC: nothing or \<^verbatim>\<open>Z\<close> for none, or a signed \<^verbatim>\<open>HH:mm\<close>.\<close>

definition isZoneStart :: "char \<Rightarrow> bool" where
  "isZoneStart c \<longleftrightarrow> c = CHR ''Z'' \<or> c = CHR ''+'' \<or> c = CHR ''-''"

definition parseZone :: "string \<Rightarrow> int option" where
  "parseZone z =
     (if z = [] \<or> z = ''Z'' then Some 0
      else if length z = 6 \<and> (z ! 0 = CHR ''+'' \<or> z ! 0 = CHR ''-'') \<and> z ! 3 = CHR '':'' then
        (case (digitsN 2 (take 2 (drop 1 z)), digitsN 2 (drop 4 z)) of
           (Some h, Some m) \<Rightarrow>
             if h \<le> 23 \<and> m \<le> 59
             then Some ((if z ! 0 = CHR ''-'' then - 1 else 1) * (int h * 3600000 + int m * 60000))
             else None
         | _ \<Rightarrow> None)
      else None)"

text \<open>A date text and, if the string goes on after the separator, the text of the time and
  the zone.\<close>

definition dateTime :: "bool \<Rightarrow> string \<Rightarrow> string option \<Rightarrow> jsdate" where
  "dateTime strict dateText timeText =
     (case parseDatePart strict dateText of
        None \<Rightarrow> InvalidDate
      | Some day \<Rightarrow>
          (case timeText of
             None \<Rightarrow> TimeClip (Num (of_int (MakeDate day 0)))
           | Some tz \<Rightarrow>
               (case (parseTimePart (takeWhile (\<lambda>c. \<not> isZoneStart c) tz),
                      parseZone (dropWhile (\<lambda>c. \<not> isZoneStart c) tz)) of
                  (Some time, Some offset) \<Rightarrow> TimeClip (Num (of_int (MakeDate day time - offset)))
                | _ \<Rightarrow> InvalidDate)))"

definition Date_parse :: "string \<Rightarrow> jsdate" where
  "Date_parse s =
     (let dateText = takeWhile (\<lambda>c. c \<noteq> CHR ''T'') s;
          rest = dropWhile (\<lambda>c. c \<noteq> CHR ''T'') s
      in dateTime False dateText (if rest = [] then None else Some (tl rest)))"

text \<open>
  \<^verbatim>\<open>date.toLocaleDateString("en-US", {year: "numeric", month: "long", day: "numeric"})\<close>,
  for example \<^verbatim>\<open>January 15, 2024\<close>. Years before 1, which the runtime prints with an era,
  are not modelled.
\<close>

definition monthLong :: "string list" where
  "monthLong = [''January'', ''February'', ''March'', ''April'', ''May'', ''June'',
                ''July'', ''August'', ''September'', ''October'', ''November'', ''December'']"

definition toLocaleDateString_long :: "jsdate \<Rightarrow> string" where
  "toLocaleDateString_long d =
     (case d of
        InvalidDate \<Rightarrow> ''Invalid Date''
      | ValidDate t \<Rightarrow>
          monthLong ! MonthFromTime t @ '' '' @ natDigits (nat (DateFromTime t)) @ '', ''
            @ natDigits (nat (YearFromTime t)))"

subsection \<open>Values read from the record store\<close>

text \<open>
  A field of a stored document is dynamically typed. \<open>Timestamp s n\<close> is an instance of the
  store's timestamp class (seconds and nanoseconds, with a \<^verbatim>\<open>toDate\<close> method); \<open>Object\<close> is a
  plain map read from the store, which carries no methods.
\<close>

datatype jsval =
    Undefined
  | Null
  | Bool bool
  | Number jsnum
  | Str string
  | Timestamp int int
  | DateObj jsdate
  | Object "(string \<times> jsval) list"

definition truthy :: "jsval \<Rightarrow> bool" where
  "truthy v =
     (case v of
        Undefined \<Rightarrow> False
      | Null \<Rightarrow> False
      | Bool b \<Rightarrow> b
      | Number n \<Rightarrow> num_truthy n
      | Str s \<Rightarrow> s \<noteq> []
      | _ \<Rightarrow> True)"

text \<open>\<^verbatim>\<open>typeof v === "number"\<close>.\<close>

definition isNumber :: "jsval \<Rightarrow> bool" where
  "isNumber v = (case v of Number _ \<Rightarrow> True | _ \<Rightarrow> False)"

text \<open>\<^verbatim>\<open>Timestamp.toDate()\<close>: \<^verbatim>\<open>new Date(seconds * 1000 + nanoseconds / 1e6)\<close>, in the arithmetic
  of doubles.\<close>

definition Timestamp_toDate :: "int \<Rightarrow> int \<Rightarrow> jsdate" where
  "Timestamp_toDate seconds nanoseconds =
     TimeClip (Num (of_int seconds) * Num 1000 + num_div (Num (of_int nanoseconds)) (Num 1000000))"

text \<open>
  A document of the \<^verbatim>\<open>incomes\<close> or \<^verbatim>\<open>expenses\<close> collection, with the fields the application
  reads. The amount and the date are dynamically typed, since the code tests their types at
  run time; the text fields are absent (\<open>None\<close>) or strings, as every write path of the
  application stores them.
\<close>

record doc =
  doc_id :: string
  userId :: string
  amount :: jsval
  date :: jsval
  category :: "string option"
  source :: "string option"
  title :: "string option"

record store =
  incomes :: "doc list"
  expenses :: "doc list"

text \<open>\<^verbatim>\<open>getDocs(query(collection(db, name), where("userId", "==", uid)))\<close>.\<close>

definition whereUserId :: "string \<Rightarrow> doc list \<Rightarrow> doc list" where
  "whereUserId uid docs = filter (\<lambda>d. userId d = uid) docs"

section \<open>Date normalizers\<close>

text \<open>
  \<^verbatim>\<open>parseDate\<close> of the dashboard components (the same text in \<^verbatim>\<open>TotalBalanceCard\<close>,
  \<^verbatim>\<open>SavingsTrendChart\<close>, \<^verbatim>\<open>SpendingCategoryChart\<close>, \<^verbatim>\<open>LatestTransactionsTable\<close> and
  \<^verbatim>\<open>ExpenseChart\<close>). \<open>None\<close> is the result \<^verbatim>\<open>null\<close>.
\<close>

definition parseDate :: "jsval \<Rightarrow> jsdate option" where
  "parseDate raw =
     (if \<not> truthy raw then None
      else case raw of
        Timestamp s n \<Rightarrow> Some (Timestamp_toDate s n)
      | Str s \<Rightarrow> Some (Date_parse s)
      | DateObj d \<Rightarrow> Some d
      | _ \<Rightarrow> None)"

text \<open>
  \<^verbatim>\<open>parseFirestoreDate\<close> of the summary route. A timestamp instance has the method
  \<^verbatim>\<open>toDate\<close>; a plain map has none and is read through its \<^verbatim>\<open>seconds\<close> field when that is a
  number; a native date has neither and falls through to \<^verbatim>\<open>null\<close>.
\<close>

definition parseFirestoreDate :: "jsval \<Rightarrow> jsdate option" where
  "parseFirestoreDate raw =
     (if \<not> truthy raw then None
      else case raw of
        Str s \<Rightarrow> Some (Date_parse s)
      | Timestamp s n \<Rightarrow> Some (Timestamp_toDate s n)
      | Object props \<Rightarrow>
          (case map_of props ''seconds'' of
             Some (Number secs) \<Rightarrow> Some (TimeClip (secs * Num 1000))
           | _ \<Rightarrow> None)
      | _ \<Rightarrow> None)"

text \<open>\<^verbatim>\<open>parseDateParam\<close> of the summary route checks the parsed date and returns \<^verbatim>\<open>null\<close> for an
  invalid one.\<close>

definition parseDateParam :: "string option \<Rightarrow> jsdate option" where
  "parseDateParam param =
     (case param of
        None \<Rightarrow> None
      | Some p \<Rightarrow>
          if p = [] then None
          else (let d = Date_parse p in if isNaN (getTime d) then None else Some d))"

section \<open>Summary endpoint\<close>

text \<open>
  The object that the route hands to \<^verbatim>\<open>NextResponse.json\<close> with status 200. (In the JSON text
  of the response a field that is an infinity is written as \<^verbatim>\<open>null\<close>.)
\<close>

record summary =
  totalIncome :: jsnum
  totalExpense :: jsnum
  savings :: jsnum
  categoryTotals :: "string \<rightharpoonup> jsnum"

datatype response = Status400 string | Status200 summary

text \<open>The closure \<^verbatim>\<open>isWithinRange\<close>, with the two bounds it captures.\<close>

definition isWithinRange :: "jsdate option \<Rightarrow> jsdate option \<Rightarrow> jsval \<Rightarrow> bool" where
  "isWithinRange fromDate toDate rawDate =
     (case parseFirestoreDate rawDate of
        None \<Rightarrow> False
      | Some d \<Rightarrow>
          (case fromDate of None \<Rightarrow> True | Some f \<Rightarrow> date_ge d f)
          \<and> (case toDate of None \<Rightarrow> True | Some t \<Rightarrow> date_le d t))"

text \<open>The body of the loop over the income documents, on the running total.\<close>

definition incomeStep :: "jsdate option \<Rightarrow> jsdate option \<Rightarrow> jsnum \<Rightarrow> doc \<Rightarrow> jsnum" where
  "incomeStep fromDate toDate acc d =
     (case amount d of
        Number a \<Rightarrow> if isWithinRange fromDate toDate (date d) then acc + a else acc
      | _ \<Rightarrow> acc)"

text \<open>The body of the loop over the expense documents, on the running total and the
  category map.\<close>

definition expenseStep ::
  "jsdate option \<Rightarrow> jsdate option \<Rightarrow> jsnum \<times> (string \<rightharpoonup> jsnum) \<Rightarrow> doc
     \<Rightarrow> jsnum \<times> (string \<rightharpoonup> jsnum)" where
  "expenseStep fromDate toDate acc d =
     (case amount d of
        Number a \<Rightarrow>
          if isWithinRange fromDate toDate (date d) then
            (let cat = (case category d of Some c \<Rightarrow> c | None \<Rightarrow> ''Other'');
                 prevCategoryTotal = (case snd acc cat of None \<Rightarrow> Num 0 | Some v \<Rightarrow> or0 v)
             in (fst acc + a, (snd acc)(cat \<mapsto> prevCategoryTotal + a)))
          else acc
      | _ \<Rightarrow> acc)"

definition testIncomeAmount :: jsnum where
  "testIncomeAmount = Num 5000"

definition testExpenseAmount :: jsnum where
  "testExpenseAmount = Num 2000"

text \<open>
  The handler \<^verbatim>\<open>GET\<close>, from the query parameters \<^verbatim>\<open>uid\<close>, \<^verbatim>\<open>from\<close> and \<^verbatim>\<open>to\<close> (\<open>None\<close> when
  the parameter is missing) and the record store to the response.
\<close>

definition GET :: "store \<Rightarrow> string option \<Rightarrow> string option \<Rightarrow> string option \<Rightarrow> response" where
  "GET db uid from_param to_param =
     (let fromDate = parseDateParam from_param;
          toDate = parseDateParam to_param
      in case uid of
           None \<Rightarrow> Status400 ''Missing 'uid' parameter.''
         | Some u \<Rightarrow>
             if u = [] then Status400 ''Missing 'uid' parameter.''
             else
               (let incomeSnap = whereUserId u (incomes db);
                    expenseSnap = whereUserId u (expenses db);
                    income = foldl (incomeStep fromDate toDate) (Num 0 + testIncomeAmount) incomeSnap;
                    expense = foldl (expenseStep fromDate toDate)
                                (Num 0 + testExpenseAmount,
                                 Map.empty(''Test Category'' \<mapsto> testExpenseAmount))
                                expenseSnap;
                    finalTotalIncome = income;
                    finalTotalExpense = fst expense;
                    finalSavings = finalTotalIncome - finalTotalExpense
                in Status200
                     \<lparr>totalIncome = (if isNaN finalTotalIncome then Num 0 else finalTotalIncome),
                      totalExpense = (if isNaN finalTotalExpense then Num 0 else finalTotalExpense),
                      savings = (if isNaN finalSavings then Num 0 else finalSavings),
                      categoryTotals = snd expense\<rparr>))"

section \<open>Insight card: parsing the bullets of the insight service\<close>

text \<open>
  \<^verbatim>\<open>line.replace(/^\*\s*/, "")\<close>: the pattern is anchored at the first character of the line
  as it stands (the line is not trimmed before the replacement), so it removes a star and
  the white space after it only when the star is the very first character.
\<close>

definition stripMarker :: "string \<Rightarrow> string" where
  "stripMarker line =
     (case line of
        [] \<Rightarrow> []
      | c # cs \<Rightarrow> if c = CHR ''*'' then dropWhile isWhiteSpace cs else line)"

text \<open>
  \<^verbatim>\<open>content.split("\n").filter(line => line.trim().startsWith("*"))
          .map(line => line.replace(/^\*\s*/, "").trim())\<close>
\<close>

definition parseBullets :: "string \<Rightarrow> string list" where
  "parseBullets content =
     map (\<lambda>line. trim (stripMarker line))
       (filter (\<lambda>line. startsWith (trim line) ''*'') (split (CHR 0x0A) content))"

datatype insight_state = InsightError string | InsightPoints "string list"

text \<open>
  The part of \<^verbatim>\<open>fetchInsight\<close> after a successful response: \<^verbatim>\<open>data?.content?.trim()\<close>, the
  empty-content exit, and \<^verbatim>\<open>setInsightPoints(bullets.slice(0, 3))\<close>. A response without a
  \<^verbatim>\<open>content\<close> field is \<open>None\<close>.
\<close>

definition insightFromResponse :: "string option \<Rightarrow> insight_state" where
  "insightFromResponse data_content =
     (case data_content of
        None \<Rightarrow> InsightError ''No insight returned from Gemini.''
      | Some c \<Rightarrow>
          (let content = trim c in
           if content = [] then InsightError ''No insight returned from Gemini.''
           else InsightPoints (take 3 (parseBullets content))))"

text \<open>
  The parser as the specification words it: keep the lines that begin with the marker once
  trimmed, strip the marker from each, cap the result at three.
\<close>

definition spec_bullets :: "string \<Rightarrow> string list" where
  "spec_bullets content =
     take 3 (map (\<lambda>line. trim (tl (trim line)))
       (filter (\<lambda>line. startsWith (trim line) ''*'') (split (CHR 0x0A) content)))"

section \<open>Monthly and category aggregation of the dashboard\<close>

text \<open>\<^verbatim>\<open>m[key] || 0\<close> on an object used as a map from strings to numbers.\<close>

definition lookup0 :: "(string \<rightharpoonup> jsnum) \<Rightarrow> string \<Rightarrow> jsnum" where
  "lookup0 m k = (case m k of None \<Rightarrow> Num 0 | Some v \<Rightarrow> or0 v)"

definition MONTHS :: "string list" where
  "MONTHS = [''Jan'', ''Feb'', ''Mar'', ''Apr'', ''May'', ''Jun'',
             ''Jul'', ''Aug'', ''Sep'', ''Oct'', ''Nov'', ''Dec'']"

subsection \<open>\<^verbatim>\<open>IncomeChart\<close>\<close>

record IncomeRecord =
  ir_amount :: jsnum
  ir_date :: jsval

record MonthlyIncome =
  mi_name :: string
  mi_income :: jsnum

definition MONTHS_ORDER :: "string list" where
  "MONTHS_ORDER = MONTHS"

text \<open>
  \<^verbatim>\<open>parseISO\<close> of the date library reads the same dates and times, with a \<^verbatim>\<open>T\<close> or a space
  between them, and checks the day against the month. (Its week dates, ordinal dates and
  dates written without hyphens are not modelled and read as the invalid date.)
\<close>

definition parseISO :: "string \<Rightarrow> jsdate" where
  "parseISO s =
     (let dateText = takeWhile (\<lambda>c. c \<noteq> CHR ''T'' \<and> c \<noteq> CHR '' '') s;
          rest = dropWhile (\<lambda>c. c \<noteq> CHR ''T'' \<and> c \<noteq> CHR '' '') s
      in dateTime True dateText (if rest = [] then None else Some (tl rest)))"

definition parseIncomeDate :: "jsval \<Rightarrow> jsdate option" where
  "parseIncomeDate raw =
     (if \<not> truthy raw then None
      else case raw of
        Timestamp s n \<Rightarrow> Some (Timestamp_toDate s n)
      | Str s \<Rightarrow> Some (parseISO s)
      | DateObj d \<Rightarrow> Some d
      | _ \<Rightarrow> None)"

text \<open>
  The body of the loop of \<^verbatim>\<open>buildMonthlyIncomeData\<close>. The guard
  \<^verbatim>\<open>if (!date || !isValid(date)) continue\<close> leaves only valid dates, for which
  \<^verbatim>\<open>format(date, "MMM")\<close> is the short name of the month.
\<close>

definition monthlyIncomeStep :: "(string \<rightharpoonup> jsnum) \<Rightarrow> IncomeRecord \<Rightarrow> (string \<rightharpoonup> jsnum)" where
  "monthlyIncomeStep monthly income =
     (case parseIncomeDate (ir_date income) of
        None \<Rightarrow> monthly
      | Some InvalidDate \<Rightarrow> monthly
      | Some (ValidDate t) \<Rightarrow>
          (let month = MONTHS_ORDER ! MonthFromTime t;
               a = or0 (ir_amount income)
           in monthly(month \<mapsto> lookup0 monthly month + a)))"

definition buildMonthlyIncomeData :: "IncomeRecord list \<Rightarrow> MonthlyIncome list" where
  "buildMonthlyIncomeData incomeRecords =
     (let monthly = foldl monthlyIncomeStep Map.empty incomeRecords
      in map (\<lambda>month. \<lparr>mi_name = month, mi_income = lookup0 monthly month\<rparr>) MONTHS_ORDER)"

subsection \<open>\<^verbatim>\<open>ExpenseChart\<close>\<close>

record ExpenseData =
  ed_date :: jsval
  ed_amount :: jsnum

record MonthlyExpense =
  me_name :: string
  me_expense :: jsnum

text \<open>\<^verbatim>\<open>dayjs(date).format("MMM")\<close>; the library formats an invalid date as \<^verbatim>\<open>Invalid Date\<close>.\<close>

definition dayjs_format_MMM :: "jsdate \<Rightarrow> string" where
  "dayjs_format_MMM d =
     (case d of InvalidDate \<Rightarrow> ''Invalid Date'' | ValidDate t \<Rightarrow> MONTHS ! MonthFromTime t)"

definition monthlyExpenseStep :: "(string \<rightharpoonup> jsnum) \<Rightarrow> ExpenseData \<Rightarrow> (string \<rightharpoonup> jsnum)" where
  "monthlyExpenseStep totals expense =
     (case parseDate (ed_date expense) of
        None \<Rightarrow> totals
      | Some d \<Rightarrow>
          (let month = dayjs_format_MMM d
           in totals(month \<mapsto> lookup0 totals month + or0 (ed_amount expense))))"

definition buildMonthlyExpenseData :: "ExpenseData list \<Rightarrow> MonthlyExpense list" where
  "buildMonthlyExpenseData expenseRecords =
     (let totals = foldl monthlyExpenseStep Map.empty expenseRecords
      in map (\<lambda>month. \<lparr>me_name = month, me_expense = lookup0 totals month\<rparr>) MONTHS)"

subsection \<open>\<^verbatim>\<open>SavingsTrendChart\<close>\<close>

record SavingsDataPoint =
  sd_month :: string
  sd_income :: jsnum
  sd_expense :: jsnum
  sd_savings :: jsnum

text \<open>
  The array index a number denotes, if any. Reading \<^verbatim>\<open>monthly[i]\<close> at any other number, or
  beyond the end, gives \<^verbatim>\<open>undefined\<close>, and the update of its field then raises a
  \<^verbatim>\<open>TypeError\<close>, which \<^verbatim>\<open>fetchSavingsData\<close> catches: the chart data is then not set.
  \<open>None\<close> stands for that outcome.
\<close>

definition arrayIndex :: "jsnum \<Rightarrow> nat option" where
  "arrayIndex x =
     (case x of
        Num r \<Rightarrow> if 0 \<le> r \<and> of_int \<lfloor>r\<rfloor> = r then Some (nat \<lfloor>r\<rfloor>) else None
      | _ \<Rightarrow> None)"

definition addIncomeAt :: "SavingsDataPoint list \<Rightarrow> jsnum \<Rightarrow> jsnum \<Rightarrow> SavingsDataPoint list option" where
  "addIncomeAt monthly idx a =
     (case arrayIndex idx of
        None \<Rightarrow> None
      | Some i \<Rightarrow>
          if i < length monthly
          then Some (monthly[i := (monthly ! i)\<lparr>sd_income := sd_income (monthly ! i) + a\<rparr>])
          else None)"

definition addExpenseAt :: "SavingsDataPoint list \<Rightarrow> jsnum \<Rightarrow> jsnum \<Rightarrow> SavingsDataPoint list option" where
  "addExpenseAt monthly idx a =
     (case arrayIndex idx of
        None \<Rightarrow> None
      | Some i \<Rightarrow>
          if i < length monthly
          then Some (monthly[i := (monthly ! i)\<lparr>sd_expense := sd_expense (monthly ! i) + a\<rparr>])
          else None)"

text \<open>A loop whose body may raise: the first failure ends it.\<close>

fun forEach :: "('s \<Rightarrow> 'a \<Rightarrow> 's option) \<Rightarrow> 's \<Rightarrow> 'a list \<Rightarrow> 's option" where
  "forEach f s [] = Some s"
| "forEach f s (x # xs) = (case f s x of None \<Rightarrow> None | Some s' \<Rightarrow> forEach f s' xs)"

definition savingsIncomeStep :: "int \<Rightarrow> SavingsDataPoint list \<Rightarrow> doc \<Rightarrow> SavingsDataPoint list option" where
  "savingsIncomeStep year monthly d =
     (case parseDate (date d) of
        None \<Rightarrow> Some monthly
      | Some parsed \<Rightarrow>
          if getFullYear parsed = Num (of_int year) then
            (case amount d of
               Number a \<Rightarrow> addIncomeAt monthly (getMonth parsed) a
             | _ \<Rightarrow> Some monthly)
          else Some monthly)"

definition savingsExpenseStep :: "int \<Rightarrow> SavingsDataPoint list \<Rightarrow> doc \<Rightarrow> SavingsDataPoint list option" where
  "savingsExpenseStep year monthly d =
     (case parseDate (date d) of
        None \<Rightarrow> Some monthly
      | Some parsed \<Rightarrow>
          if getFullYear parsed = Num (of_int year) then
            (case amount d of
               Number a \<Rightarrow> addExpenseAt monthly (getMonth parsed) a
             | _ \<Rightarrow> Some monthly)
          else Some monthly)"

definition monthNames :: "string list" where
  "monthNames = MONTHS"

text \<open>
  \<^verbatim>\<open>fetchSavingsData\<close> for the selected year, on the documents of the user that the two
  queries return: the data set by \<^verbatim>\<open>setData\<close>, or \<open>None\<close> when the body raised and nothing was
  set.
\<close>

definition fetchSavingsData :: "int \<Rightarrow> doc list \<Rightarrow> doc list \<Rightarrow> SavingsDataPoint list option" where
  "fetchSavingsData year incomeSnap expenseSnap =
     (let monthly0 = map (\<lambda>m. \<lparr>sd_month = m, sd_income = Num 0, sd_expense = Num 0,
                                 sd_savings = Num 0\<rparr>) monthNames
      in case forEach (savingsIncomeStep year) monthly0 incomeSnap of
           None \<Rightarrow> None
         | Some monthly1 \<Rightarrow>
             (case forEach (savingsExpenseStep year) monthly1 expenseSnap of
                None \<Rightarrow> None
              | Some monthly2 \<Rightarrow>
                  Some (map (\<lambda>entry. entry\<lparr>sd_savings := sd_income entry - sd_expense entry\<rparr>)
                          monthly2)))"

subsection \<open>\<^verbatim>\<open>SpendingCategoryChart\<close>\<close>

text \<open>\<^verbatim>\<open>a || b\<close> for a text field that may be absent, and a default string.\<close>

definition orElse :: "string option \<Rightarrow> string \<Rightarrow> string" where
  "orElse a b = (case a of None \<Rightarrow> b | Some s \<Rightarrow> if s = [] then b else s)"

text \<open>
  The object \<^verbatim>\<open>categoryMap\<close> keeps its keys in the order of their insertion: an association
  list, updated in place or extended at the end.
\<close>

fun assocUpdate :: "string \<Rightarrow> (jsnum \<Rightarrow> jsnum) \<Rightarrow> (string \<times> jsnum) list \<Rightarrow> (string \<times> jsnum) list" where
  "assocUpdate k f [] = [(k, f (Num 0))]"
| "assocUpdate k f ((k', v) # kvs) =
     (if k = k' then (k', f (or0 v)) # kvs else (k', v) # assocUpdate k f kvs)"

definition categoryStep :: "int \<Rightarrow> int \<Rightarrow> (string \<times> jsnum) list \<Rightarrow> doc \<Rightarrow> (string \<times> jsnum) list" where
  "categoryStep month year categoryMap d =
     (case parseDate (date d) of
        None \<Rightarrow> categoryMap
      | Some parsedDate \<Rightarrow>
          if getFullYear parsedDate = Num (of_int year) \<and> getMonth parsedDate = Num (of_int month)
          then (case amount d of
                  Number a \<Rightarrow>
                    (let cat = orElse (category d) ''Uncategorized''
                     in assocUpdate cat (\<lambda>prev. prev + a) categoryMap)
                | _ \<Rightarrow> categoryMap)
          else categoryMap)"

text \<open>
  \<^verbatim>\<open>Object.entries(obj)\<close> lists the keys that are array indices first, in ascending numeric
  order, and then the other keys in the order of their insertion. An array index is the
  decimal numeral, without leading zeros, of a number below \<open>2\<^sup>3\<^sup>2 - 1\<close>.
\<close>

definition isArrayIndex :: "string \<Rightarrow> bool" where
  "isArrayIndex k \<longleftrightarrow>
     k \<noteq> [] \<and> list_all isDigit k \<and> (if hd k = CHR ''0'' then k = ''0'' else True)
     \<and> digitsVal k < 4294967295"

fun insertKey :: "string \<times> 'a \<Rightarrow> (string \<times> 'a) list \<Rightarrow> (string \<times> 'a) list" where
  "insertKey kv [] = [kv]"
| "insertKey kv (x # xs) =
     (if digitsVal (fst kv) \<le> digitsVal (fst x) then kv # x # xs else x # insertKey kv xs)"

definition objectEntries :: "(string \<times> 'a) list \<Rightarrow> (string \<times> 'a) list" where
  "objectEntries kvs =
     foldr insertKey (filter (\<lambda>kv. isArrayIndex (fst kv)) kvs) []
     @ filter (\<lambda>kv. \<not> isArrayIndex (fst kv)) kvs"

text \<open>
  \<^verbatim>\<open>xs.sort(cmp)\<close>, a stable sort: an element goes behind those that the comparison puts
  before it or level with it. For a comparison that is not an ordering (one that can
  return \<^verbatim>\<open>NaN\<close>) the order of the result is left to the engine; the model then still
  returns a permutation.
\<close>

fun insertBy :: "('a \<Rightarrow> 'a \<Rightarrow> jsnum) \<Rightarrow> 'a \<Rightarrow> 'a list \<Rightarrow> 'a list" where
  "insertBy cmp x [] = [x]"
| "insertBy cmp x (y # ys) =
     (if num_gt (cmp x y) (Num 0) then y # insertBy cmp x ys else x # y # ys)"

definition sortBy :: "('a \<Rightarrow> 'a \<Rightarrow> jsnum) \<Rightarrow> 'a list \<Rightarrow> 'a list" where
  "sortBy cmp xs = foldr (insertBy cmp) xs []"

record CategoryDataPoint =
  cd_name :: string
  cd_value :: jsnum

definition fetchCategoryData :: "int \<Rightarrow> int \<Rightarrow> doc list \<Rightarrow> CategoryDataPoint list" where
  "fetchCategoryData month year snapshot =
     (let categoryMap = foldl (categoryStep month year) [] snapshot
      in sortBy (\<lambda>a b. cd_value b - cd_value a)
           (map (\<lambda>(name, v). \<lparr>cd_name = name, cd_value = v\<rparr>) (objectEntries categoryMap)))"

subsection \<open>\<^verbatim>\<open>TotalBalanceCard\<close>\<close>

text \<open>\<^verbatim>\<open>a === b\<close> on numbers: \<^verbatim>\<open>NaN\<close> is not equal to itself.\<close>

definition strictEq :: "jsnum \<Rightarrow> jsnum \<Rightarrow> bool" where
  "strictEq a b = (if isNaN a then False else a = b)"

record BalanceDataPoint =
  bd_month :: string
  bd_balance :: jsnum

text \<open>The sum that one \<^verbatim>\<open>forEach\<close> of the card accumulates for a target month and year.\<close>

definition monthStep :: "jsnum \<Rightarrow> jsnum \<Rightarrow> jsnum \<Rightarrow> doc \<Rightarrow> jsnum" where
  "monthStep targetMonth targetYear acc entry =
     (case parseDate (date entry) of
        None \<Rightarrow> acc
      | Some dt \<Rightarrow>
          if strictEq (getMonth dt) targetMonth \<and> strictEq (getFullYear dt) targetYear
          then (case amount entry of Number a \<Rightarrow> acc + a | _ \<Rightarrow> acc)
          else acc)"

text \<open>\<^verbatim>\<open>targetDate.toLocaleString("default", {month: "short"})\<close>, in an English locale.\<close>

definition monthShort :: "jsdate \<Rightarrow> string" where
  "monthShort d =
     (case d of InvalidDate \<Rightarrow> ''Invalid Date'' | ValidDate t \<Rightarrow> MONTHS ! MonthFromTime t)"

record balance_state =
  balances :: "BalanceDataPoint list"
  thisMonthIncome :: jsnum
  thisMonthExpense :: jsnum

text \<open>One round of the loop \<^verbatim>\<open>for (let i = 5; i >= 0; i--)\<close>.\<close>

definition balanceRound :: "int \<Rightarrow> int \<Rightarrow> doc list \<Rightarrow> doc list \<Rightarrow> balance_state \<Rightarrow> int \<Rightarrow> balance_state" where
  "balanceRound month year incomeSnap expenseSnap st i =
     (let targetDate = newDateYM year (month - i);
          targetMonth = getMonth targetDate;
          targetYear = getFullYear targetDate;
          monthIncome = foldl (monthStep targetMonth targetYear) (Num 0) incomeSnap;
          monthExpense = foldl (monthStep targetMonth targetYear) (Num 0) expenseSnap;
          st' = st\<lparr>balances := balances st
                   @ [\<lparr>bd_month = monthShort targetDate, bd_balance = monthIncome - monthExpense\<rparr>]\<rparr>
      in if strictEq targetMonth (Num (of_int month)) \<and> strictEq targetYear (Num (of_int year))
         then st'\<lparr>thisMonthIncome := monthIncome, thisMonthExpense := monthExpense\<rparr>
         else st')"

text \<open>
  The aggregation of \<^verbatim>\<open>fetchData\<close>: the six balances of the chart and the income and expense
  of the selected month. (The percentage shown beside them is derived from these values
  and is not part of the model.)
\<close>

definition fetchData :: "int \<Rightarrow> int \<Rightarrow> doc list \<Rightarrow> doc list \<Rightarrow> balance_state" where
  "fetchData month year incomeSnap expenseSnap =
     foldl (balanceRound month year incomeSnap expenseSnap)
       \<lparr>balances = [], thisMonthIncome = Num 0, thisMonthExpense = Num 0\<rparr>
       [5, 4, 3, 2, 1, 0]"

section \<open>Latest transactions and the statement export\<close>

record Transaction =
  txn_id :: string
  txn_title :: string
  txn_amount :: jsnum
  txn_type :: string
  txn_date :: jsdate

definition incomeTransactions :: "int \<Rightarrow> int \<Rightarrow> doc \<Rightarrow> Transaction list" where
  "incomeTransactions month year d =
     (case parseDate (date d) of
        None \<Rightarrow> []
      | Some dt \<Rightarrow>
          if getFullYear dt = Num (of_int year) \<and> getMonth dt = Num (of_int month) then
            (case amount d of
               Number a \<Rightarrow>
                 [\<lparr>txn_id = doc_id d,
                   txn_title = orElse (title d) (orElse (source d) ''Income''),
                   txn_amount = a,
                   txn_type = ''Income'',
                   txn_date = dt\<rparr>]
             | _ \<Rightarrow> [])
          else [])"

definition expenseTransactions :: "int \<Rightarrow> int \<Rightarrow> doc \<Rightarrow> Transaction list" where
  "expenseTransactions month year d =
     (case parseDate (date d) of
        None \<Rightarrow> []
      | Some dt \<Rightarrow>
          if getFullYear dt = Num (of_int year) \<and> getMonth dt = Num (of_int month) then
            (case amount d of
               Number a \<Rightarrow>
                 [\<lparr>txn_id = doc_id d,
                   txn_title = orElse (title d) (orElse (category d) ''Expense''),
                   txn_amount = - a,
                   txn_type = orElse (category d) ''Expense'',
                   txn_date = dt\<rparr>]
             | _ \<Rightarrow> [])
          else [])"

text \<open>
  The body of the \<^verbatim>\<open>try\<close> block of \<^verbatim>\<open>fetchTransactions\<close>, on the documents that the two queries
  return: the values it hands to \<^verbatim>\<open>setAllMonthlyTransactions\<close> and
  \<^verbatim>\<open>setTransactionsToDisplay\<close>.
\<close>

definition compareByDateDesc :: "Transaction \<Rightarrow> Transaction \<Rightarrow> jsnum" where
  "compareByDateDesc a b = getTime (txn_date b) - getTime (txn_date a)"

definition allMonthlyTransactions :: "int \<Rightarrow> int \<Rightarrow> doc list \<Rightarrow> doc list \<Rightarrow> Transaction list" where
  "allMonthlyTransactions month year incomeSnap expenseSnap =
     sortBy compareByDateDesc
       (concat (map (incomeTransactions month year) incomeSnap)
        @ concat (map (expenseTransactions month year) expenseSnap))"

definition transactionsToDisplay :: "int \<Rightarrow> int \<Rightarrow> doc list \<Rightarrow> doc list \<Rightarrow> Transaction list" where
  "transactionsToDisplay month year incomeSnap expenseSnap =
     take 50 (allMonthlyTransactions month year incomeSnap expenseSnap)"

definition formatDate :: "jsdate \<Rightarrow> string" where
  "formatDate d = toLocaleDateString_long d"

text \<open>\<^verbatim>\<open>s.replace(/"/g, '""')\<close> and the quoting of a text field.\<close>

definition doubleQuotes :: "string \<Rightarrow> string" where
  "doubleQuotes s = concat (map (\<lambda>c. if c = CHR 0x22 then [CHR 0x22, CHR 0x22] else [c]) s)"

definition quoted :: "string \<Rightarrow> string" where
  "quoted s = [CHR 0x22] @ doubleQuotes s @ [CHR 0x22]"

definition csvHeader :: string where
  "csvHeader = ''Date,Title,Type,Amount'' @ [CHR 0x0A]"

definition csvRow :: "Transaction \<Rightarrow> string" where
  "csvRow txn =
     formatDate (txn_date txn) @ '','' @ quoted (txn_title txn) @ '','' @ quoted (txn_type txn)
       @ '','' @ toFixed2 (txn_amount txn)"

definition csvRows :: "Transaction list \<Rightarrow> string list" where
  "csvRows txns = map csvRow txns"

text \<open>\<^verbatim>\<open>handleDownloadStatement\<close>: the text of the downloaded file, or \<open>None\<close> when the handler
  returns at once because there is nothing to export.\<close>

definition handleDownloadStatement :: "Transaction list \<Rightarrow> string option" where
  "handleDownloadStatement allMonthly =
     (if length allMonthly = 0 then None
      else Some (csvHeader @ join [CHR 0x0A] (csvRows allMonthly)))"

text \<open>
  How a reader of comma-separated values splits one line into columns: a comma separates two
  columns unless it stands inside a quoted field; a doubled quote inside a quoted field
  leaves the field open.
\<close>

fun csvColumns :: "bool \<Rightarrow> string \<Rightarrow> string \<Rightarrow> string list" where
  "csvColumns inQuotes acc [] = [rev acc]"
| "csvColumns inQuotes acc (c # cs) =
     (if c = CHR 0x22 then csvColumns (\<not> inQuotes) (c # acc) cs
      else if c = CHR '','' \<and> \<not> inQuotes then rev acc # csvColumns False [] cs
      else csvColumns inQuotes (c # acc) cs)"

subsection \<open>The state of the component\<close>

text \<open>
  The four state variables of \<^verbatim>\<open>LatestTransactionsTable\<close>, with their initial values.
\<close>

record table_state =
  st_transactionsToDisplay :: "Transaction list"
  st_allMonthlyTransactions :: "Transaction list"
  st_loading :: bool
  st_error :: "string option"

definition initialState :: table_state where
  "initialState =
     \<lparr>st_transactionsToDisplay = [], st_allMonthlyTransactions = [], st_loading = True,
      st_error = None\<rparr>"

text \<open>
  One run of \<^verbatim>\<open>fetchTransactions\<close>, which the effect starts whenever the month, the year or
  the user changes, from the state it finds to the state it leaves. Each of the two
  \<^verbatim>\<open>getDocs\<close> calls returns the documents of the user or rejects (\<open>None\<close>). A rejection takes
  the run to the \<^verbatim>\<open>catch\<close> block, which sets the error message and nothing else; the
  \<^verbatim>\<open>finally\<close> block clears the loading flag.
\<close>

definition fetchTransactions ::
  "int \<Rightarrow> int \<Rightarrow> doc list option \<Rightarrow> doc list option \<Rightarrow> table_state \<Rightarrow> table_state" where
  "fetchTransactions month year incomeSnap expenseSnap st =
     (case (incomeSnap, expenseSnap) of
        (Some incomeDocs, Some expenseDocs) \<Rightarrow>
          st\<lparr>st_allMonthlyTransactions := allMonthlyTransactions month year incomeDocs expenseDocs,
             st_transactionsToDisplay := transactionsToDisplay month year incomeDocs expenseDocs,
             st_loading := False,
             st_error := None\<rparr>
      | _ \<Rightarrow>
          st\<lparr>st_loading := False,
             st_error := Some ''Failed to load transactions. Please try again.''\<rparr>)"

text \<open>What the card shows below its heading: the spinner, the error message, the list, or
  the note that nothing was found.\<close>

datatype view = Spinner | ErrorNote string | Listed "Transaction list" | NothingFound

definition render :: "table_state \<Rightarrow> view" where
  "render st =
     (if st_loading st then Spinner
      else case st_error st of
        Some e \<Rightarrow> ErrorNote e
      | None \<Rightarrow>
          if length (st_transactionsToDisplay st) > 0 then Listed (st_transactionsToDisplay st)
          else NothingFound)"

text \<open>
  The Download button is disabled while loading or while \<^verbatim>\<open>allMonthlyTransactions\<close> is empty;
  a click on the enabled button runs \<^verbatim>\<open>handleDownloadStatement\<close>, and the file is named
  after the month and the year that are selected at that moment (the month name as an
  English locale prints it).
\<close>

definition downloadDisabled :: "table_state \<Rightarrow> bool" where
  "downloadDisabled st \<longleftrightarrow> st_loading st \<or> length (st_allMonthlyTransactions st) = 0"

definition selectedMonthName :: "int \<Rightarrow> int \<Rightarrow> string" where
  "selectedMonthName month year =
     (case newDateYM year month of
        InvalidDate \<Rightarrow> ''Invalid Date''
      | ValidDate t \<Rightarrow> monthLong ! MonthFromTime t)"

definition intText :: "int \<Rightarrow> string" where
  "intText n = (if n < 0 then ''-'' @ natDigits (nat (- n)) else natDigits (nat n))"

record download =
  file_name :: string
  file_text :: string

definition clickDownload :: "int \<Rightarrow> int \<Rightarrow> table_state \<Rightarrow> download option" where
  "clickDownload month year st =
     (if downloadDisabled st then None
      else case handleDownloadStatement (st_allMonthlyTransactions st) of
        None \<Rightarrow> None
      | Some content \<Rightarrow>
          Some \<lparr>file_name = ''Statement_'' @ selectedMonthName month year @ ''_'' @ intText year
                              @ ''.csv'',
                file_text = content\<rparr>)"

section \<open>Write paths\<close>

text \<open>
  A document handed to \<^verbatim>\<open>addDoc\<close>, with the name of its collection. The server time stamp
  \<^verbatim>\<open>createdAt\<close> is assigned by the store and carries no information here.
\<close>

record new_doc =
  new_amount :: jsnum
  new_date :: jsval
  new_category :: "string option"
  new_source :: "string option"
  new_userId :: string

text \<open>The outcome of a handler: the notice shown to the user and the store writes made.\<close>

record outcome =
  notice :: string
  writes :: "(string \<times> new_doc) list"

text \<open>\<^verbatim>\<open>raw.replace(/(?<=\d),(?=\d)/g, "").trim()\<close>: a comma between two digits is removed.\<close>

fun removeDigitCommas :: "bool \<Rightarrow> string \<Rightarrow> string" where
  "removeDigitCommas afterDigit [] = []"
| "removeDigitCommas afterDigit [c] = [c]"
| "removeDigitCommas afterDigit (c # n # cs) =
     (if c = CHR '','' \<and> afterDigit \<and> isDigit n then removeDigitCommas False (n # cs)
      else c # removeDigitCommas (isDigit c) (n # cs))"

definition normalizeAmount :: "string \<Rightarrow> string" where
  "normalizeAmount raw = trim (removeDigitCommas False raw)"

text \<open>\<^verbatim>\<open>date.toISOString()\<close>, which raises a \<^verbatim>\<open>RangeError\<close> on the invalid date (\<open>None\<close>).\<close>

definition pad2 :: "int \<Rightarrow> string" where
  "pad2 n = padStart 2 (CHR ''0'') (natDigits (nat n))"

definition toISOString :: "jsdate \<Rightarrow> string option" where
  "toISOString d =
     (case d of
        InvalidDate \<Rightarrow> None
      | ValidDate t \<Rightarrow>
          (let y = YearFromTime t;
               ms = TimeWithinDay t;
               yearText = (if 0 \<le> y \<and> y \<le> 9999 then padStart 4 (CHR ''0'') (natDigits (nat y))
                           else (if y < 0 then ''-'' else ''+'')
                                @ padStart 6 (CHR ''0'') (natDigits (nat \<bar>y\<bar>)))
           in Some (yearText @ ''-'' @ pad2 (int (MonthFromTime t) + 1) @ ''-'' @ pad2 (DateFromTime t)
                    @ ''T'' @ pad2 (ms div 3600000) @ '':'' @ pad2 (ms mod 3600000 div 60000)
                    @ '':'' @ pad2 (ms mod 60000 div 1000)
                    @ ''.'' @ padStart 3 (CHR ''0'') (natDigits (nat (ms mod 1000))) @ ''Z'')))"

subsection \<open>\<^verbatim>\<open>AddIncomeForm\<close>\<close>

record income_form =
  inc_amount :: string
  inc_source :: string
  inc_customSource :: string
  inc_date :: "jsdate option"
  inc_user :: "string option"

definition handleSubmit_income :: "income_form \<Rightarrow> outcome" where
  "handleSubmit_income st =
     (let isCustomSource = (inc_source st = ''Other'');
          finalSource = (if isCustomSource then trim (inc_customSource st) else inc_source st)
      in case inc_date st of
           None \<Rightarrow> \<lparr>notice = ''All fields are required.'', writes = []\<rparr>
         | Some d \<Rightarrow>
             if inc_amount st = [] \<or> finalSource = []
             then \<lparr>notice = ''All fields are required.'', writes = []\<rparr>
             else
               (let parsedAmount = parseFloat (normalizeAmount (inc_amount st))
                in if isNaN parsedAmount \<or> num_le parsedAmount (Num 0)
                   then \<lparr>notice = ''Enter a valid amount > 0'', writes = []\<rparr>
                   else
                     (case inc_user st of
                        None \<Rightarrow> \<lparr>notice = ''Login required'', writes = []\<rparr>
                      | Some uid \<Rightarrow>
                          (case toISOString d of
                             None \<Rightarrow> \<lparr>notice = ''Failed to add income'', writes = []\<rparr>
                           | Some isoText \<Rightarrow>
                               \<lparr>notice = ''Income saved'',
                                writes = [(''incomes'',
                                           \<lparr>new_amount = parsedAmount, new_date = Str isoText,
                                            new_category = None, new_source = Some finalSource,
                                            new_userId = uid\<rparr>)]\<rparr>))))"

subsection \<open>\<^verbatim>\<open>AddExpenseForm\<close>\<close>

record expense_form =
  exp_amount :: string
  exp_category :: string
  exp_customCategory :: string
  exp_date :: "jsdate option"
  exp_user :: "string option"

definition handleSubmit_expense :: "expense_form \<Rightarrow> outcome" where
  "handleSubmit_expense st =
     (let showCustomInput = (exp_category st = ''Other'' \<or> exp_category st = ''Misc'');
          finalCategory = (if showCustomInput then trim (exp_customCategory st) else exp_category st);
          numericAmount = parseFloat (normalizeAmount (exp_amount st))
      in case exp_date st of
           None \<Rightarrow> \<lparr>notice = ''All fields are required.'', writes = []\<rparr>
         | Some d \<Rightarrow>
             if exp_amount st = [] \<or> finalCategory = []
             then \<lparr>notice = ''All fields are required.'', writes = []\<rparr>
             else if isNaN numericAmount \<or> num_le numericAmount (Num 0)
             then \<lparr>notice = ''Enter a valid amount > 0'', writes = []\<rparr>
             else if showCustomInput \<and> trim (exp_customCategory st) = []
             then \<lparr>notice = ''Please enter custom category'', writes = []\<rparr>
             else
               (case exp_user st of
                  None \<Rightarrow> \<lparr>notice = ''Login required'', writes = []\<rparr>
                | Some uid \<Rightarrow>
                    (case toISOString d of
                       None \<Rightarrow> \<lparr>notice = ''Failed to save expense'', writes = []\<rparr>
                     | Some isoText \<Rightarrow>
                         \<lparr>notice = ''Expense saved'',
                          writes = [(''expenses'',
                                     \<lparr>new_amount = numericAmount, new_date = Str isoText,
                                      new_category = Some finalCategory, new_source = None,
                                      new_userId = uid\<rparr>)]\<rparr>)))"

subsection \<open>Statement upload\<close>

record ExtractedTransaction =
  et_date :: string
  et_description :: string
  et_amount :: jsnum
  et_type :: string
  et_classifiedAs :: string

text \<open>\<^verbatim>\<open>s.toLowerCase()\<close> on the letters of the ASCII alphabet.\<close>

definition lowerOf :: "char \<Rightarrow> char" where
  "lowerOf c =
     (case map_of (zip ''ABCDEFGHIJKLMNOPQRSTUVWXYZ'' ''abcdefghijklmnopqrstuvwxyz'') c of
        None \<Rightarrow> c
      | Some l \<Rightarrow> l)"

definition toLowerCase :: "string \<Rightarrow> string" where
  "toLowerCase s = map lowerOf s"

fun str_includes :: "string \<Rightarrow> string \<Rightarrow> bool" where
  "str_includes [] p = (p = [])"
| "str_includes (c # cs) p = (startsWith (c # cs) p \<or> str_includes cs p)"

definition guessExpenseCategory :: "string \<Rightarrow> string" where
  "guessExpenseCategory desc =
     (let lower = toLowerCase desc in
      if str_includes lower ''zomato'' \<or> str_includes lower ''swiggy'' then ''Food''
      else if str_includes lower ''amazon'' \<or> str_includes lower ''flipkart'' then ''Shopping''
      else if str_includes lower ''atm'' \<or> str_includes lower ''withdrawal'' then ''Cash''
      else if str_includes lower ''rent'' then ''Housing''
      else if str_includes lower ''electricity'' \<or> str_includes lower ''bill'' then ''Utilities''
      else ''Misc'')"

definition isValidDate :: "string \<Rightarrow> bool" where
  "isValidDate input = (case Date_parse input of InvalidDate \<Rightarrow> False | ValidDate _ \<Rightarrow> True)"

text \<open>The document that \<^verbatim>\<open>handleSaveToFirebase\<close> builds for one extracted transaction, with
  the collection it goes to; \<open>now\<close> is the value of \<^verbatim>\<open>new Date()\<close>.\<close>

definition uploadDoc :: "string \<Rightarrow> jsdate \<Rightarrow> ExtractedTransaction \<Rightarrow> string \<times> new_doc" where
  "uploadDoc uid now tx =
     ((if toLowerCase (et_classifiedAs tx) = ''income'' then ''incomes'' else ''expenses''),
      \<lparr>new_amount = \<bar>et_amount tx\<bar>,
       new_date = DateObj (if isValidDate (et_date tx) then Date_parse (et_date tx) else now),
       new_category = Some (if et_classifiedAs tx = ''Income'' then ''Salary''
                            else guessExpenseCategory (et_description tx)),
       new_source = None,
       new_userId = uid\<rparr>)"

definition handleSaveToFirebase :: "string option \<Rightarrow> jsdate \<Rightarrow> ExtractedTransaction list \<Rightarrow> outcome" where
  "handleSaveToFirebase user now transactions =
     (case user of
        None \<Rightarrow> \<lparr>notice = [], writes = []\<rparr>
      | Some uid \<Rightarrow>
          if length transactions = 0 then \<lparr>notice = [], writes = []\<rparr>
          else \<lparr>notice = ''Transactions saved successfully.'',
                writes = map (uploadDoc uid now) transactions\<rparr>)"

section \<open>Notions used to state the properties\<close>

text \<open>
  A document that a loop of the summary route adds to its total: its amount is a number
  and \<^verbatim>\<open>isWithinRange\<close> accepts its date. \<open>amountNum\<close> is the number that is then added.
\<close>

definition admitted :: "jsdate option \<Rightarrow> jsdate option \<Rightarrow> doc \<Rightarrow> bool" where
  "admitted fromDate toDate d = (isNumber (amount d) \<and> isWithinRange fromDate toDate (date d))"

definition amountNum :: "doc \<Rightarrow> jsnum" where
  "amountNum d = (case amount d of Number a \<Rightarrow> a | _ \<Rightarrow> Num 0)"

text \<open>
  The running total of a list of numbers, added one after the other from 0 as a loop with
  \<^verbatim>\<open>+=\<close> does, each addition rounding; and the same with \<^verbatim>\<open>(total || 0) + x\<close> as the step.
\<close>

definition sumNums :: "jsnum list \<Rightarrow> jsnum" where
  "sumNums xs = foldl (+) (Num 0) xs"

definition sumOr0 :: "jsnum list \<Rightarrow> jsnum" where
  "sumOr0 xs = foldl (\<lambda>acc x. or0 (acc + x)) (Num 0) xs"

text \<open>A number that is neither \<^verbatim>\<open>NaN\<close> nor an infinity.\<close>

definition isFinite :: "jsnum \<Rightarrow> bool" where
  "isFinite x = (case x of Num _ \<Rightarrow> True | _ \<Rightarrow> False)"

text \<open>An amount near the top of the range of doubles, \<open>2\<^sup>1\<^sup>0\<^sup>2\<^sup>3\<close> (about 8.99e307).\<close>

definition largeAmount :: jsnum where
  "largeAmount = Num (2 ^ 1023)"

text \<open>
  Amounts that add up without rounding: whole numbers whose absolute values sum to at most
  \<open>2\<^sup>5\<^sup>3\<close>, so that every partial sum of any selection of them is a whole number that a
  double holds. \<open>wholeSum\<close> is their exact sum.
\<close>

definition isWhole :: "jsnum \<Rightarrow> bool" where
  "isWhole x = (case x of Num r \<Rightarrow> of_int \<lfloor>r\<rfloor> = r | _ \<Rightarrow> False)"

definition intOf :: "jsnum \<Rightarrow> int" where
  "intOf x = (case x of Num r \<Rightarrow> \<lfloor>r\<rfloor> | _ \<Rightarrow> 0)"

definition wholeSum :: "jsnum list \<Rightarrow> int" where
  "wholeSum xs = sum_list (map intOf xs)"

definition exactlySummable :: "jsnum list \<Rightarrow> bool" where
  "exactlySummable xs \<longleftrightarrow>
     list_all isWhole xs \<and> sum_list (map (\<lambda>x. \<bar>intOf x\<bar>) xs) \<le> 9007199254740992"

text \<open>
  A document that \<^verbatim>\<open>fetchTransactions\<close> (and \<^verbatim>\<open>fetchCategoryData\<close>) admits for the selected
  month and year: the condition of their \<^verbatim>\<open>if\<close>.
\<close>

definition inMonth :: "int \<Rightarrow> int \<Rightarrow> doc \<Rightarrow> bool" where
  "inMonth month year d =
     (case parseDate (date d) of
        None \<Rightarrow> False
      | Some dt \<Rightarrow>
          getFullYear dt = Num (of_int year) \<and> getMonth dt = Num (of_int month)
          \<and> isNumber (amount d))"

text \<open>A document that \<^verbatim>\<open>fetchSavingsData\<close> admits for the selected year, and the index of the
  month bucket that it is credited to.\<close>

definition inYear :: "int \<Rightarrow> doc \<Rightarrow> bool" where
  "inYear year d =
     (case parseDate (date d) of
        None \<Rightarrow> False
      | Some parsed \<Rightarrow> getFullYear parsed = Num (of_int year) \<and> isNumber (amount d))"

definition docMonth :: "doc \<Rightarrow> nat option" where
  "docMonth d =
     (case parseDate (date d) of
        None \<Rightarrow> None
      | Some InvalidDate \<Rightarrow> None
      | Some (ValidDate t) \<Rightarrow> Some (MonthFromTime t))"

text \<open>The transaction that the list of the selected month holds for an admitted income
  document and for an admitted expense document.\<close>

definition docDate :: "doc \<Rightarrow> jsdate" where
  "docDate d = (case parseDate (date d) of None \<Rightarrow> InvalidDate | Some dt \<Rightarrow> dt)"

definition incomeEntry :: "doc \<Rightarrow> Transaction" where
  "incomeEntry d =
     \<lparr>txn_id = doc_id d, txn_title = orElse (title d) (orElse (source d) ''Income''),
      txn_amount = amountNum d, txn_type = ''Income'', txn_date = docDate d\<rparr>"

definition expenseEntry :: "doc \<Rightarrow> Transaction" where
  "expenseEntry d =
     \<lparr>txn_id = doc_id d, txn_title = orElse (title d) (orElse (category d) ''Expense''),
      txn_amount = - amountNum d, txn_type = orElse (category d) ''Expense'',
      txn_date = docDate d\<rparr>"

text \<open>A record that \<^verbatim>\<open>buildMonthlyIncomeData\<close> admits: its date is present and valid.\<close>

definition hasValidDate :: "IncomeRecord \<Rightarrow> bool" where
  "hasValidDate r =
     (case parseIncomeDate (ir_date r) of
        None \<Rightarrow> False
      | Some InvalidDate \<Rightarrow> False
      | Some (ValidDate _) \<Rightarrow> True)"

text \<open>The first transaction is at least as recent as the second.\<close>

definition newerOrEqual :: "Transaction \<Rightarrow> Transaction \<Rightarrow> bool" where
  "newerOrEqual a b = num_ge (getTime (txn_date a)) (getTime (txn_date b))"

text \<open>A date that does not parse to a point in time: absent, of no known shape, or invalid.\<close>

definition unparseable :: "jsval \<Rightarrow> bool" where
  "unparseable raw =
     (case parseDate raw of None \<Rightarrow> True | Some InvalidDate \<Rightarrow> True | Some (ValidDate _) \<Rightarrow> False)"

text \<open>A transaction whose date is a point in time.\<close>

definition dated :: "Transaction \<Rightarrow> bool" where
  "dated t = (txn_date t \<noteq> InvalidDate)"

text \<open>The month bucket that \<^verbatim>\<open>buildMonthlyIncomeData\<close> and \<^verbatim>\<open>buildMonthlyExpenseData\<close> credit a
  record to, if any.\<close>

definition incomeMonth :: "IncomeRecord \<Rightarrow> string option" where
  "incomeMonth r =
     (case parseIncomeDate (ir_date r) of
        None \<Rightarrow> None
      | Some InvalidDate \<Rightarrow> None
      | Some (ValidDate t) \<Rightarrow> Some (MONTHS_ORDER ! MonthFromTime t))"

definition expenseMonth :: "ExpenseData \<Rightarrow> string option" where
  "expenseMonth r =
     (case parseDate (ed_date r) of
        None \<Rightarrow> None
      | Some InvalidDate \<Rightarrow> None
      | Some (ValidDate t) \<Rightarrow> Some (MONTHS ! MonthFromTime t))"

text \<open>The category that \<^verbatim>\<open>fetchCategoryData\<close> and the summary route credit an expense to.\<close>

definition chartCategory :: "doc \<Rightarrow> string" where
  "chartCategory d = orElse (category d) ''Uncategorized''"

definition routeCategory :: "doc \<Rightarrow> string" where
  "routeCategory d = (case category d of Some c \<Rightarrow> c | None \<Rightarrow> ''Other'')"

section \<open>Properties of the bullet parser\<close>

lemma isWhiteSpace_simps [simp]:
  "isWhiteSpace (CHR '' '')" "isWhiteSpace (CHR 0x0A)"
  "\<not> isWhiteSpace (CHR ''*'')"
  by (simp_all add: isWhiteSpace_def)

lemma insight_scenario:
  "insightFromResponse (Some (''* Income is stable'' @ [CHR 0x0A] @ ''* Spending rose'' @ [CHR 0x0A] @ ''random text''))
     = InsightPoints [''Income is stable'', ''Spending rose'']"
  by (simp add: insightFromResponse_def parseBullets_def split_def trim_def trimStart_def
      trimEnd_def startsWith_def stripMarker_def isWhiteSpace_def Let_def)

lemma insight_capped:
  "insightFromResponse r = InsightPoints bs \<Longrightarrow> length bs \<le> 3"
  by (auto simp: insightFromResponse_def Let_def split: option.splits if_splits)

text \<open>
  Claim C9. The insight card keeps the lines that begin with the marker \<^verbatim>\<open>*\<close> once trimmed,
  strips the marker and caps the result at three. On the two-line content
  \<^verbatim>\<open>"* a\n  * b"\<close> the second line is kept (it begins with the marker once trimmed), but its
  marker is not stripped: the card shows \<^verbatim>\<open>"* b"\<close>, where the specification's parser gives
  \<^verbatim>\<open>"b"\<close>.
\<close>

theorem C9_indented_bullet_keeps_marker:
  "insightFromResponse (Some (''* a'' @ [CHR 0x0A] @ ''  * b'')) = InsightPoints [''a'', ''* b'']
   \<and> spec_bullets (''* a'' @ [CHR 0x0A] @ ''  * b'') = [''a'', ''b'']"
  by (simp add: insightFromResponse_def parseBullets_def spec_bullets_def split_def trim_def
      trimStart_def trimEnd_def startsWith_def stripMarker_def isWhiteSpace_def Let_def)

section \<open>Properties of the arithmetic of doubles\<close>

subsection \<open>Binary exponents\<close>

lemma roundHalfEven_of_int [simp]: "roundHalfEven (of_int k) = k"
  by (simp add: roundHalfEven_def)

lemma binadeUp_lower: "1 \<le> r \<Longrightarrow> 2 powi (binadeUp n r) \<le> r \<and> 0 \<le> binadeUp n r"
proof (induction n arbitrary: r)
  case 0
  then show ?case by simp
next
  case (Suc n)
  show ?case
  proof (cases "r < 2")
    case True
    with Suc.prems show ?thesis by simp
  next
    case False
    then have "1 \<le> r / 2" by simp
    from Suc.IH [OF this] have "2 powi (binadeUp n (r / 2)) \<le> r / 2" "0 \<le> binadeUp n (r / 2)"
      by auto
    with False show ?thesis
      by (simp add: power_int_add)
  qed
qed

lemma binadeUp_upper: "1 \<le> r \<Longrightarrow> r < 2 ^ n \<Longrightarrow> r < 2 powi (binadeUp n r + 1)"
proof (induction n arbitrary: r)
  case 0
  then show ?case by simp
next
  case (Suc n)
  show ?case
  proof (cases "r < 2")
    case True
    then show ?thesis by simp
  next
    case False
    with Suc.prems have "1 \<le> r / 2" "r / 2 < 2 ^ n" by simp_all
    from Suc.IH [OF this] have "r / 2 < 2 powi (binadeUp n (r / 2) + 1)" .
    with False show ?thesis
      by (simp add: power_int_add)
  qed
qed

lemma binadeDown_lower: "2 powi (- int n) \<le> r \<Longrightarrow> 2 powi (binadeDown n r) \<le> r"
proof (induction n arbitrary: r)
  case 0
  then show ?case by simp
next
  case (Suc n)
  show ?case
  proof (cases "1 \<le> r")
    case True
    then show ?thesis by simp
  next
    case False
    from Suc.prems have "2 powi (- int n) \<le> 2 * r"
      by (simp add: power_int_diff power_int_minus field_simps)
    from Suc.IH [OF this] have "2 powi (binadeDown n (2 * r)) \<le> 2 * r" .
    with False show ?thesis
      by (simp add: power_int_diff)
  qed
qed

lemma binadeDown_upper: "0 < r \<Longrightarrow> r < 1 \<Longrightarrow> 2 powi (- int n) \<le> r \<Longrightarrow> r < 2 powi (binadeDown n r + 1)"
proof (induction n arbitrary: r)
  case 0
  then show ?case by simp
next
  case (Suc n)
  show ?case
  proof (cases "1 \<le> 2 * r")
    case True
    with Suc.prems show ?thesis
      by (cases n) simp_all
  next
    case False
    from Suc.prems have "2 powi (- int n) \<le> 2 * r"
      by (simp add: power_int_diff power_int_minus field_simps)
    with Suc.IH [of "2 * r"] False Suc.prems have "2 * r < 2 powi (binadeDown n (2 * r) + 1)"
      by simp
    with Suc.prems show ?thesis
      by (simp add: power_int_add)
  qed
qed


lemma pow2_le_iff [simp]: "(2::rat) powi m \<le> 2 powi n \<longleftrightarrow> m \<le> n"
proof
  assume le: "(2::rat) powi m \<le> 2 powi n"
  show "m \<le> n"
  proof (rule ccontr)
    assume "\<not> m \<le> n"
    then have "n < m" by simp
    from power_int_strict_increasing [OF this, of "2::rat"] le show False by simp
  qed
next
  assume "m \<le> n"
  then show "(2::rat) powi m \<le> 2 powi n"
    by (intro power_int_increasing) simp_all
qed

lemma pow2_less_iff [simp]: "(2::rat) powi m < 2 powi n \<longleftrightarrow> m < n"
  using pow2_le_iff [of n m] by (simp only: not_le [symmetric])

lemma binade_bounds:
  assumes "2 powi (- 1100) \<le> a" "a < 2 powi 1100"
  shows "2 powi (binade a) \<le> a \<and> a < 2 powi (binade a + 1)"
proof (cases "1 \<le> a")
  case True
  from assms(2) have "a < 2 ^ 1100" by simp
  with True binadeUp_lower [of a 1100] binadeUp_upper [of a 1100] show ?thesis
    by (simp add: binade_def)
next
  case False
  have "(0::rat) < 2 powi (- 1100)" by simp
  with assms(1) have "0 < a" by linarith
  moreover from assms(1) have "2 powi (- int 1100) \<le> a" by simp
  ultimately show ?thesis
    using False binadeDown_lower [of 1100 a] binadeDown_upper [of a 1100]
    by (simp add: binade_def)
qed

lemma binade_unique:
  assumes "2 powi e \<le> (a::rat)" "a < 2 powi (e + 1)" "2 powi e' \<le> a" "a < 2 powi (e' + 1)"
  shows "e = e'"
proof -
  from assms(1,4) have "(2::rat) powi e < 2 powi (e' + 1)" by linarith
  then have "e < e' + 1" by simp
  moreover from assms(3,2) have "(2::rat) powi e' < 2 powi (e + 1)" by linarith
  then have "e' < e + 1" by simp
  ultimately show ?thesis by simp
qed

lemma binade_eqI:
  assumes "2 powi e \<le> a" "a < 2 powi (e + 1)" "- 1100 \<le> e" "e < 1100"
  shows "binade a = e"
proof -
  have "(2::rat) powi (- 1100) \<le> 2 powi e"
    using assms(3) by (simp only: pow2_le_iff)
  with assms(1) have lo: "2 powi (- 1100) \<le> a" by linarith
  have "(2::rat) powi (e + 1) \<le> 2 powi 1100"
    using assms(4) by (simp only: pow2_le_iff)
  with assms(2) have hi: "a < 2 powi 1100" by linarith
  from binade_bounds [OF lo hi] assms(1,2) show ?thesis
    using binade_unique by blast
qed

lemma fl_not_NaN [simp]: "fl r \<noteq> NaN"
  by (simp add: fl_def Let_def)

lemma fl_zero [simp]: "fl 0 = Num 0"
  by (simp add: fl_def)

lemma fl_uminus: "fl (- r) = - fl r"
  by (cases "r = 0"; cases "r < 0") (simp_all add: fl_def Let_def)

subsection \<open>Values that the rounding leaves as they are\<close>

text \<open>A value that has at most 53 significant bits, at an exponent that is not too small, and
  that is below the overflow threshold is left as it is by the rounding.\<close>

lemma quantum_representable:
  assumes "0 < m" "m \<le> 2 ^ 53" "- 1074 \<le> q0" "a = of_int m * 2 powi q0" "a < 2 powi 1024"
  shows "quantum a \<le> q0 \<or> (quantum a = q0 + 1 \<and> m = 2 ^ 53)"
proof (cases "a < 2 powi (- 1022)")
  case True
  with assms(3) show ?thesis by (simp add: quantum_def)
next
  case False
  then have lo: "2 powi (- 1022) \<le> a" by simp
  have "(2::rat) powi (- 1100) \<le> 2 powi (- 1022)"
    by (simp only: pow2_le_iff)
  with lo have lo': "2 powi (- 1100) \<le> a" by linarith
  have "(2::rat) powi 1024 \<le> 2 powi 1100"
    by (simp only: pow2_le_iff)
  with assms(5) have hi': "a < 2 powi 1100" by linarith
  from binade_bounds [OF lo' hi'] have b: "2 powi (binade a) \<le> a" by simp
  have "of_int m \<le> (2::rat) ^ 53"
    using assms(2) by (metis of_int_le_iff of_int_numeral of_int_power)
  then have "a \<le> 2 ^ 53 * 2 powi q0"
    unfolding assms(4) by (intro mult_right_mono) simp_all
  also have "\<dots> = 2 powi (53 + q0)"
    by (simp add: power_int_add)
  finally have "(2::rat) powi (binade a) \<le> 2 powi (53 + q0)"
    using b by linarith
  then have le: "binade a \<le> 53 + q0" by simp
  show ?thesis
  proof (cases "binade a = 53 + q0")
    case True
    with b have "(2::rat) powi (53 + q0) \<le> of_int m * 2 powi q0"
      by (simp add: assms(4))
    then have "(2::rat) ^ 53 * 2 powi q0 \<le> of_int m * 2 powi q0"
      by (simp add: power_int_add)
    then have "(2::rat) ^ 53 \<le> of_int m"
      by simp
    then have "2 ^ 53 \<le> m"
      by (metis of_int_le_iff of_int_numeral of_int_power)
    with assms(2) True False show ?thesis
      by (simp add: quantum_def)
  next
    case False
    with le have "binade a < 53 + q0" by simp
    with \<open>\<not> a < 2 powi (- 1022)\<close> show ?thesis
      by (simp add: quantum_def)
  qed
qed

lemma scaled_is_int:
  assumes "0 < m" "m \<le> 2 ^ 53" "- 1074 \<le> q0" "a = of_int m * 2 powi q0" "a < 2 powi 1024"
  shows "\<exists>k. a / 2 powi (quantum a) = of_int k"
proof -
  from quantum_representable [OF assms]
  consider "quantum a \<le> q0" | "quantum a = q0 + 1" "m = 2 ^ 53" by blast
  then show ?thesis
  proof cases
    case 1
    define d where "d = nat (q0 - quantum a)"
    define P where "P = (2::rat) powi (quantum a)"
    from 1 have "q0 = quantum a + int d" by (simp add: d_def)
    then have "(2::rat) powi q0 = P * 2 ^ d"
      by (simp add: power_int_add P_def)
    moreover have "P \<noteq> 0" by (simp add: P_def)
    ultimately have "a / P = of_int m * 2 ^ d"
      using assms(4) by simp
    then have "a / 2 powi (quantum a) = of_int m * 2 ^ d"
      by (simp only: P_def)
    also have "\<dots> = of_int (m * 2 ^ d)" by simp
    finally show ?thesis by blast
  next
    case 2
    define P where "P = (2::rat) powi (quantum a)"
    have "P = 2 powi q0 * 2"
      by (simp add: 2(1) power_int_add P_def)
    with assms(4) 2(2) have "a / P = of_int (2 ^ 52)"
      by simp
    then show ?thesis
      unfolding P_def by blast
  qed
qed

lemma fl_representable_pos:
  assumes "0 < m" "m \<le> 2 ^ 53" "- 1074 \<le> q0" "a = of_int m * 2 powi q0" "a < 2 powi 1024"
  shows "fl a = Num a"
proof -
  from scaled_is_int [OF assms] obtain k where k: "a / 2 powi (quantum a) = of_int k" by blast
  then have v: "of_int k * 2 powi (quantum a) = a"
    by (simp add: field_simps)
  from assms(1,4) have "0 < a" by simp
  with k v assms(5) show ?thesis
    by (simp add: fl_def Let_def)
qed

lemma fl_representable:
  assumes "\<bar>m\<bar> \<le> 2 ^ 53" "- 1074 \<le> q0" "\<bar>of_int m * 2 powi q0\<bar> < (2::rat) powi 1024"
  shows "fl (of_int m * 2 powi q0) = Num (of_int m * 2 powi q0)"
proof -
  consider "m = 0" | "0 < m" | "m < 0" by linarith
  then show ?thesis
  proof cases
    case 1
    then show ?thesis by simp
  next
    case 2
    with assms have "of_int m * 2 powi q0 < (2::rat) powi 1024"
      by (simp add: abs_mult)
    with 2 assms show ?thesis
      by (intro fl_representable_pos [of m q0]) simp_all
  next
    case 3
    with assms have "of_int (- m) * 2 powi q0 < (2::rat) powi 1024"
      by (simp add: abs_mult)
    with 3 assms have "fl (of_int (- m) * 2 powi q0) = Num (of_int (- m) * 2 powi q0)"
      by (intro fl_representable_pos [of "- m" q0]) simp_all
    then show ?thesis
      using fl_uminus [of "of_int (- m) * 2 powi q0"] by simp
  qed
qed

lemma fl_of_int: "\<bar>n\<bar> \<le> 2 ^ 53 \<Longrightarrow> fl (of_int n) = Num (of_int n)"
proof -
  assume n: "\<bar>n\<bar> \<le> 2 ^ 53"
  have "(of_int \<bar>n\<bar> :: rat) \<le> of_int (2 ^ 53)"
    using n by (simp only: of_int_le_iff)
  also have "\<dots> < 2 powi 1024" by simp
  finally have "\<bar>of_int n * 2 powi 0\<bar> < (2::rat) powi 1024" by simp
  from fl_representable [OF n _ this] show ?thesis by simp
qed

lemma fl_numeral [simp]:
  "numeral k \<le> (9007199254740992::int) \<Longrightarrow> fl (numeral k) = Num (numeral k)"
  "numeral k \<le> (9007199254740992::int) \<Longrightarrow> fl (- numeral k) = Num (- numeral k)"
  using fl_of_int [of "numeral k"] fl_of_int [of "- numeral k"] by simp_all

lemma fl_one [simp]: "fl 1 = Num 1" "fl (- 1) = Num (- 1)"
  using fl_of_int [of 1] fl_of_int [of "- 1"] by simp_all

subsection \<open>Sign and magnitude\<close>

text \<open>A number from 1 on is not rounded below 1.\<close>

lemma fl_pos:
  assumes "1 \<le> r"
  shows "fl r = PosInf \<or> (\<exists>v. fl r = Num v \<and> 1 \<le> v)"
proof -
  define q where "q = quantum r"
  have "(2::rat) powi (- 1022) \<le> 2 powi 0"
    by (simp only: pow2_le_iff)
  with assms have "\<not> r < 2 powi (- 1022)"
    by simp
  then have q: "q = binadeUp 1100 r - 52"
    using assms by (simp add: q_def quantum_def binade_def)
  from binadeUp_lower [OF assms, of 1100] have b: "2 powi (binadeUp 1100 r) \<le> r" "0 \<le> binadeUp 1100 r"
    by simp_all
  have "2 powi (binadeUp 1100 r) = (2::rat) powi q * 2 ^ 52"
    by (simp add: q power_int_diff)
  with b have "2 ^ 52 \<le> r / 2 powi q"
    by (simp add: field_simps)
  then have "(2::rat) ^ 52 \<le> of_int \<lfloor>r / 2 powi q\<rfloor>"
    by (metis le_floor_iff of_int_numeral of_int_power of_int_le_iff)
  moreover have "\<lfloor>r / 2 powi q\<rfloor> \<le> roundHalfEven (r / 2 powi q)"
    by (simp add: roundHalfEven_def Let_def)
  ultimately have n: "(2::rat) ^ 52 \<le> of_int (roundHalfEven (r / 2 powi q))"
    by (meson of_int_le_iff order_trans)
  have "(1::rat) \<le> 2 powi (binadeUp 1100 r)"
    using b(2) by (simp add: one_le_power_int)
  also have "\<dots> = 2 ^ 52 * 2 powi q"
    by (simp add: q power_int_diff)
  also have "\<dots> \<le> of_int (roundHalfEven (r / 2 powi q)) * 2 powi q"
    using n by (intro mult_right_mono) simp_all
  finally have "(1::rat) \<le> of_int (roundHalfEven (r / 2 powi q)) * 2 powi q" .
  with assms show ?thesis
    by (simp add: fl_def Let_def q_def)
qed

text \<open>
  The rounding of a positive number, given its binary exponent and the integer that its
  scaled value rounds to.
\<close>

lemma fl_round:
  assumes "2 powi e \<le> a" "a < 2 powi (e + 1)" "- 1022 \<le> e" "e < 1024"
    and "roundHalfEven (a / 2 powi (e - 52)) = n"
    and "of_int n * 2 powi (e - 52) < (2::rat) powi 1024"
  shows "fl a = Num (of_int n * 2 powi (e - 52))"
proof -
  have "(0::rat) < 2 powi e" by simp
  with assms(1) have pos: "0 < a" by linarith
  have "(2::rat) powi (- 1022) \<le> 2 powi e"
    using assms(3) by (simp only: pow2_le_iff)
  with assms(1) have normal: "\<not> a < 2 powi (- 1022)" by linarith
  from assms(3,4) have "binade a = e"
    by (intro binade_eqI assms(1,2)) simp_all
  with normal have "quantum a = e - 52"
    by (simp add: quantum_def)
  with pos assms(5,6) show ?thesis
    by (simp add: fl_def Let_def)
qed

text \<open>The integer that a rational rounds to: the nearest one, or the even one of the two
  that are equally near.\<close>

lemma roundHalfEven_near:
  assumes "of_int n - 1 / 2 < x" "x < of_int n + 1 / 2"
  shows "roundHalfEven x = n"
proof (cases "of_int n \<le> x")
  case True
  with assms(2) have "\<lfloor>x\<rfloor> = n" by (simp add: floor_eq_iff)
  with assms(2) show ?thesis by (simp add: roundHalfEven_def Let_def)
next
  case False
  with assms(1) have "\<lfloor>x\<rfloor> = n - 1" by (simp add: floor_eq_iff)
  with assms(1) show ?thesis by (simp add: roundHalfEven_def Let_def)
qed

lemma roundHalfEven_tie_down: "x = of_int n + 1 / 2 \<Longrightarrow> even n \<Longrightarrow> roundHalfEven x = n"
proof -
  assume x: "x = of_int n + 1 / 2" and "even n"
  have "\<lfloor>x\<rfloor> = n" by (simp add: x floor_eq_iff)
  with \<open>even n\<close> show ?thesis by (simp add: roundHalfEven_def Let_def x)
qed

lemma roundHalfEven_tie_up: "x = of_int n - 1 / 2 \<Longrightarrow> even n \<Longrightarrow> roundHalfEven x = n"
proof -
  assume x: "x = of_int n - 1 / 2" and "even n"
  have "\<lfloor>x\<rfloor> = n - 1" by (simp add: x floor_eq_iff)
  with \<open>even n\<close> show ?thesis by (simp add: roundHalfEven_def Let_def x)
qed

subsection \<open>The ends of the range\<close>

lemma binadeUp_ge: "2 ^ k \<le> r \<Longrightarrow> k \<le> n \<Longrightarrow> int k \<le> binadeUp n r"
proof (induction n arbitrary: k r)
  case 0
  then show ?case by simp
next
  case (Suc n)
  show ?case
  proof (cases k)
    case 0
    have "(1::rat) \<le> 2 ^ k" by simp
    with Suc.prems(1) have "1 \<le> r" by linarith
    from binadeUp_lower [OF this, of "Suc n"] 0 show ?thesis by simp
  next
    case (Suc k')
    with Suc.prems have "2 ^ k' \<le> r / 2" "k' \<le> n" by simp_all
    from Suc.IH [OF this] have "int k' \<le> binadeUp n (r / 2)" .
    moreover have "\<not> r < 2"
    proof -
      have "(1::rat) \<le> 2 ^ k'" by simp
      moreover from Suc Suc.prems(1) have "2 * 2 ^ k' \<le> r" by simp
      ultimately show ?thesis by linarith
    qed
    ultimately show ?thesis
      using Suc by simp
  qed
qed

text \<open>A magnitude from \<open>2\<^sup>1\<^sup>0\<^sup>2\<^sup>4\<close> on overflows.\<close>

lemma fl_overflow:
  assumes "2 powi 1024 \<le> a"
  shows "fl a = PosInf"
proof -
  define e where "e = binadeUp 1100 a"
  have "(1::rat) \<le> 2 powi 1024"
    by (rule one_le_power_int) simp_all
  with assms have one: "1 \<le> a" by linarith
  have "(2::rat) powi (- 1022) \<le> 2 powi 0"
    by (simp only: pow2_le_iff)
  with one have normal: "\<not> a < 2 powi (- 1022)" by simp
  from assms have "2 ^ 1024 \<le> a" by simp
  from binadeUp_ge [OF this, of 1100] have e: "1024 \<le> e"
    by (simp add: e_def)
  from binadeUp_lower [OF one, of 1100] have low: "2 powi e \<le> a"
    by (simp add: e_def)
  define q where "q = e - 52"
  have "2 powi e = (2::rat) powi q * 2 ^ 52"
    by (simp add: q_def power_int_diff)
  with low have "2 ^ 52 \<le> a / 2 powi q"
    by (simp add: field_simps)
  then have "(2::rat) ^ 52 \<le> of_int \<lfloor>a / 2 powi q\<rfloor>"
    by (metis le_floor_iff of_int_numeral of_int_power of_int_le_iff)
  moreover have "\<lfloor>a / 2 powi q\<rfloor> \<le> roundHalfEven (a / 2 powi q)"
    by (simp add: roundHalfEven_def Let_def)
  ultimately have n: "(2::rat) ^ 52 \<le> of_int (roundHalfEven (a / 2 powi q))"
    by (meson of_int_le_iff order_trans)
  have "(2::rat) powi 1024 \<le> 2 powi e"
    using e by (simp only: pow2_le_iff)
  also have "\<dots> = 2 ^ 52 * 2 powi q"
    by (simp add: q_def power_int_diff)
  also have "\<dots> \<le> of_int (roundHalfEven (a / 2 powi q)) * 2 powi q"
    using n by (intro mult_right_mono) simp_all
  finally have "(2::rat) powi 1024 \<le> of_int (roundHalfEven (a / 2 powi q)) * 2 powi q" .
  moreover have "quantum a = q"
    using normal one by (simp add: quantum_def binade_def q_def e_def)
  moreover from one have "0 < a" by simp
  ultimately show ?thesis
    by (simp add: fl_def Let_def)
qed

text \<open>A magnitude up to half the smallest double is rounded to zero.\<close>

lemma fl_underflow:
  assumes "0 \<le> a" "a \<le> 2 powi (- 1075)"
  shows "fl a = Num 0"
proof (cases "a = 0")
  case True
  then show ?thesis by simp
next
  case False
  with assms(1) have pos: "0 < a" by simp
  have "(2::rat) powi (- 1075) < 2 powi (- 1022)"
    by (simp only: pow2_less_iff)
  with assms(2) have q: "quantum a = - 1074"
    by (simp add: quantum_def)
  have "(2::rat) powi (- 1075) = 2 powi (- 1074) * (1 / 2)"
    using power_int_add [of "2::rat" "- 1074" "- 1"] by simp
  define x where "x = a / 2 powi (- 1074)"
  have "(0::rat) < 2 powi (- 1074)" by (rule zero_less_power_int) simp
  with assms(2) \<open>2 powi (- 1075) = 2 powi (- 1074) * (1 / 2)\<close> have half: "x \<le> 1 / 2"
    unfolding x_def by (simp only: pos_divide_le_eq mult.commute)
  from pos have nonneg: "0 \<le> x" by (simp add: x_def)
  have "roundHalfEven x = 0"
  proof (cases "x = 1 / 2")
    case True
    then show ?thesis by (intro roundHalfEven_tie_down) simp_all
  next
    case False
    with half nonneg show ?thesis by (intro roundHalfEven_near) simp_all
  qed
  with pos q show ?thesis
    by (simp add: fl_def Let_def x_def)
qed

subsection \<open>The operations\<close>

lemma isNaN_simps [simp]:
  "\<not> isNaN (Num r)" "isNaN NaN" "\<not> isNaN PosInf" "\<not> isNaN NegInf" "\<not> isNaN (fl q)"
  by (simp_all add: isNaN_def split: jsnum.splits)

lemma isFinite_simps [simp]:
  "isFinite (Num r)" "\<not> isFinite NaN" "\<not> isFinite PosInf" "\<not> isFinite NegInf"
  by (simp_all add: isFinite_def)

lemma minus_Num [simp]: "Num a - Num b = fl (a - b)"
  by (simp add: minus_jsnum_def)

lemma minus_NaN [simp]: "NaN - x = NaN" "x - NaN = NaN"
  by (cases x; simp add: minus_jsnum_def)+

lemma or0_Num [simp]: "or0 (Num r) = Num r"
  by (simp add: or0_def num_truthy_def)

lemma or0_not_NaN [simp]: "\<not> isNaN (or0 x)"
  by (cases x) (simp_all add: or0_def num_truthy_def)

lemma or0_id: "\<not> isNaN x \<Longrightarrow> or0 x = x"
  by (cases x) (simp_all add: or0_def num_truthy_def)

text \<open>The sum of two finite numbers is never \<^verbatim>\<open>NaN\<close>; once a running total of finite numbers
  has overflowed it stays at that infinity.\<close>

lemma plus_finite_not_NaN: "\<not> isNaN x \<Longrightarrow> isFinite y \<Longrightarrow> \<not> isNaN (x + y)"
  by (cases x; cases y) simp_all

lemma foldl_plus_not_NaN:
  "\<not> isNaN acc \<Longrightarrow> list_all isFinite xs \<Longrightarrow> \<not> isNaN (foldl (+) acc xs)"
  by (induction xs arbitrary: acc) (simp_all add: plus_finite_not_NaN)

text \<open>The difference of two numbers is \<^verbatim>\<open>NaN\<close> only if one of them is, or if they are the same
  infinity.\<close>

lemma isNaN_minus_iff:
  "isNaN (x - y) \<longleftrightarrow> isNaN x \<or> isNaN y \<or> (x = PosInf \<and> y = PosInf) \<or> (x = NegInf \<and> y = NegInf)"
  by (cases x; cases y) (simp_all add: minus_jsnum_def)

subsection \<open>Whole numbers\<close>

text \<open>Whole numbers up to \<open>2\<^sup>5\<^sup>3\<close> in absolute value are added without rounding.\<close>

lemma plus_whole:
  "\<bar>a + b\<bar> \<le> 2 ^ 53 \<Longrightarrow> Num (of_int a) + Num (of_int b) = Num (of_int (a + b))"
  using fl_of_int [of "a + b"] by simp

lemma isWhole_intOf: "isWhole x \<Longrightarrow> x = Num (of_int (intOf x))"
  by (cases x) (auto simp: isWhole_def intOf_def)

lemma intOf_of_int [simp]: "intOf (Num (of_int n)) = n" "isWhole (Num (of_int n))"
  by (simp_all add: intOf_def isWhole_def)

lemma whole_numeral [simp]:
  "intOf (Num (numeral k)) = numeral k" "isWhole (Num (numeral k))"
  "intOf (Num 0) = 0" "isWhole (Num 0)"
  by (simp_all add: intOf_def isWhole_def)

lemma abs_wholeSum: "\<bar>wholeSum xs\<bar> \<le> sum_list (map (\<lambda>x. \<bar>intOf x\<bar>) xs)"
  by (induction xs) (auto simp: wholeSum_def)

lemma foldl_plus_whole:
  assumes "list_all isWhole xs" "\<bar>k\<bar> + sum_list (map (\<lambda>x. \<bar>intOf x\<bar>) xs) \<le> 2 ^ 53"
  shows "foldl (+) (Num (of_int k)) xs = Num (of_int (k + wholeSum xs))"
  using assms
proof (induction xs arbitrary: k)
  case Nil
  then show ?case by (simp add: wholeSum_def)
next
  case (Cons x xs)
  from Cons.prems(1) have x: "x = Num (of_int (intOf x))" and rest: "list_all isWhole xs"
    by (simp_all add: isWhole_intOf)
  from Cons.prems(2) have bound: "\<bar>k + intOf x\<bar> + sum_list (map (\<lambda>x. \<bar>intOf x\<bar>) xs) \<le> 2 ^ 53"
    by simp
  have "0 \<le> sum_list (map (\<lambda>x. \<bar>intOf x\<bar>) xs)"
    by (rule sum_list_nonneg) auto
  with bound have "\<bar>k + intOf x\<bar> \<le> 2 ^ 53" by linarith
  then have "Num (of_int k) + x = Num (of_int (k + intOf x))"
    by (subst x) (rule plus_whole)
  with Cons.IH [OF rest bound] show ?case
    by (simp add: wholeSum_def add.assoc)
qed

lemma foldl_or0_plus_whole:
  assumes "list_all isWhole xs" "\<bar>k\<bar> + sum_list (map (\<lambda>x. \<bar>intOf x\<bar>) xs) \<le> 2 ^ 53"
  shows "foldl (\<lambda>acc x. or0 (acc + x)) (Num (of_int k)) xs = Num (of_int (k + wholeSum xs))"
  using assms
proof (induction xs arbitrary: k)
  case Nil
  then show ?case by (simp add: wholeSum_def)
next
  case (Cons x xs)
  from Cons.prems(1) have x: "x = Num (of_int (intOf x))" and rest: "list_all isWhole xs"
    by (simp_all add: isWhole_intOf)
  from Cons.prems(2) have bound: "\<bar>k + intOf x\<bar> + sum_list (map (\<lambda>x. \<bar>intOf x\<bar>) xs) \<le> 2 ^ 53"
    by simp
  have "0 \<le> sum_list (map (\<lambda>x. \<bar>intOf x\<bar>) xs)"
    by (rule sum_list_nonneg) auto
  with bound have "\<bar>k + intOf x\<bar> \<le> 2 ^ 53" by linarith
  then have "Num (of_int k) + x = Num (of_int (k + intOf x))"
    by (subst x) (rule plus_whole)
  then have "or0 (Num (of_int k) + x) = Num (of_int (k + intOf x))"
    by (simp only: or0_Num)
  with Cons.IH [OF rest bound] show ?case
    by (simp add: wholeSum_def add.assoc)
qed

lemma sumNums_whole:
  "exactlySummable xs \<Longrightarrow> sumNums xs = Num (of_int (wholeSum xs))"
  using foldl_plus_whole [of xs 0] by (simp add: exactlySummable_def sumNums_def)

lemma sumOr0_whole:
  "exactlySummable xs \<Longrightarrow> sumOr0 xs = Num (of_int (wholeSum xs))"
  using foldl_or0_plus_whole [of xs 0] by (simp add: exactlySummable_def sumOr0_def)

text \<open>A selection of amounts that add up without rounding does so too.\<close>

lemma exactlySummable_filter: "exactlySummable xs \<Longrightarrow> exactlySummable (filter P xs)"
proof -
  have "sum_list (map (\<lambda>x. \<bar>intOf x\<bar>) (filter P xs)) \<le> sum_list (map (\<lambda>x. \<bar>intOf x\<bar>) xs)"
    by (induction xs) auto
  then show "exactlySummable xs \<Longrightarrow> exactlySummable (filter P xs)"
    by (auto simp: exactlySummable_def list_all_iff)
qed

text \<open>The comparison of two whole numbers by the sign of their rounded difference.\<close>

lemma difference_positive_iff:
  "num_gt (Num (of_int b) - Num (of_int a)) (Num 0) \<longleftrightarrow> a < b"
proof -
  consider "b - a = 0" | "1 \<le> b - a" | "1 \<le> a - b" by linarith
  then show ?thesis
  proof cases
    case 1
    then show ?thesis by simp
  next
    case 2
    then have "(1::rat) \<le> of_int (b - a)" by (simp only: of_int_1_le_iff)
    from fl_pos [OF this] 2 show ?thesis
      by auto
  next
    case 3
    then have "(1::rat) \<le> of_int (a - b)" by (simp only: of_int_1_le_iff)
    from fl_pos [OF this]
    have "- fl (of_int (a - b)) = NegInf \<or> (\<exists>v. - fl (of_int (a - b)) = Num v \<and> v \<le> - 1)"
      by auto
    moreover have "Num (of_int b) - Num (of_int a) = - fl (of_int (a - b))"
      using fl_uminus [of "of_int (a - b)"] by simp
    ultimately have "\<not> num_gt (Num (of_int b) - Num (of_int a)) (Num 0)"
      by auto
    with 3 show ?thesis by simp
  qed
qed

section \<open>Properties of the summary endpoint\<close>

lemma incomeStep_admitted:
  "incomeStep f t acc d = (if admitted f t d then acc + amountNum d else acc)"
  by (simp add: incomeStep_def admitted_def amountNum_def isNumber_def split: jsval.splits)

lemma foldl_incomeStep:
  "foldl (incomeStep f t) acc ds = foldl (+) acc (map amountNum (filter (admitted f t) ds))"
  by (induction ds arbitrary: acc) (simp_all add: incomeStep_admitted)

lemma fst_expenseStep:
  "fst (expenseStep f t acc d) = (if admitted f t d then fst acc + amountNum d else fst acc)"
  by (simp add: expenseStep_def admitted_def amountNum_def isNumber_def Let_def split: jsval.splits)

lemma fst_foldl_expenseStep:
  "fst (foldl (expenseStep f t) acc ds)
     = foldl (+) (fst acc) (map amountNum (filter (admitted f t) ds))"
  by (induction ds arbitrary: acc) (simp_all add: fst_expenseStep)

text \<open>
  What the route returns for a user id: the totals are the running sums over the admitted
  documents of the user, in the order of the documents and each started from a constant,
  and each field that is \<^verbatim>\<open>NaN\<close> is replaced by 0 on its own.
\<close>

lemma GET_Some:
  "GET db (Some u) from_param to_param =
    (if u = [] then Status400 ''Missing 'uid' parameter.''
     else (let f = parseDateParam from_param; t = parseDateParam to_param;
               ti = foldl (+) testIncomeAmount
                      (map amountNum (filter (admitted f t) (whereUserId u (incomes db))));
               te = foldl (+) testExpenseAmount
                      (map amountNum (filter (admitted f t) (whereUserId u (expenses db))))
           in Status200
                \<lparr>totalIncome = (if isNaN ti then Num 0 else ti),
                 totalExpense = (if isNaN te then Num 0 else te),
                 savings = (if isNaN (ti - te) then Num 0 else ti - te),
                 categoryTotals =
                   snd (foldl (expenseStep f t)
                          (testExpenseAmount, Map.empty(''Test Category'' \<mapsto> testExpenseAmount))
                          (whereUserId u (expenses db)))\<rparr>))"
proof -
  have start: "Num 0 + testIncomeAmount = testIncomeAmount" "Num 0 + testExpenseAmount = testExpenseAmount"
    by (simp_all add: testIncomeAmount_def testExpenseAmount_def)
  show ?thesis
    by (simp add: GET_def Let_def foldl_incomeStep fst_foldl_expenseStep start)
qed

lemmas GET_eval_defs =
  GET_def parseDateParam_def whereUserId_def testIncomeAmount_def testExpenseAmount_def
  incomeStep_def expenseStep_def isWithinRange_def parseFirestoreDate_def truthy_def Let_def

lemmas date_eval_defs =
  Date_parse_def dateTime_def parseDatePart_def parseTimePart_def parseZone_def isZoneStart_def
  checkTime_def digitsN_def isDigit_def digitsVal_def digitVal_def DaysInMonth_def DaysInYear_def
  MakeDay_def MakeDate_def MakeTime_def DayFromYear_def monthStart_def msPerDay_def TimeClip_def
  truncToInt_def getTime_def date_ge_def date_le_def

text \<open>
  Claim C1. The summary of a user is the sum of the admitted income records, the sum of the
  admitted expense records and the per-category sums of the latter, with nothing added
  that is not a stored record. For a user without any record the route answers with an
  income of 5000, an expense of 2000 and a category \<^verbatim>\<open>Test Category\<close> of 2000, where the
  claim gives 0, 0 and no category.
\<close>

theorem C1_summary_of_empty_store:
  "GET \<lparr>incomes = [], expenses = []\<rparr> (Some ''u1'') None None
     = Status200 \<lparr>totalIncome = Num 5000, totalExpense = Num 2000, savings = Num 3000,
                  categoryTotals = [''Test Category'' \<mapsto> Num 2000]\<rparr>"
  by (simp add: GET_eval_defs)

text \<open>
  Claim C3 (category side, summary route). A category total is reported only for a
  category with at least one admitted record. With no expense record at all the route
  still reports the category \<^verbatim>\<open>Test Category\<close>.
\<close>

theorem C3_category_without_records:
  "(case GET \<lparr>incomes = [], expenses = []\<rparr> (Some ''u1'') None None of
      Status400 _ \<Rightarrow> {}
    | Status200 s \<Rightarrow> dom (categoryTotals s)) = {''Test Category''}"
  by (simp add: GET_eval_defs)

text \<open>
  Claim C5. The date normalizer gives the explicit unparseable result for every input that
  is not one of the three valid representations. For the malformed string \<^verbatim>\<open>not-a-date\<close>
  both normalizers return a date object, the invalid date, and not \<^verbatim>\<open>null\<close>.
\<close>

theorem C5_malformed_string_is_not_null:
  "parseDate (Str ''not-a-date'') = Some InvalidDate
   \<and> parseFirestoreDate (Str ''not-a-date'') = Some InvalidDate"
  by (simp add: parseDate_def parseFirestoreDate_def truthy_def Date_parse_def dateTime_def
      parseDatePart_def)

text \<open>
  The other normalizers of the repository do check the parsed date: \<^verbatim>\<open>parseDateParam\<close>
  in the same file, and the guard of \<^verbatim>\<open>buildMonthlyIncomeData\<close>.
\<close>

lemma parseDateParam_valid: "parseDateParam p = Some d \<Longrightarrow> d \<noteq> InvalidDate"
  by (auto simp: parseDateParam_def Let_def getTime_def split: option.splits if_splits)

lemma parseDateParam_malformed: "parseDateParam (Some ''not-a-date'') = None"
  by (simp add: parseDateParam_def Date_parse_def dateTime_def parseDatePart_def getTime_def)

text \<open>
  In window mode a bound rejects the invalid date, since every comparison with \<^verbatim>\<open>NaN\<close> is
  false; without any bound nothing is compared and the invalid date is accepted.
\<close>

lemma isWithinRange_invalid:
  "parseFirestoreDate raw = Some InvalidDate \<Longrightarrow>
     isWithinRange f t raw \<longleftrightarrow> f = None \<and> t = None"
  by (cases f; cases t) (simp_all add: isWithinRange_def date_ge_def date_le_def getTime_def)

text \<open>
  Claim C6 (window mode). A record whose date does not parse is left out of every total.
  With no bound on the window, the income record of amount 50 dated \<^verbatim>\<open>not-a-date\<close> is
  counted: the total income is 5050, and 5000 without the record.
\<close>

theorem C6_unparseable_date_counted_without_bounds:
  "GET \<lparr>incomes = [\<lparr>doc_id = ''i1'', userId = ''u1'', amount = Number (Num 50),
                     date = Str ''not-a-date'', category = None, source = Some ''Salary'',
                     title = None\<rparr>],
        expenses = []\<rparr> (Some ''u1'') None None
     = Status200 \<lparr>totalIncome = Num 5050, totalExpense = Num 2000, savings = Num 3050,
                  categoryTotals = [''Test Category'' \<mapsto> Num 2000]\<rparr>
   \<and> GET \<lparr>incomes = [], expenses = []\<rparr> (Some ''u1'') None None
     = Status200 \<lparr>totalIncome = Num 5000, totalExpense = Num 2000, savings = Num 3000,
                  categoryTotals = [''Test Category'' \<mapsto> Num 2000]\<rparr>"
  by (simp add: GET_eval_defs Date_parse_def dateTime_def parseDatePart_def)

text \<open>
  Claim C10, as stated: in every successful response no field is \<^verbatim>\<open>NaN\<close> and the savings
  are the income less the expense. An income record whose amount is \<^verbatim>\<open>NaN\<close> makes the income
  total \<^verbatim>\<open>NaN\<close>; the income and the savings are then each replaced by 0 while the expense
  stays 2000, and 0 is not 0 - 2000.
\<close>

theorem C10_counterexample:
  "GET \<lparr>incomes = [\<lparr>doc_id = ''i1'', userId = ''u1'', amount = Number NaN,
                     date = Str ''2024-01-15'', category = None, source = Some ''Salary'',
                     title = None\<rparr>],
        expenses = []\<rparr> (Some ''u1'') None None
     = Status200 \<lparr>totalIncome = Num 0, totalExpense = Num 2000, savings = Num 0,
                  categoryTotals = [''Test Category'' \<mapsto> Num 2000]\<rparr>
   \<and> Num 0 \<noteq> Num 0 - Num 2000"
  by (simp add: GET_eval_defs date_eval_defs)

text \<open>
  Claim C10, amended. In every successful response no field is \<^verbatim>\<open>NaN\<close>. When every admitted
  amount of the user is finite, the savings are the income less the expense, as the
  subtraction of doubles gives it, unless both totals have overflowed to the same infinity:
  the difference is then \<^verbatim>\<open>NaN\<close> and the savings are sent as 0.
\<close>

theorem C10_summary_fields:
  assumes "GET db (Some u) from_param to_param = Status200 s"
  shows "\<not> isNaN (totalIncome s) \<and> \<not> isNaN (totalExpense s) \<and> \<not> isNaN (savings s)
     \<and> (list_all (\<lambda>d. isFinite (amountNum d))
           (filter (admitted (parseDateParam from_param) (parseDateParam to_param))
              (whereUserId u (incomes db) @ whereUserId u (expenses db)))
         \<longrightarrow> (if isNaN (totalIncome s - totalExpense s)
              then savings s = Num 0 \<and> totalIncome s = totalExpense s \<and> \<not> isFinite (totalIncome s)
              else savings s = totalIncome s - totalExpense s))"
proof -
  define f where "f = parseDateParam from_param"
  define t where "t = parseDateParam to_param"
  define ti where
    "ti = foldl (+) testIncomeAmount
            (map amountNum (filter (admitted f t) (whereUserId u (incomes db))))"
  define te where
    "te = foldl (+) testExpenseAmount
            (map amountNum (filter (admitted f t) (whereUserId u (expenses db))))"
  from assms have fields:
    "totalIncome s = (if isNaN ti then Num 0 else ti)"
    "totalExpense s = (if isNaN te then Num 0 else te)"
    "savings s = (if isNaN (ti - te) then Num 0 else ti - te)"
    by (auto simp: GET_Some Let_def f_def t_def ti_def te_def split: if_splits)
  have no_NaN: "\<not> isNaN (totalIncome s)" "\<not> isNaN (totalExpense s)" "\<not> isNaN (savings s)"
    by (simp_all add: fields)
  have relation:
    "if isNaN (totalIncome s - totalExpense s)
     then savings s = Num 0 \<and> totalIncome s = totalExpense s \<and> \<not> isFinite (totalIncome s)
     else savings s = totalIncome s - totalExpense s"
    if "list_all (\<lambda>d. isFinite (amountNum d))
          (filter (admitted f t) (whereUserId u (incomes db) @ whereUserId u (expenses db)))"
  proof -
    from that have
      "list_all isFinite (map amountNum (filter (admitted f t) (whereUserId u (incomes db))))"
      "list_all isFinite (map amountNum (filter (admitted f t) (whereUserId u (expenses db))))"
      by (simp_all add: list_all_iff)
    then have "\<not> isNaN ti" "\<not> isNaN te"
      unfolding ti_def te_def
      by (simp_all add: foldl_plus_not_NaN testIncomeAmount_def testExpenseAmount_def)
    then have same: "totalIncome s = ti" "totalExpense s = te"
      by (simp_all add: fields)
    show ?thesis
    proof (cases "isNaN (ti - te)")
      case True
      with \<open>\<not> isNaN ti\<close> \<open>\<not> isNaN te\<close>
      have "(ti = PosInf \<and> te = PosInf) \<or> (ti = NegInf \<and> te = NegInf)"
        by (simp add: isNaN_minus_iff)
      with True show ?thesis
        by (auto simp: same fields)
    next
      case False
      then show ?thesis
        by (simp add: same fields)
    qed
  qed
  from no_NaN relation show ?thesis
    unfolding f_def t_def by blast
qed

theorem C10_summary_fields_witness:
  "GET \<lparr>incomes = [\<lparr>doc_id = ''i1'', userId = ''u1'', amount = Number (Num 100),
                     date = Str ''2024-01-15'', category = None, source = Some ''Salary'',
                     title = None\<rparr>],
        expenses = [\<lparr>doc_id = ''e1'', userId = ''u1'', amount = Number (Num 40),
                     date = Str ''2024-01-20'', category = Some ''Food'', source = None,
                     title = None\<rparr>]\<rparr>
       (Some ''u1'') (Some ''2024-01-01'') (Some ''2024-12-31'')
     = Status200 \<lparr>totalIncome = Num 5100, totalExpense = Num 2040, savings = Num 3060,
                  categoryTotals = [''Test Category'' \<mapsto> Num 2000, ''Food'' \<mapsto> Num 40]\<rparr>
   \<and> Num 3060 = Num 5100 - Num 2040
   \<and> \<not> isNaN (Num 5100) \<and> \<not> isNaN (Num 2040) \<and> \<not> isNaN (Num 3060)"
proof -
  let ?db = "\<lparr>incomes = [\<lparr>doc_id = ''i1'', userId = ''u1'', amount = Number (Num 100),
                     date = Str ''2024-01-15'', category = None, source = Some ''Salary'',
                     title = None\<rparr>],
        expenses = [\<lparr>doc_id = ''e1'', userId = ''u1'', amount = Number (Num 40),
                     date = Str ''2024-01-20'', category = Some ''Food'', source = None,
                     title = None\<rparr>]\<rparr>"
  let ?s = "\<lparr>totalIncome = Num 5100, totalExpense = Num 2040, savings = Num 3060,
                  categoryTotals = [''Test Category'' \<mapsto> Num 2000, ''Food'' \<mapsto> Num 40]\<rparr>"
  have run: "GET ?db (Some ''u1'') (Some ''2024-01-01'') (Some ''2024-12-31'') = Status200 ?s"
    by (simp add: GET_eval_defs date_eval_defs)
  have clean: "list_all (\<lambda>d. isFinite (amountNum d))
           (filter (admitted (parseDateParam (Some ''2024-01-01'')) (parseDateParam (Some ''2024-12-31'')))
              (whereUserId ''u1'' (incomes ?db) @ whereUserId ''u1'' (expenses ?db)))"
    by (simp add: amountNum_def whereUserId_def)
  from C10_summary_fields [OF run] clean run show ?thesis
    by simp
qed

text \<open>
  With whole amounts that add up without rounding, the three fields are the exact sums and
  the exact difference.
\<close>

lemma GET_whole_amounts:
  assumes "GET db (Some u) from_param to_param = Status200 s"
    and "exactlySummable
           (Num 5000 # Num 2000 #
            map amountNum
              (filter (admitted (parseDateParam from_param) (parseDateParam to_param))
                 (whereUserId u (incomes db) @ whereUserId u (expenses db))))"
  shows "totalIncome s
           = Num (of_int (5000 + wholeSum (map amountNum
               (filter (admitted (parseDateParam from_param) (parseDateParam to_param))
                  (whereUserId u (incomes db))))))
     \<and> totalExpense s
           = Num (of_int (2000 + wholeSum (map amountNum
               (filter (admitted (parseDateParam from_param) (parseDateParam to_param))
                  (whereUserId u (expenses db))))))
     \<and> savings s
           = Num (of_int (5000 + wholeSum (map amountNum
               (filter (admitted (parseDateParam from_param) (parseDateParam to_param))
                  (whereUserId u (incomes db))))
              - (2000 + wholeSum (map amountNum
               (filter (admitted (parseDateParam from_param) (parseDateParam to_param))
                  (whereUserId u (expenses db)))))))"
proof -
  define I where "I = map amountNum
      (filter (admitted (parseDateParam from_param) (parseDateParam to_param)) (whereUserId u (incomes db)))"
  define E where "E = map amountNum
      (filter (admitted (parseDateParam from_param) (parseDateParam to_param)) (whereUserId u (expenses db)))"
  define absI where "absI = sum_list (map (\<lambda>x. \<bar>intOf x\<bar>) I)"
  define absE where "absE = sum_list (map (\<lambda>x. \<bar>intOf x\<bar>) E)"
  from assms(2) have whole: "list_all isWhole I" "list_all isWhole E"
    and bound: "7000 + absI + absE \<le> 2 ^ 53"
    by (simp_all add: exactlySummable_def I_def E_def absI_def absE_def)
  have nonneg: "0 \<le> absI" "0 \<le> absE"
    unfolding absI_def absE_def by (rule sum_list_nonneg; auto)+
  have le: "\<bar>wholeSum I\<bar> \<le> absI" "\<bar>wholeSum E\<bar> \<le> absE"
    unfolding absI_def absE_def by (rule abs_wholeSum)+
  have "foldl (+) (Num (of_int 5000)) I = Num (of_int (5000 + wholeSum I))"
    using whole(1) bound nonneg by (intro foldl_plus_whole) (simp_all add: absI_def)
  then have ti: "foldl (+) testIncomeAmount I = Num (of_int (5000 + wholeSum I))"
    by (simp add: testIncomeAmount_def)
  have "foldl (+) (Num (of_int 2000)) E = Num (of_int (2000 + wholeSum E))"
    using whole(2) bound nonneg by (intro foldl_plus_whole) (simp_all add: absE_def)
  then have te: "foldl (+) testExpenseAmount E = Num (of_int (2000 + wholeSum E))"
    by (simp add: testExpenseAmount_def)
  have "\<bar>(5000 + wholeSum I) - (2000 + wholeSum E)\<bar> \<le> 2 ^ 53"
    using le bound nonneg by linarith
  then have diff: "Num (of_int (5000 + wholeSum I)) - Num (of_int (2000 + wholeSum E))
      = Num (of_int ((5000 + wholeSum I) - (2000 + wholeSum E)))"
    using fl_of_int [of "(5000 + wholeSum I) - (2000 + wholeSum E)"] by simp
  from assms(1) have "totalIncome s = Num (of_int (5000 + wholeSum I))"
    "totalExpense s = Num (of_int (2000 + wholeSum E))"
    "savings s = Num (of_int ((5000 + wholeSum I) - (2000 + wholeSum E)))"
    using diff
    by (auto simp: GET_Some Let_def ti te simp flip: I_def E_def split: if_splits)
  then show ?thesis
    unfolding I_def E_def by simp
qed

text \<open>
  The relation also breaks without any \<^verbatim>\<open>NaN\<close> amount, when both totals overflow: two incomes
  and two expenses of \<open>2\<^sup>1\<^sup>0\<^sup>2\<^sup>3\<close> each take both running totals to infinity; their
  difference is \<^verbatim>\<open>NaN\<close> and is sent as 0.
\<close>

lemma largeAmount_sums:
  "Num 0 + largeAmount = largeAmount"
  "Num 5000 + largeAmount = largeAmount"
  "Num 2000 + largeAmount = largeAmount"
  "largeAmount + largeAmount = PosInf"
  "or0 largeAmount = largeAmount"
proof -
  show "Num 0 + largeAmount = largeAmount"
    using fl_representable [of 1 1023] by (simp add: largeAmount_def)
  have "fl (5000 + 2 ^ 1023) = Num (of_int (2 ^ 52) * 2 powi (1023 - 52))"
  proof (rule fl_round)
    show "roundHalfEven ((5000 + 2 ^ 1023) / 2 powi (1023 - 52)) = 2 ^ 52"
      by (rule roundHalfEven_near) simp_all
  qed simp_all
  then show "Num 5000 + largeAmount = largeAmount"
    by (simp add: largeAmount_def)
  have "fl (2000 + 2 ^ 1023) = Num (of_int (2 ^ 52) * 2 powi (1023 - 52))"
  proof (rule fl_round)
    show "roundHalfEven ((2000 + 2 ^ 1023) / 2 powi (1023 - 52)) = 2 ^ 52"
      by (rule roundHalfEven_near) simp_all
  qed simp_all
  then show "Num 2000 + largeAmount = largeAmount"
    by (simp add: largeAmount_def)
  have "fl (2 ^ 1023 + 2 ^ 1023) = PosInf"
    by (rule fl_overflow) simp
  then show "largeAmount + largeAmount = PosInf"
    by (simp add: largeAmount_def)
  show "or0 largeAmount = largeAmount"
    by (simp add: largeAmount_def)
qed

lemma route_overflow_scenario:
  "GET \<lparr>incomes = [\<lparr>doc_id = ''i1'', userId = ''u1'', amount = Number largeAmount,
                     date = Str ''2024-01-15'', category = None, source = Some ''Salary'',
                     title = None\<rparr>,
                    \<lparr>doc_id = ''i2'', userId = ''u1'', amount = Number largeAmount,
                     date = Str ''2024-01-16'', category = None, source = Some ''Salary'',
                     title = None\<rparr>],
        expenses = [\<lparr>doc_id = ''e1'', userId = ''u1'', amount = Number largeAmount,
                     date = Str ''2024-01-20'', category = Some ''Rent'', source = None,
                     title = None\<rparr>,
                    \<lparr>doc_id = ''e2'', userId = ''u1'', amount = Number largeAmount,
                     date = Str ''2024-01-21'', category = Some ''Rent'', source = None,
                     title = None\<rparr>]\<rparr> (Some ''u1'') None None
     = Status200 \<lparr>totalIncome = PosInf, totalExpense = PosInf, savings = Num 0,
                  categoryTotals = [''Test Category'' \<mapsto> Num 2000, ''Rent'' \<mapsto> PosInf]\<rparr>
   \<and> isNaN (PosInf - PosInf) \<and> isFinite largeAmount"
  by (simp add: GET_eval_defs date_eval_defs largeAmount_sums minus_jsnum_def)
    (simp add: largeAmount_def)

section \<open>Evaluation of the text and calendar functions\<close>

lemma natDigits_small: "n < 10 \<Longrightarrow> natDigits n = [digitChar n]"
  by (simp add: natDigits.simps)

lemma natDigits_large:
  "\<not> n < 10 \<Longrightarrow> natDigits n = natDigits (n div 10) @ [digitChar (n mod 10)]"
  by (subst natDigits.simps) simp

lemma replicate_numeral: "replicate (numeral k) x = x # replicate (pred_numeral k) x"
  by (simp add: numeral_eq_Suc)

lemma floor_half: "\<lfloor>of_int n + 1 / 2 :: rat\<rfloor> = n"
  by (simp add: floor_eq_iff)

lemma roundHundredths_numeral: "roundHundredths (numeral k) = numeral k * 100"
proof -
  have "\<bar>numeral k :: rat\<bar> * 100 + 1 / 2 = of_int (numeral k * 100) + 1 / 2"
    by simp
  then show ?thesis
    unfolding roundHundredths_def by (simp only: floor_half) simp
qed

lemmas calendar_defs =
  YearFromTime_def Day_def DayWithinYear_def InLeapYear_def MonthFromTime_def DateFromTime_def
  TimeWithinDay_def

lemmas text_eval_defs =
  padStart_def pad2_def natDigits_small natDigits_large digitChar_def replicate_numeral

lemmas parse_eval_defs =
  parseFloat_def normalizeAmount_def trim_def trimStart_def trimEnd_def isWhiteSpace_def
  unsignedDecimal_def exponentFactor_def isDigit_def digitsVal_def digitVal_def startsWith_def

lemma toISOString_example:
  "toISOString (ValidDate 1705314600000) = Some ''2024-01-15T10:30:00.000Z''"
  by (simp add: toISOString_def calendar_defs date_eval_defs text_eval_defs Let_def)

lemma Date_parse_example:
  "Date_parse ''2024-01-15T10:30:00.000Z'' = ValidDate 1705314600000"
  by (simp add: date_eval_defs Let_def)

lemma formatDate_example: "formatDate (ValidDate 1705276800000) = ''January 15, 2024''"
  by (simp add: formatDate_def toLocaleDateString_long_def monthLong_def calendar_defs
      date_eval_defs text_eval_defs Let_def)

lemma toFixed2_example: "toFixed2 (Num 100) = ''100.00''"
  by (simp add: toFixed2_def roundHundredths_numeral text_eval_defs Let_def)

text \<open>
  Dates that the engine and the date library read differently, and what the engine does
  with the forms of the format: \<^verbatim>\<open>2024-02-30\<close> is the first of March for the engine and no
  date for the library; a year and a month alone are the first of that month; an offset
  moves the time.
\<close>

lemma Date_parse_day_overflow:
  "Date_parse ''2024-02-30'' = ValidDate 1709251200000"
  "Date_parse ''2024-03-01'' = ValidDate 1709251200000"
  "parseISO ''2024-02-30'' = InvalidDate"
  by (simp_all add: parseISO_def date_eval_defs Let_def)

lemma Date_parse_forms:
  "Date_parse ''2024-02'' = ValidDate 1706745600000"
  "Date_parse ''2024'' = ValidDate 1704067200000"
  "Date_parse ''2024-01-15T10:30:00+05:30'' = ValidDate 1705294800000"
  "parseISO ''2024-01-15 10:30:00'' = ValidDate 1705314600000"
  by (simp_all add: parseISO_def date_eval_defs Let_def)

section \<open>Properties of the write paths\<close>

lemma num_gt_zero_iff: "num_gt p (Num 0) \<longleftrightarrow> \<not> isNaN p \<and> \<not> num_le p (Num 0)"
  by (cases p) auto

lemma abs_not_negative: "isNaN \<bar>x\<bar> \<or> num_ge \<bar>x\<bar> (Num 0)"
  by (cases x) simp_all

text \<open>The two forms write nothing but amounts above zero.\<close>

lemma handleSubmit_income_positive:
  "(c, w) \<in> set (writes (handleSubmit_income st)) \<Longrightarrow> num_gt (new_amount w) (Num 0)"
  by (auto simp: handleSubmit_income_def Let_def num_gt_zero_iff split: option.splits if_splits)

lemma handleSubmit_expense_positive:
  "(c, w) \<in> set (writes (handleSubmit_expense st)) \<Longrightarrow> num_gt (new_amount w) (Num 0)"
  by (auto simp: handleSubmit_expense_def Let_def num_gt_zero_iff split: option.splits if_splits)

text \<open>The scenario of the manual income form: \<^verbatim>\<open>-5\<close> and \<^verbatim>\<open>0\<close> are rejected without a write,
  \<^verbatim>\<open>12.50\<close> is written.\<close>

lemma fl_twelve_and_a_half: "fl (25 / 2) = Num (25 / 2)"
  using fl_representable [of 25 "- 1"] by simp

lemma manual_income_scenario:
  "handleSubmit_income \<lparr>inc_amount = ''-5'', inc_source = ''Salary'', inc_customSource = [],
       inc_date = Some (ValidDate 1705314600000), inc_user = Some ''u1''\<rparr>
     = \<lparr>notice = ''Enter a valid amount > 0'', writes = []\<rparr>"
  "handleSubmit_income \<lparr>inc_amount = ''0'', inc_source = ''Salary'', inc_customSource = [],
       inc_date = Some (ValidDate 1705314600000), inc_user = Some ''u1''\<rparr>
     = \<lparr>notice = ''Enter a valid amount > 0'', writes = []\<rparr>"
  "handleSubmit_income \<lparr>inc_amount = ''12.50'', inc_source = ''Salary'', inc_customSource = [],
       inc_date = Some (ValidDate 1705314600000), inc_user = Some ''u1''\<rparr>
     = \<lparr>notice = ''Income saved'',
        writes = [(''incomes'',
                   \<lparr>new_amount = Num (25 / 2), new_date = Str ''2024-01-15T10:30:00.000Z'',
                    new_category = None, new_source = Some ''Salary'', new_userId = ''u1''\<rparr>)]\<rparr>"
  by (simp_all add: handleSubmit_income_def parse_eval_defs toISOString_example Let_def
      fl_twelve_and_a_half)

text \<open>\<^verbatim>\<open>parseFloat\<close> reads the literal \<^verbatim>\<open>Infinity\<close>, with or without a sign.\<close>

lemma parseFloat_Infinity:
  "parseFloat ''Infinity'' = PosInf" "parseFloat ''-Infinity'' = NegInf"
  by (simp_all add: parse_eval_defs)

text \<open>A decimal literal beyond the range of doubles reads as infinity, one below it as 0.\<close>

lemma parseFloat_limits:
  "parseFloat ''1e400'' = PosInf" "parseFloat ''1e-400'' = Num 0"
proof -
  have "(2::rat) powi 1024 \<le> 10 ^ 400" by simp
  then have "fl (10 ^ 400) = PosInf" by (rule fl_overflow)
  then show "parseFloat ''1e400'' = PosInf"
    by (simp add: parse_eval_defs)
  have "(1::rat) / 10 ^ 400 \<le> 2 powi (- 1075)" by simp
  then have "fl (1 / 10 ^ 400) = Num 0" by (intro fl_underflow) simp_all
  then show "parseFloat ''1e-400'' = Num 0"
    by (simp add: parse_eval_defs)
qed

text \<open>The statement upload takes the absolute value and checks nothing: what it writes is
  never negative, but it can be zero or \<^verbatim>\<open>NaN\<close>.\<close>

lemma upload_not_negative:
  assumes "(c, w) \<in> set (writes (handleSaveToFirebase user now txs))"
  shows "isNaN (new_amount w) \<or> num_ge (new_amount w) (Num 0)"
proof -
  from assms obtain uid tx where "(c, w) = uploadDoc uid now tx"
    by (auto simp: handleSaveToFirebase_def split: option.splits if_splits)
  then have "new_amount w = \<bar>et_amount tx\<bar>"
    by (simp add: uploadDoc_def)
  then show ?thesis
    using abs_not_negative [of "et_amount tx"] by simp
qed

text \<open>
  Claim C2. Every write path makes sure that the amount it persists is above zero. The
  statement upload, given an extracted transaction of amount 0, writes a document of
  amount 0 to the \<^verbatim>\<open>expenses\<close> collection.
\<close>

theorem C2_upload_writes_zero_amount:
  "handleSaveToFirebase (Some ''u1'') (ValidDate 0)
     [\<lparr>et_date = ''2024-01-15'', et_description = ''ATM Fee Waiver'', et_amount = Num 0,
       et_type = ''DR'', et_classifiedAs = ''Expense''\<rparr>]
   = \<lparr>notice = ''Transactions saved successfully.'',
      writes = [(''expenses'',
                 \<lparr>new_amount = Num 0, new_date = DateObj (ValidDate 1705276800000),
                  new_category = Some ''Cash'', new_source = None, new_userId = ''u1''\<rparr>)]\<rparr>
   \<and> \<not> num_gt (Num 0) (Num 0)"
  by (simp add: handleSaveToFirebase_def uploadDoc_def toLowerCase_def lowerOf_def
      guessExpenseCategory_def startsWith_def isValidDate_def Let_def date_eval_defs)

section \<open>Properties of the statement export\<close>

lemma allMonthlyTransactions_example:
  "allMonthlyTransactions 0 2024
     [\<lparr>doc_id = ''i1'', userId = ''u1'', amount = Number (Num 100), date = Str ''2024-01-15'',
       category = None, source = Some ''Salary'', title = None\<rparr>] []
   = [\<lparr>txn_id = ''i1'', txn_title = ''Salary'', txn_amount = Num 100, txn_type = ''Income'',
       txn_date = ValidDate 1705276800000\<rparr>]"
  by (simp add: allMonthlyTransactions_def incomeTransactions_def sortBy_def parseDate_def
      truthy_def getFullYear_def getMonth_def date_eval_defs calendar_defs orElse_def Let_def)

text \<open>
  Claim C8. Every text field of a row of the export, the date included, is quoted, so that a
  row has exactly four columns. The date is written as the locale prints it, with a comma
  and without quotes: the row of the one transaction of 15 January 2024 reads
  \<^verbatim>\<open>January 15, 2024,"Salary","Income",100.00\<close> and splits into five columns.
\<close>

theorem C8_date_column_not_quoted:
  "handleDownloadStatement
     (allMonthlyTransactions 0 2024
        [\<lparr>doc_id = ''i1'', userId = ''u1'', amount = Number (Num 100), date = Str ''2024-01-15'',
          category = None, source = Some ''Salary'', title = None\<rparr>] [])
   = Some (''Date,Title,Type,Amount'' @ [CHR 0x0A]
           @ ''January 15, 2024,'' @ [CHR 0x22] @ ''Salary'' @ [CHR 0x22] @ '',''
           @ [CHR 0x22] @ ''Income'' @ [CHR 0x22] @ '',100.00'')
   \<and> csvColumns False []
        (''January 15, 2024,'' @ [CHR 0x22] @ ''Salary'' @ [CHR 0x22] @ '',''
         @ [CHR 0x22] @ ''Income'' @ [CHR 0x22] @ '',100.00'')
     = [''January 15'', '' 2024'', [CHR 0x22] @ ''Salary'' @ [CHR 0x22],
        [CHR 0x22] @ ''Income'' @ [CHR 0x22], ''100.00'']"
proof -
  have row:
    "csvRow \<lparr>txn_id = ''i1'', txn_title = ''Salary'', txn_amount = Num 100,
             txn_type = ''Income'', txn_date = ValidDate 1705276800000\<rparr>
     = ''January 15, 2024,'' @ [CHR 0x22] @ ''Salary'' @ [CHR 0x22] @ '',''
       @ [CHR 0x22] @ ''Income'' @ [CHR 0x22] @ '',100.00''"
    by (simp add: csvRow_def formatDate_example toFixed2_example quoted_def doubleQuotes_def)
  show ?thesis
    by (simp add: allMonthlyTransactions_example handleDownloadStatement_def csvRows_def
        csvHeader_def row)
qed

section \<open>Properties of the transaction list\<close>

lemma mset_insertBy: "mset (insertBy cmp x ys) = add_mset x (mset ys)"
  by (induction ys) simp_all

lemma mset_sortBy: "mset (sortBy cmp xs) = mset xs"
  by (induction xs) (simp_all add: sortBy_def mset_insertBy)

lemma length_sortBy: "length (sortBy cmp xs) = length xs"
  using mset_sortBy [of cmp xs] by (metis size_mset)

lemma set_sortBy: "set (sortBy cmp xs) = set xs"
  using mset_sortBy [of cmp xs] by (metis set_mset_mset)

text \<open>The comparison function of the sort puts the later of two dated transactions first:
  the difference of two time values keeps its sign when it is rounded.\<close>

lemma compareByDateDesc_positive:
  "num_gt (compareByDateDesc \<lparr>txn_id = i, txn_title = n, txn_amount = a, txn_type = k,
                               txn_date = ValidDate ta\<rparr>
                             \<lparr>txn_id = i', txn_title = n', txn_amount = a', txn_type = k',
                               txn_date = ValidDate tb\<rparr>) (Num 0)
     \<longleftrightarrow> ta < tb"
  by (simp add: compareByDateDesc_def getTime_def difference_positive_iff del: minus_Num)

lemma newerOrEqual_total:
  assumes "dated a" "dated b" "\<not> num_gt (compareByDateDesc a b) (Num 0)"
  shows "newerOrEqual a b"
proof -
  from assms(1,2) obtain ta tb where "txn_date a = ValidDate ta" "txn_date b = ValidDate tb"
    by (cases "txn_date a"; cases "txn_date b") (simp_all add: dated_def)
  with assms(3) show ?thesis
    by (simp add: compareByDateDesc_def newerOrEqual_def getTime_def difference_positive_iff
        del: minus_Num)
qed

lemma newerOrEqual_gt:
  assumes "dated a" "dated b" "num_gt (compareByDateDesc a b) (Num 0)"
  shows "newerOrEqual b a"
proof -
  from assms(1,2) obtain ta tb where "txn_date a = ValidDate ta" "txn_date b = ValidDate tb"
    by (cases "txn_date a"; cases "txn_date b") (simp_all add: dated_def)
  with assms(3) show ?thesis
    by (simp add: compareByDateDesc_def newerOrEqual_def getTime_def difference_positive_iff
        del: minus_Num)
qed

lemma newerOrEqual_trans:
  "newerOrEqual a b \<Longrightarrow> newerOrEqual b c \<Longrightarrow> newerOrEqual a c"
  by (cases "txn_date a"; cases "txn_date b"; cases "txn_date c")
    (simp_all add: newerOrEqual_def getTime_def)

lemma set_insertBy: "set (insertBy cmp x ys) = insert x (set ys)"
  using mset_insertBy [of cmp x ys] by (metis set_mset_add_mset_insert set_mset_mset)

lemma sorted_insertBy:
  assumes "sorted_wrt newerOrEqual ys" "dated x" "list_all dated ys"
  shows "sorted_wrt newerOrEqual (insertBy compareByDateDesc x ys)"
  using assms
proof (induction ys)
  case Nil
  then show ?case by simp
next
  case (Cons y ys)
  show ?case
  proof (cases "num_gt (compareByDateDesc x y) (Num 0)")
    case True
    with Cons have "newerOrEqual y x" by (simp add: newerOrEqual_gt)
    with Cons True show ?thesis
      by (auto simp: set_insertBy)
  next
    case False
    with Cons have xy: "newerOrEqual x y" by (simp add: newerOrEqual_total)
    with Cons have "\<forall>z\<in>set ys. newerOrEqual x z"
      by (auto intro: newerOrEqual_trans)
    with xy Cons False show ?thesis by simp
  qed
qed

lemma list_all_sortBy: "list_all P (sortBy cmp xs) = list_all P xs"
  by (simp add: list_all_iff set_sortBy)

lemma sorted_sortBy:
  "list_all dated xs \<Longrightarrow> sorted_wrt newerOrEqual (sortBy compareByDateDesc xs)"
proof (induction xs)
  case Nil
  then show ?case by (simp add: sortBy_def)
next
  case (Cons x xs)
  then have "sorted_wrt newerOrEqual (insertBy compareByDateDesc x (sortBy compareByDateDesc xs))"
    by (intro sorted_insertBy) (simp_all add: list_all_sortBy)
  then show ?case by (simp add: sortBy_def)
qed

lemma getFullYear_Num: "getFullYear dt = Num y \<Longrightarrow> dt \<noteq> InvalidDate"
  by (cases dt) (simp_all add: getFullYear_def)

text \<open>An admitted document gives one transaction, with the fields of the document; another
  document gives none.\<close>

lemma incomeTransactions_inMonth:
  "incomeTransactions month year d = (if inMonth month year d then [incomeEntry d] else [])"
  by (simp add: incomeTransactions_def inMonth_def incomeEntry_def docDate_def amountNum_def
      isNumber_def split: option.splits jsval.splits)

lemma expenseTransactions_inMonth:
  "expenseTransactions month year d = (if inMonth month year d then [expenseEntry d] else [])"
  by (simp add: expenseTransactions_def inMonth_def expenseEntry_def docDate_def amountNum_def
      isNumber_def split: option.splits jsval.splits)

lemma concat_incomeTransactions:
  "concat (map (incomeTransactions month year) ds) = map incomeEntry (filter (inMonth month year) ds)"
  by (induction ds) (simp_all add: incomeTransactions_inMonth)

lemma concat_expenseTransactions:
  "concat (map (expenseTransactions month year) ds) = map expenseEntry (filter (inMonth month year) ds)"
  by (induction ds) (simp_all add: expenseTransactions_inMonth)

lemma inMonth_dated: "inMonth month year d \<Longrightarrow> docDate d \<noteq> InvalidDate"
  by (auto simp: inMonth_def docDate_def dest: getFullYear_Num split: option.splits)

lemma entries_dated:
  "list_all dated (map incomeEntry (filter (inMonth month year) ds))"
  "list_all dated (map expenseEntry (filter (inMonth month year) ds))"
  by (auto simp: list_all_iff dated_def incomeEntry_def expenseEntry_def dest: inMonth_dated)

lemma allMonthlyTransactions_entries:
  "allMonthlyTransactions month year incomeSnap expenseSnap
     = sortBy compareByDateDesc
         (map incomeEntry (filter (inMonth month year) incomeSnap)
          @ map expenseEntry (filter (inMonth month year) expenseSnap))"
  by (simp add: allMonthlyTransactions_def concat_incomeTransactions concat_expenseTransactions)

text \<open>The lines of a text that was joined from rows without line feeds are the rows.\<close>

lemma split_acc_plain: "sep \<notin> set s \<Longrightarrow> split_acc sep acc s = [rev acc @ s]"
  by (induction s arbitrary: acc) auto

lemma split_acc_row:
  "sep \<notin> set r \<Longrightarrow> split_acc sep acc (r @ sep # rest) = (rev acc @ r) # split_acc sep [] rest"
  by (induction r arbitrary: acc) auto

lemma split_join:
  "rows \<noteq> [] \<Longrightarrow> \<forall>r\<in>set rows. sep \<notin> set r \<Longrightarrow> split sep (join [sep] rows) = rows"
proof (induction "[sep]" rows rule: join.induct)
  case 1
  then show ?case by simp
next
  case (2 x)
  then show ?case by (simp add: split_def split_acc_plain)
next
  case (3 x y ys)
  then show ?case
    by (simp add: split_def split_acc_row)
qed

text \<open>
  After a fetch that succeeds, the component holds one transaction for each document that
  the selected month and year admit, with the fields of that document, ordered from the
  most recent date down; the card lists the first 50 of them, or notes that nothing was
  found; a click on Download gives a file named after the selected month that holds the
  header and one row for each of the transactions, and gives no file when nothing is
  admitted.
\<close>

lemma fetch_succeeds:
  "(let after = fetchTransactions month year (Some incomeDocs) (Some expenseDocs) st;
        entries = map incomeEntry (filter (inMonth month year) incomeDocs)
                  @ map expenseEntry (filter (inMonth month year) expenseDocs)
    in mset (st_allMonthlyTransactions after) = mset entries
     \<and> sorted_wrt newerOrEqual (st_allMonthlyTransactions after)
     \<and> st_transactionsToDisplay after = take 50 (st_allMonthlyTransactions after)
     \<and> (length entries \<le> 50 \<longrightarrow>
          st_transactionsToDisplay after = st_allMonthlyTransactions after)
     \<and> render after = (if entries = [] then NothingFound
                         else Listed (take 50 (st_allMonthlyTransactions after)))
     \<and> clickDownload month year after
           = (if entries = [] then None
              else Some \<lparr>file_name = ''Statement_'' @ selectedMonthName month year @ ''_''
                                      @ intText year @ ''.csv'',
                         file_text = csvHeader @ join [CHR 0x0A]
                                       (map csvRow (st_allMonthlyTransactions after))\<rparr>))"
proof -
  define after where
    "after = fetchTransactions month year (Some incomeDocs) (Some expenseDocs) st"
  define entries where
    "entries = map incomeEntry (filter (inMonth month year) incomeDocs)
               @ map expenseEntry (filter (inMonth month year) expenseDocs)"
  have all: "st_allMonthlyTransactions after = sortBy compareByDateDesc entries"
    by (simp add: after_def entries_def fetchTransactions_def allMonthlyTransactions_entries)
  have m: "mset (st_allMonthlyTransactions after) = mset entries"
    by (simp add: all mset_sortBy)
  then have len: "length (st_allMonthlyTransactions after) = length entries"
    by (metis size_mset)
  then have empty: "st_allMonthlyTransactions after = [] \<longleftrightarrow> entries = []"
    by (metis length_0_conv)
  have ordered: "sorted_wrt newerOrEqual (st_allMonthlyTransactions after)"
    unfolding all by (rule sorted_sortBy) (simp add: entries_def entries_dated)
  have shown: "st_transactionsToDisplay after = take 50 (st_allMonthlyTransactions after)"
    by (simp add: after_def fetchTransactions_def transactionsToDisplay_def)
  have few: "length entries \<le> 50 \<longrightarrow>
      st_transactionsToDisplay after = st_allMonthlyTransactions after"
    by (simp add: shown len)
  have state: "\<not> st_loading after" "st_error after = None"
    by (simp_all add: after_def fetchTransactions_def)
  have card: "render after = (if entries = [] then NothingFound
                         else Listed (take 50 (st_allMonthlyTransactions after)))"
    using empty by (simp add: render_def state shown)
  have exported: "clickDownload month year after
           = (if entries = [] then None
              else Some \<lparr>file_name = ''Statement_'' @ selectedMonthName month year @ ''_''
                                      @ intText year @ ''.csv'',
                         file_text = csvHeader @ join [CHR 0x0A]
                                       (map csvRow (st_allMonthlyTransactions after))\<rparr>)"
    using empty
    by (simp add: clickDownload_def downloadDisabled_def handleDownloadStatement_def csvRows_def
        state)
  from m ordered shown few card exported show ?thesis
    unfolding Let_def after_def [symmetric] entries_def [symmetric] by blast
qed

lemma export_lines:
  assumes "txns \<noteq> []" "\<forall>t\<in>set txns. CHR 0x0A \<notin> set (csvRow t)"
  shows "\<exists>content. handleDownloadStatement txns = Some content
           \<and> split (CHR 0x0A) content = ''Date,Title,Type,Amount'' # map csvRow txns"
proof -
  have "split (CHR 0x0A) (join [CHR 0x0A] (''Date,Title,Type,Amount'' # map csvRow txns))
          = ''Date,Title,Type,Amount'' # map csvRow txns"
    using assms(2) by (intro split_join) auto
  moreover from assms(1) obtain t ts where "txns = t # ts"
    by (cases txns) auto
  ultimately show ?thesis
    by (simp add: handleDownloadStatement_def csvHeader_def csvRows_def)
qed

text \<open>
  Claim C7. The exported statement holds exactly one row for each record that the active
  month and year admit. The user looks at January 2024, where the one income of 15 January
  is listed, and then selects February 2024; the fetch for February fails. No record is
  admitted by February, and the card shows the error message, yet the Download button is
  enabled and the file \<^verbatim>\<open>Statement_February_2024.csv\<close> holds the row of January: the
  \<^verbatim>\<open>catch\<close> block leaves the list of the month before in place.
\<close>

theorem C7_failed_fetch_exports_previous_month:
  "(let income = \<lparr>doc_id = ''i1'', userId = ''u1'', amount = Number (Num 100),
                   date = Str ''2024-01-15'', category = None, source = Some ''Salary'',
                   title = None\<rparr>;
        january = fetchTransactions 0 2024 (Some [income]) (Some []) initialState;
        february = fetchTransactions 1 2024 None None january
    in filter (inMonth 1 2024) [income] = []
     \<and> render february = ErrorNote ''Failed to load transactions. Please try again.''
     \<and> clickDownload 1 2024 february
         = Some \<lparr>file_name = ''Statement_February_2024.csv'',
                 file_text = ''Date,Title,Type,Amount'' @ [CHR 0x0A]
                   @ ''January 15, 2024,'' @ [CHR 0x22] @ ''Salary'' @ [CHR 0x22] @ '',''
                   @ [CHR 0x22] @ ''Income'' @ [CHR 0x22] @ '',100.00''\<rparr>)"
proof -
  let ?income = "\<lparr>doc_id = ''i1'', userId = ''u1'', amount = Number (Num 100),
                   date = Str ''2024-01-15'', category = None, source = Some ''Salary'',
                   title = None\<rparr>"
  let ?txn = "\<lparr>txn_id = ''i1'', txn_title = ''Salary'', txn_amount = Num 100,
               txn_type = ''Income'', txn_date = ValidDate 1705276800000\<rparr>"
  have not_february: "\<not> inMonth 1 2024 ?income"
    by (simp add: inMonth_def parseDate_def truthy_def getFullYear_def getMonth_def isNumber_def
        date_eval_defs calendar_defs Let_def)
  have row:
    "csvRow ?txn
     = ''January 15, 2024,'' @ [CHR 0x22] @ ''Salary'' @ [CHR 0x22] @ '',''
       @ [CHR 0x22] @ ''Income'' @ [CHR 0x22] @ '',100.00''"
    by (simp add: csvRow_def formatDate_example toFixed2_example quoted_def doubleQuotes_def)
  have name: "selectedMonthName 1 2024 = ''February''" "intText 2024 = ''2024''"
    by (simp_all add: selectedMonthName_def newDateYM_def monthLong_def intText_def
        date_eval_defs calendar_defs text_eval_defs Let_def)
  have february:
    "fetchTransactions 1 2024 None None (fetchTransactions 0 2024 (Some [?income]) (Some []) initialState)
     = \<lparr>st_transactionsToDisplay = [?txn], st_allMonthlyTransactions = [?txn],
        st_loading = False,
        st_error = Some ''Failed to load transactions. Please try again.''\<rparr>"
    by (simp add: fetchTransactions_def initialState_def transactionsToDisplay_def
        allMonthlyTransactions_example)
  show ?thesis
    unfolding Let_def february
    by (simp add: not_february render_def clickDownload_def downloadDisabled_def
        handleDownloadStatement_def csvRows_def csvHeader_def row name)
qed

section \<open>Properties of the monthly aggregation\<close>

lemma MonthFromTime_less: "MonthFromTime t < 12"
  by (simp add: MonthFromTime_def Let_def)

lemma length_MONTHS [simp]: "length MONTHS = 12"
  by (simp add: MONTHS_def)

lemma distinct_MONTHS: "distinct MONTHS"
  by (simp add: MONTHS_def)

lemma month_name_in_MONTHS: "MONTHS ! MonthFromTime t \<in> set MONTHS"
  by (rule nth_mem) (simp add: MonthFromTime_less)

lemma lookup0_not_NaN [simp]: "\<not> isNaN (lookup0 m k)"
  by (simp add: lookup0_def split: option.splits)

lemma lookup0_upd_same: "lookup0 (m(k \<mapsto> v)) k = or0 v"
  by (simp add: lookup0_def)

lemma lookup0_upd_other: "k' \<noteq> k \<Longrightarrow> lookup0 (m(k \<mapsto> v)) k' = lookup0 m k'"
  by (simp add: lookup0_def)

lemma lookup0_empty: "lookup0 Map.empty k = Num 0"
  by (simp add: lookup0_def)

subsection \<open>Month buckets, one by one\<close>

text \<open>
  Each of the twelve entries of the income chart and of the expense chart is the running
  total, in the order of the records, over the records credited to that month, so an
  entry is 0 when no record is; the twelve names are always there.
\<close>

lemma MONTHS_ORDER_member: "MONTHS_ORDER ! MonthFromTime t \<in> set MONTHS_ORDER"
  by (simp add: MONTHS_ORDER_def month_name_in_MONTHS)

lemma monthlyIncomeStep_bucket:
  "lookup0 (monthlyIncomeStep m r) k
     = (if incomeMonth r = Some k then or0 (lookup0 m k + or0 (ir_amount r)) else lookup0 m k)"
  by (auto simp: monthlyIncomeStep_def incomeMonth_def Let_def lookup0_upd_same lookup0_upd_other
      split: option.splits jsdate.splits)

lemma foldl_monthlyIncomeStep_bucket:
  "lookup0 (foldl monthlyIncomeStep m rs) k
     = foldl (\<lambda>acc x. or0 (acc + x)) (lookup0 m k)
         (map (\<lambda>r. or0 (ir_amount r)) (filter (\<lambda>r. incomeMonth r = Some k) rs))"
  by (induction rs arbitrary: m) (simp_all add: monthlyIncomeStep_bucket)

lemma buildMonthlyIncomeData_buckets:
  "buildMonthlyIncomeData rs
     = map (\<lambda>k. \<lparr>mi_name = k,
                  mi_income = sumOr0 (map (\<lambda>r. or0 (ir_amount r))
                                (filter (\<lambda>r. incomeMonth r = Some k) rs))\<rparr>) MONTHS_ORDER"
  by (simp add: buildMonthlyIncomeData_def Let_def foldl_monthlyIncomeStep_bucket lookup0_empty
      sumOr0_def)

lemma buildMonthlyIncomeData_months:
  "map mi_name (buildMonthlyIncomeData rs) = MONTHS_ORDER \<and> length (buildMonthlyIncomeData rs) = 12"
  by (simp add: buildMonthlyIncomeData_def Let_def comp_def MONTHS_ORDER_def)

lemma buildMonthlyIncomeData_zero:
  assumes "e \<in> set (buildMonthlyIncomeData rs)" "\<forall>r\<in>set rs. incomeMonth r \<noteq> Some (mi_name e)"
  shows "mi_income e = Num 0"
proof -
  from assms(1) obtain k where "e = \<lparr>mi_name = k,
                  mi_income = sumOr0 (map (\<lambda>r. or0 (ir_amount r))
                                (filter (\<lambda>r. incomeMonth r = Some k) rs))\<rparr>"
    by (auto simp: buildMonthlyIncomeData_buckets)
  moreover from this assms(2) have "filter (\<lambda>r. incomeMonth r = Some k) rs = []"
    by (auto simp: filter_empty_conv)
  ultimately show ?thesis by (simp add: sumOr0_def)
qed

lemma Invalid_Date_not_month: "''Invalid Date'' \<notin> set MONTHS"
  by (simp add: MONTHS_def)

lemma monthlyExpenseStep_bucket:
  assumes "k \<in> set MONTHS"
  shows "lookup0 (monthlyExpenseStep m r) k
     = (if expenseMonth r = Some k then or0 (lookup0 m k + or0 (ed_amount r)) else lookup0 m k)"
proof -
  from assms Invalid_Date_not_month have "k \<noteq> ''Invalid Date''" by auto
  then show ?thesis
    by (auto simp: monthlyExpenseStep_def expenseMonth_def dayjs_format_MMM_def Let_def
        lookup0_upd_same lookup0_upd_other split: option.splits jsdate.splits)
qed

lemma foldl_monthlyExpenseStep_bucket:
  "k \<in> set MONTHS \<Longrightarrow>
   lookup0 (foldl monthlyExpenseStep m rs) k
     = foldl (\<lambda>acc x. or0 (acc + x)) (lookup0 m k)
         (map (\<lambda>r. or0 (ed_amount r)) (filter (\<lambda>r. expenseMonth r = Some k) rs))"
  by (induction rs arbitrary: m) (simp_all add: monthlyExpenseStep_bucket)

lemma buildMonthlyExpenseData_buckets:
  "buildMonthlyExpenseData rs
     = map (\<lambda>k. \<lparr>me_name = k,
                  me_expense = sumOr0 (map (\<lambda>r. or0 (ed_amount r))
                                 (filter (\<lambda>r. expenseMonth r = Some k) rs))\<rparr>) MONTHS"
  by (simp add: buildMonthlyExpenseData_def Let_def foldl_monthlyExpenseStep_bucket lookup0_empty
      sumOr0_def)

subsection \<open>The savings chart\<close>

lemma arrayIndex_of_nat: "arrayIndex (Num (of_nat m)) = Some m"
  by (simp add: arrayIndex_def)

lemma getFullYear_eq_Num:
  "getFullYear p = Num (of_int y) \<longleftrightarrow> (\<exists>t. p = ValidDate t \<and> YearFromTime t = y)"
  by (cases p) (simp_all add: getFullYear_def)

lemma map_update_same: "g y = g (xs ! i) \<Longrightarrow> map g (xs[i := y]) = map g xs"
  by (cases "i < length xs") (simp_all add: map_update list_update_same_conv list_update_beyond)

text \<open>An admitted document is credited to one of the twelve buckets.\<close>

lemma inYear_docMonth: "inYear year d \<Longrightarrow> \<exists>i<12. docMonth d = Some i"
  by (auto simp: inYear_def docMonth_def getFullYear_eq_Num MonthFromTime_less split: option.splits)

lemma savingsIncomeStep_credit:
  assumes "length monthly = 12"
  shows "savingsIncomeStep year monthly d
     = Some (if inYear year d
             then monthly[the (docMonth d) :=
                    (monthly ! the (docMonth d))
                      \<lparr>sd_income := sd_income (monthly ! the (docMonth d)) + amountNum d\<rparr>]
             else monthly)"
proof (cases "inYear year d")
  case True
  then obtain t a where "parseDate (date d) = Some (ValidDate t)" "YearFromTime t = year"
      "amount d = Number a"
    by (auto simp: inYear_def getFullYear_eq_Num isNumber_def split: option.splits jsval.splits)
  with True assms MonthFromTime_less [of t] show ?thesis
    by (simp add: savingsIncomeStep_def getFullYear_def getMonth_def amountNum_def docMonth_def
        addIncomeAt_def arrayIndex_of_nat)
next
  case False
  then show ?thesis
    by (auto simp: savingsIncomeStep_def inYear_def isNumber_def split: option.splits jsval.splits)
qed

lemma savingsExpenseStep_credit:
  assumes "length monthly = 12"
  shows "savingsExpenseStep year monthly d
     = Some (if inYear year d
             then monthly[the (docMonth d) :=
                    (monthly ! the (docMonth d))
                      \<lparr>sd_expense := sd_expense (monthly ! the (docMonth d)) + amountNum d\<rparr>]
             else monthly)"
proof (cases "inYear year d")
  case True
  then obtain t a where "parseDate (date d) = Some (ValidDate t)" "YearFromTime t = year"
      "amount d = Number a"
    by (auto simp: inYear_def getFullYear_eq_Num isNumber_def split: option.splits jsval.splits)
  with True assms MonthFromTime_less [of t] show ?thesis
    by (simp add: savingsExpenseStep_def getFullYear_def getMonth_def amountNum_def docMonth_def
        addExpenseAt_def arrayIndex_of_nat)
next
  case False
  then show ?thesis
    by (auto simp: savingsExpenseStep_def inYear_def isNumber_def split: option.splits jsval.splits)
qed

text \<open>
  The loop over the income documents: it never raises, and it leaves in each bucket the
  running total, in the order of the documents, of the admitted documents of that month
  on top of what the bucket held.
\<close>

lemma forEach_income_buckets:
  "length monthly = 12 \<Longrightarrow>
   \<exists>monthly'. forEach (savingsIncomeStep year) monthly ds = Some monthly'
      \<and> length monthly' = 12
      \<and> (\<forall>i<12. sd_income (monthly' ! i)
            = foldl (+) (sd_income (monthly ! i))
                (map amountNum (filter (\<lambda>d. inYear year d \<and> docMonth d = Some i) ds)))
      \<and> map sd_expense monthly' = map sd_expense monthly
      \<and> map sd_month monthly' = map sd_month monthly"
proof (induction ds arbitrary: monthly)
  case Nil
  then show ?case by simp
next
  case (Cons d ds)
  define m1 where "m1 = (if inYear year d
             then monthly[the (docMonth d) :=
                    (monthly ! the (docMonth d))
                      \<lparr>sd_income := sd_income (monthly ! the (docMonth d)) + amountNum d\<rparr>]
             else monthly)"
  have step: "savingsIncomeStep year monthly d = Some m1"
    unfolding m1_def by (rule savingsIncomeStep_credit [OF Cons.prems])
  have len1: "length m1 = 12"
    using Cons.prems by (simp add: m1_def)
  have income1: "sd_income (m1 ! i)
      = (if inYear year d \<and> docMonth d = Some i then sd_income (monthly ! i) + amountNum d
         else sd_income (monthly ! i))" if "i < 12" for i
  proof (cases "inYear year d")
    case True
    with inYear_docMonth obtain j where "j < 12" "docMonth d = Some j" by blast
    with True that Cons.prems show ?thesis
      by (simp add: m1_def nth_list_update)
  next
    case False
    then show ?thesis by (simp add: m1_def)
  qed
  have other1: "map sd_expense m1 = map sd_expense monthly" "map sd_month m1 = map sd_month monthly"
    by (simp_all add: m1_def map_update_same)
  from Cons.IH [OF len1]
  obtain m2 where m2: "forEach (savingsIncomeStep year) m1 ds = Some m2" "length m2 = 12"
      "\<forall>i<12. sd_income (m2 ! i)
            = foldl (+) (sd_income (m1 ! i))
                (map amountNum (filter (\<lambda>d. inYear year d \<and> docMonth d = Some i) ds))"
      "map sd_expense m2 = map sd_expense m1"
      "map sd_month m2 = map sd_month m1"
    by blast
  have "\<forall>i<12. sd_income (m2 ! i)
            = foldl (+) (sd_income (monthly ! i))
                (map amountNum (filter (\<lambda>d. inYear year d \<and> docMonth d = Some i) (d # ds)))"
    using m2(3) income1 by simp
  with step m2 other1 show ?case
    by simp
qed

lemma forEach_expense_buckets:
  "length monthly = 12 \<Longrightarrow>
   \<exists>monthly'. forEach (savingsExpenseStep year) monthly ds = Some monthly'
      \<and> length monthly' = 12
      \<and> (\<forall>i<12. sd_expense (monthly' ! i)
            = foldl (+) (sd_expense (monthly ! i))
                (map amountNum (filter (\<lambda>d. inYear year d \<and> docMonth d = Some i) ds)))
      \<and> map sd_income monthly' = map sd_income monthly
      \<and> map sd_month monthly' = map sd_month monthly"
proof (induction ds arbitrary: monthly)
  case Nil
  then show ?case by simp
next
  case (Cons d ds)
  define m1 where "m1 = (if inYear year d
             then monthly[the (docMonth d) :=
                    (monthly ! the (docMonth d))
                      \<lparr>sd_expense := sd_expense (monthly ! the (docMonth d)) + amountNum d\<rparr>]
             else monthly)"
  have step: "savingsExpenseStep year monthly d = Some m1"
    unfolding m1_def by (rule savingsExpenseStep_credit [OF Cons.prems])
  have len1: "length m1 = 12"
    using Cons.prems by (simp add: m1_def)
  have expense1: "sd_expense (m1 ! i)
      = (if inYear year d \<and> docMonth d = Some i then sd_expense (monthly ! i) + amountNum d
         else sd_expense (monthly ! i))" if "i < 12" for i
  proof (cases "inYear year d")
    case True
    with inYear_docMonth obtain j where "j < 12" "docMonth d = Some j" by blast
    with True that Cons.prems show ?thesis
      by (simp add: m1_def nth_list_update)
  next
    case False
    then show ?thesis by (simp add: m1_def)
  qed
  have other1: "map sd_income m1 = map sd_income monthly" "map sd_month m1 = map sd_month monthly"
    by (simp_all add: m1_def map_update_same)
  from Cons.IH [OF len1]
  obtain m2 where m2: "forEach (savingsExpenseStep year) m1 ds = Some m2" "length m2 = 12"
      "\<forall>i<12. sd_expense (m2 ! i)
            = foldl (+) (sd_expense (m1 ! i))
                (map amountNum (filter (\<lambda>d. inYear year d \<and> docMonth d = Some i) ds))"
      "map sd_income m2 = map sd_income m1"
      "map sd_month m2 = map sd_month m1"
    by blast
  have "\<forall>i<12. sd_expense (m2 ! i)
            = foldl (+) (sd_expense (monthly ! i))
                (map amountNum (filter (\<lambda>d. inYear year d \<and> docMonth d = Some i) (d # ds)))"
    using m2(3) expense1 by simp
  with step m2 other1 show ?case
    by simp
qed

text \<open>
  The chart data: it is always produced, and the entry of each month holds the running
  totals of the admitted income and expense documents of that month and their
  difference.
\<close>

lemma fetchSavingsData_buckets:
  "fetchSavingsData year incomeSnap expenseSnap
     = Some (map (\<lambda>i. \<lparr>sd_month = monthNames ! i,
                        sd_income = sumNums (map amountNum
                          (filter (\<lambda>d. inYear year d \<and> docMonth d = Some i) incomeSnap)),
                        sd_expense = sumNums (map amountNum
                          (filter (\<lambda>d. inYear year d \<and> docMonth d = Some i) expenseSnap)),
                        sd_savings =
                          sumNums (map amountNum
                            (filter (\<lambda>d. inYear year d \<and> docMonth d = Some i) incomeSnap))
                          - sumNums (map amountNum
                              (filter (\<lambda>d. inYear year d \<and> docMonth d = Some i) expenseSnap))\<rparr>)
               [0..<12])"
proof -
  define m0 where "m0 = map (\<lambda>m. \<lparr>sd_month = m, sd_income = Num 0, sd_expense = Num 0,
                                 sd_savings = Num 0\<rparr>) monthNames"
  have len0: "length m0 = 12"
    by (simp add: m0_def monthNames_def)
  have zero: "sd_income (m0 ! i) = Num 0" "sd_expense (m0 ! i) = Num 0"
      "sd_month (m0 ! i) = monthNames ! i" if "i < 12" for i
    using that by (simp_all add: m0_def monthNames_def)
  from forEach_income_buckets [OF len0, of year incomeSnap]
  obtain m1 where m1: "forEach (savingsIncomeStep year) m0 incomeSnap = Some m1" "length m1 = 12"
      "\<forall>i<12. sd_income (m1 ! i)
            = foldl (+) (sd_income (m0 ! i))
                (map amountNum (filter (\<lambda>d. inYear year d \<and> docMonth d = Some i) incomeSnap))"
      "map sd_expense m1 = map sd_expense m0"
      "map sd_month m1 = map sd_month m0"
    by blast
  from forEach_expense_buckets [OF m1(2), of year expenseSnap]
  obtain m2 where m2: "forEach (savingsExpenseStep year) m1 expenseSnap = Some m2" "length m2 = 12"
      "\<forall>i<12. sd_expense (m2 ! i)
            = foldl (+) (sd_expense (m1 ! i))
                (map amountNum (filter (\<lambda>d. inYear year d \<and> docMonth d = Some i) expenseSnap))"
      "map sd_income m2 = map sd_income m1"
      "map sd_month m2 = map sd_month m1"
    by blast
  have nth_of_map: "f (xs ! i) = f (ys ! i)"
    if "map f xs = map f ys" "i < length xs" "length ys = length xs" for f :: "SavingsDataPoint \<Rightarrow> 'b" and xs ys i
    using that by (metis nth_map)
  have income: "sd_income (m2 ! i)
      = sumNums (map amountNum (filter (\<lambda>d. inYear year d \<and> docMonth d = Some i) incomeSnap))"
    if "i < 12" for i
    using that m1(3) nth_of_map [OF m2(4), of i] m1(2) m2(2) by (simp add: zero sumNums_def)
  have expense: "sd_expense (m2 ! i)
      = sumNums (map amountNum (filter (\<lambda>d. inYear year d \<and> docMonth d = Some i) expenseSnap))"
    if "i < 12" for i
    using that m2(3) nth_of_map [OF m1(4), of i] m1(2) len0 by (simp add: zero sumNums_def)
  have name: "sd_month (m2 ! i) = monthNames ! i" if "i < 12" for i
    using that nth_of_map [OF m2(5), of i] nth_of_map [OF m1(5), of i] m1(2) m2(2) len0
    by (simp add: zero)
  have "fetchSavingsData year incomeSnap expenseSnap
          = Some (map (\<lambda>entry. entry\<lparr>sd_savings := sd_income entry - sd_expense entry\<rparr>) m2)"
    by (simp add: fetchSavingsData_def Let_def m1(1) m2(1) flip: m0_def)
  moreover have "map (\<lambda>entry. entry\<lparr>sd_savings := sd_income entry - sd_expense entry\<rparr>) m2
     = map (\<lambda>i. \<lparr>sd_month = monthNames ! i,
                        sd_income = sumNums (map amountNum
                          (filter (\<lambda>d. inYear year d \<and> docMonth d = Some i) incomeSnap)),
                        sd_expense = sumNums (map amountNum
                          (filter (\<lambda>d. inYear year d \<and> docMonth d = Some i) expenseSnap)),
                        sd_savings =
                          sumNums (map amountNum
                            (filter (\<lambda>d. inYear year d \<and> docMonth d = Some i) incomeSnap))
                          - sumNums (map amountNum
                              (filter (\<lambda>d. inYear year d \<and> docMonth d = Some i) expenseSnap))\<rparr>)
               [0..<12]"
  proof (rule nth_equalityI)
    show "length (map (\<lambda>entry. entry\<lparr>sd_savings := sd_income entry - sd_expense entry\<rparr>) m2)
        = length (map (\<lambda>i. \<lparr>sd_month = monthNames ! i,
                        sd_income = sumNums (map amountNum
                          (filter (\<lambda>d. inYear year d \<and> docMonth d = Some i) incomeSnap)),
                        sd_expense = sumNums (map amountNum
                          (filter (\<lambda>d. inYear year d \<and> docMonth d = Some i) expenseSnap)),
                        sd_savings =
                          sumNums (map amountNum
                            (filter (\<lambda>d. inYear year d \<and> docMonth d = Some i) incomeSnap))
                          - sumNums (map amountNum
                              (filter (\<lambda>d. inYear year d \<and> docMonth d = Some i) expenseSnap))\<rparr>)
               [0..<12])"
      by (simp add: m2(2))
  next
    fix i
    assume "i < length (map (\<lambda>entry. entry\<lparr>sd_savings := sd_income entry - sd_expense entry\<rparr>) m2)"
    then have i: "i < 12" by (simp add: m2(2))
    then show "map (\<lambda>entry. entry\<lparr>sd_savings := sd_income entry - sd_expense entry\<rparr>) m2 ! i
        = map (\<lambda>i. \<lparr>sd_month = monthNames ! i,
                        sd_income = sumNums (map amountNum
                          (filter (\<lambda>d. inYear year d \<and> docMonth d = Some i) incomeSnap)),
                        sd_expense = sumNums (map amountNum
                          (filter (\<lambda>d. inYear year d \<and> docMonth d = Some i) expenseSnap)),
                        sd_savings =
                          sumNums (map amountNum
                            (filter (\<lambda>d. inYear year d \<and> docMonth d = Some i) incomeSnap))
                          - sumNums (map amountNum
                              (filter (\<lambda>d. inYear year d \<and> docMonth d = Some i) expenseSnap))\<rparr>)
               [0..<12] ! i"
      using income [OF i] expense [OF i] name [OF i]
      by (simp add: m2(2) del: upt_Suc)
  qed
  ultimately show ?thesis by simp
qed

subsection \<open>The sum of the buckets\<close>

text \<open>
  Sums of whole numbers over the buckets of a partition: every element has a key among the
  distinct keys \<open>ks\<close>, and the sums over the elements of each key add up to the sum over all
  elements.
\<close>

lemma sum_list_indicator:
  fixes v :: int
  shows "distinct ks \<Longrightarrow> sum_list (map (\<lambda>k. if c = k then v else 0) ks) = (if c \<in> set ks then v else 0)"
  by (induction ks) auto

lemma sum_list_partition:
  fixes f :: "'a \<Rightarrow> int"
  assumes "distinct ks" "\<forall>x\<in>set xs. \<exists>k\<in>set ks. key x = Some k"
  shows "sum_list (map (\<lambda>k. sum_list (map f (filter (\<lambda>x. key x = Some k) xs))) ks)
           = sum_list (map f xs)"
  using assms(2)
proof (induction xs)
  case Nil
  then show ?case by simp
next
  case (Cons x xs)
  then obtain c where c: "c \<in> set ks" "key x = Some c" by auto
  have "(\<lambda>k. sum_list (map f (filter (\<lambda>x. key x = Some k) (x # xs))))
      = (\<lambda>k. (if c = k then f x else 0) + sum_list (map f (filter (\<lambda>x. key x = Some k) xs)))"
    by (auto simp: c(2))
  then have "sum_list (map (\<lambda>k. sum_list (map f (filter (\<lambda>x. key x = Some k) (x # xs)))) ks)
      = sum_list (map (\<lambda>k. if c = k then f x else 0) ks)
        + sum_list (map (\<lambda>k. sum_list (map f (filter (\<lambda>x. key x = Some k) xs))) ks)"
    by (simp add: sum_list_addf)
  also have "\<dots> = f x + sum_list (map f xs)"
    using Cons c(1) by (simp add: sum_list_indicator [OF assms(1)])
  finally show ?case by simp
qed

lemma exactlySummable_map_filter:
  assumes "exactlySummable (map g xs)"
  shows "exactlySummable (map g (filter P xs))"
proof -
  have "sum_list (map (\<lambda>x. \<bar>intOf x\<bar>) (map g (filter P xs))) \<le> sum_list (map (\<lambda>x. \<bar>intOf x\<bar>) (map g xs))"
    by (induction xs) auto
  with assms show ?thesis
    by (auto simp: exactlySummable_def list_all_iff)
qed

text \<open>
  When the amounts add up without rounding, the totals of the buckets, added up, are the
  exact sum of the amounts, whether a bucket was filled by \<^verbatim>\<open>+=\<close> or by
  \<^verbatim>\<open>(bucket || 0) + amount\<close>.
\<close>

lemma bucket_sums_whole:
  fixes g :: "'a \<Rightarrow> jsnum" and key :: "'a \<Rightarrow> 'k option"
  assumes "exactlySummable (map g xs)" "distinct ks" "\<forall>x\<in>set xs. \<exists>k\<in>set ks. key x = Some k"
  shows "sumNums (map (\<lambda>k. sumNums (map g (filter (\<lambda>x. key x = Some k) xs))) ks)
           = Num (of_int (wholeSum (map g xs)))"
    and "sumNums (map (\<lambda>k. sumOr0 (map g (filter (\<lambda>x. key x = Some k) xs))) ks)
           = Num (of_int (wholeSum (map g xs)))"
proof -
  define S where "S k = wholeSum (map g (filter (\<lambda>x. key x = Some k) xs))" for k
  define T where "T k = sum_list (map (\<lambda>x. \<bar>intOf (g x)\<bar>) (filter (\<lambda>x. key x = Some k) xs))" for k
  have bucket: "sumNums (map g (filter (\<lambda>x. key x = Some k) xs)) = Num (of_int (S k))"
    "sumOr0 (map g (filter (\<lambda>x. key x = Some k) xs)) = Num (of_int (S k))" for k
    unfolding S_def
    by (rule sumNums_whole sumOr0_whole; rule exactlySummable_map_filter [OF assms(1)])+
  have "\<bar>S k\<bar> \<le> T k" for k
    using abs_wholeSum [of "map g (filter (\<lambda>x. key x = Some k) xs)"]
    by (simp add: S_def T_def comp_def)
  then have "sum_list (map (\<lambda>k. \<bar>S k\<bar>) ks) \<le> sum_list (map T ks)"
    by (intro sum_list_mono) simp
  also have "sum_list (map T ks) = sum_list (map (\<lambda>x. \<bar>intOf (g x)\<bar>) xs)"
    unfolding T_def by (rule sum_list_partition [OF assms(2,3)])
  also have "\<dots> \<le> 9007199254740992"
    using assms(1) by (simp add: exactlySummable_def comp_def)
  finally have "exactlySummable (map (\<lambda>k. Num (of_int (S k))) ks)"
    by (simp add: exactlySummable_def list_all_iff comp_def)
  then have "sumNums (map (\<lambda>k. Num (of_int (S k))) ks)
      = Num (of_int (wholeSum (map (\<lambda>k. Num (of_int (S k))) ks)))"
    by (rule sumNums_whole)
  also have "wholeSum (map (\<lambda>k. Num (of_int (S k))) ks) = sum_list (map S ks)"
    by (simp add: wholeSum_def comp_def)
  also have "sum_list (map S ks) = sum_list (map (\<lambda>x. intOf (g x)) xs)"
    unfolding S_def wholeSum_def map_map comp_def by (rule sum_list_partition [OF assms(2,3)])
  also have "\<dots> = wholeSum (map g xs)"
    by (simp add: wholeSum_def comp_def)
  finally have total: "sumNums (map (\<lambda>k. Num (of_int (S k))) ks) = Num (of_int (wholeSum (map g xs)))" .
  show "sumNums (map (\<lambda>k. sumNums (map g (filter (\<lambda>x. key x = Some k) xs))) ks)
           = Num (of_int (wholeSum (map g xs)))"
    by (simp only: bucket total)
  show "sumNums (map (\<lambda>k. sumOr0 (map g (filter (\<lambda>x. key x = Some k) xs))) ks)
           = Num (of_int (wholeSum (map g xs)))"
    by (simp only: bucket total)
qed

lemma savings_buckets_whole:
  assumes "exactlySummable (map amountNum (filter (inYear year) ds))"
  shows "sumNums (map (\<lambda>i. sumNums (map amountNum
                    (filter (\<lambda>d. inYear year d \<and> docMonth d = Some i) ds))) [0..<12])
           = Num (of_int (wholeSum (map amountNum (filter (inYear year) ds))))"
proof -
  have "\<forall>d\<in>set (filter (inYear year) ds). \<exists>i\<in>set [0..<12]. docMonth d = Some i"
    using inYear_docMonth by fastforce
  from bucket_sums_whole(1) [OF assms distinct_upt this] show ?thesis
    by (simp add: conj_commute)
qed

lemma hasValidDate_incomeMonth:
  "hasValidDate r \<longleftrightarrow> (\<exists>k\<in>set MONTHS_ORDER. incomeMonth r = Some k)"
  by (auto simp: hasValidDate_def incomeMonth_def MONTHS_ORDER_member split: option.splits jsdate.splits)

lemma income_buckets_whole:
  assumes "exactlySummable (map (\<lambda>r. or0 (ir_amount r)) (filter hasValidDate rs))"
  shows "sumNums (map mi_income (buildMonthlyIncomeData rs))
           = Num (of_int (wholeSum (map (\<lambda>r. or0 (ir_amount r)) (filter hasValidDate rs))))"
proof -
  have keys: "\<forall>r\<in>set (filter hasValidDate rs). \<exists>k\<in>set MONTHS_ORDER. incomeMonth r = Some k"
    by (simp add: hasValidDate_incomeMonth)
  have "filter (\<lambda>r. incomeMonth r = Some k) (filter hasValidDate rs)
          = filter (\<lambda>r. incomeMonth r = Some k) rs" if "k \<in> set MONTHS_ORDER" for k
    using that by (auto simp: hasValidDate_incomeMonth intro: filter_cong)
  then have "map mi_income (buildMonthlyIncomeData rs)
      = map (\<lambda>k. sumOr0 (map (\<lambda>r. or0 (ir_amount r))
               (filter (\<lambda>r. incomeMonth r = Some k) (filter hasValidDate rs)))) MONTHS_ORDER"
    by (simp add: buildMonthlyIncomeData_buckets comp_def)
  moreover have "distinct MONTHS_ORDER"
    by (simp add: MONTHS_ORDER_def distinct_MONTHS)
  ultimately show ?thesis
    using bucket_sums_whole(2) [OF assms _ keys] by simp
qed

subsection \<open>Amounts with a fraction\<close>

text \<open>
  The doubles nearest to 0.1, 0.2, 0.4 and 0.7, as the forms store them, and the sums that
  occur when 0.1, 0.4 and 0.2 are added in two orders: 0.1 + 0.2 is rounded up to
  0.30000000000000004, and that plus 0.4 is 0.7000000000000001; 0.1 + 0.4 is 0.5, and that
  plus 0.2 is the double nearest to 0.7.
\<close>

lemma fl_tenth: "fl (1 / 10) = Num (3602879701896397 / 36028797018963968)"
proof -
  have "fl (1 / 10) = Num (of_int 7205759403792794 * 2 powi (-4 - 52))"
  proof (rule fl_round)
    show "roundHalfEven (1 / 10 / 2 powi (-4 - 52)) = 7205759403792794"
      by (rule roundHalfEven_near) simp_all
  qed simp_all
  then show ?thesis by simp
qed

lemma fl_fifth: "fl (1 / 5) = Num (3602879701896397 / 18014398509481984)"
proof -
  have "fl (1 / 5) = Num (of_int 7205759403792794 * 2 powi (-3 - 52))"
  proof (rule fl_round)
    show "roundHalfEven (1 / 5 / 2 powi (-3 - 52)) = 7205759403792794"
      by (rule roundHalfEven_near) simp_all
  qed simp_all
  then show ?thesis by simp
qed

lemma fl_two_fifths: "fl (2 / 5) = Num (3602879701896397 / 9007199254740992)"
proof -
  have "fl (2 / 5) = Num (of_int 7205759403792794 * 2 powi (-2 - 52))"
  proof (rule fl_round)
    show "roundHalfEven (2 / 5 / 2 powi (-2 - 52)) = 7205759403792794"
      by (rule roundHalfEven_near) simp_all
  qed simp_all
  then show ?thesis by simp
qed

lemma fl_seven_tenths: "fl (7 / 10) = Num (3152519739159347 / 4503599627370496)"
proof -
  have "fl (7 / 10) = Num (of_int 6305039478318694 * 2 powi (-1 - 52))"
  proof (rule fl_round)
    show "roundHalfEven (7 / 10 / 2 powi (-1 - 52)) = 6305039478318694"
      by (rule roundHalfEven_near) simp_all
  qed simp_all
  then show ?thesis by simp
qed

lemma fl_double_tenth: "fl (3602879701896397 / 36028797018963968) = Num (3602879701896397 / 36028797018963968)"
  using fl_representable [of 3602879701896397 "- 55"] by simp

lemma fl_double_two_fifths: "fl (3602879701896397 / 9007199254740992) = Num (3602879701896397 / 9007199254740992)"
  using fl_representable [of 3602879701896397 "- 53"] by simp

lemma fl_january: "fl (10808639105689191 / 36028797018963968) = Num (1351079888211149 / 4503599627370496)"
proof -
  have "fl (10808639105689191 / 36028797018963968) = Num (of_int 5404319552844596 * 2 powi (-2 - 52))"
  proof (rule fl_round)
    show "roundHalfEven (10808639105689191 / 36028797018963968 / 2 powi (-2 - 52)) = 5404319552844596"
      by (rule roundHalfEven_tie_up) simp_all
  qed simp_all
  then show ?thesis by simp
qed

lemma fl_double_january: "fl (1351079888211149 / 4503599627370496) = Num (1351079888211149 / 4503599627370496)"
  using fl_representable [of 1351079888211149 "- 52"] by simp

lemma fl_both_buckets: "fl (6305039478318695 / 9007199254740992) = Num (6305039478318695 / 9007199254740992)"
proof -
  have "fl (6305039478318695 / 9007199254740992) = Num (of_int 6305039478318695 * 2 powi (-1 - 52))"
  proof (rule fl_round)
    show "roundHalfEven (6305039478318695 / 9007199254740992 / 2 powi (-1 - 52)) = 6305039478318695"
      by (rule roundHalfEven_near) simp_all
  qed simp_all
  then show ?thesis by simp
qed

lemma fl_double_both_buckets: "fl (6305039478318695 / 9007199254740992) = Num (6305039478318695 / 9007199254740992)"
  using fl_representable [of 6305039478318695 "- 53"] by simp

lemma fl_first_two: "fl (18014398509481985 / 36028797018963968) = Num (1 / 2)"
proof -
  have "fl (18014398509481985 / 36028797018963968) = Num (of_int 4503599627370496 * 2 powi (-1 - 52))"
  proof (rule fl_round)
    show "roundHalfEven (18014398509481985 / 36028797018963968 / 2 powi (-1 - 52)) = 4503599627370496"
      by (rule roundHalfEven_near) simp_all
  qed simp_all
  then show ?thesis by simp
qed

lemma fl_all_three: "fl (12610078956637389 / 18014398509481984) = Num (3152519739159347 / 4503599627370496)"
proof -
  have "fl (12610078956637389 / 18014398509481984) = Num (of_int 6305039478318694 * 2 powi (-1 - 52))"
  proof (rule fl_round)
    show "roundHalfEven (12610078956637389 / 18014398509481984 / 2 powi (-1 - 52)) = 6305039478318694"
      by (rule roundHalfEven_tie_down) simp_all
  qed simp_all
  then show ?thesis by simp
qed

lemma parseFloat_tenths:
  "parseFloat ''0.1'' = Num (3602879701896397 / 36028797018963968)"
  "parseFloat ''0.2'' = Num (3602879701896397 / 18014398509481984)"
  "parseFloat ''0.4'' = Num (3602879701896397 / 9007199254740992)"
  "parseFloat ''0.7'' = Num (3152519739159347 / 4503599627370496)"
  by (simp_all add: parse_eval_defs fl_tenth fl_fifth fl_two_fifths fl_seven_tenths)




section \<open>Records whose date does not parse, in month mode\<close>

text \<open>
  The widgets that select by month or year compare \<^verbatim>\<open>getFullYear()\<close> and \<^verbatim>\<open>getMonth()\<close> of the
  parsed date, which are \<^verbatim>\<open>NaN\<close> for the invalid date, and the expense chart files such a
  record under a name that is no month: adding a record whose date does not parse changes
  none of their results, and none of them raises.
\<close>

lemma unparseable_expenseMonth: "unparseable (ed_date r) \<Longrightarrow> expenseMonth r = None"
  by (simp add: unparseable_def expenseMonth_def split: option.splits jsdate.splits)

lemma buildMonthlyExpenseData_unparseable:
  "unparseable (ed_date r) \<Longrightarrow>
     buildMonthlyExpenseData (rs @ r # rs') = buildMonthlyExpenseData (rs @ rs')"
  by (simp add: buildMonthlyExpenseData_buckets unparseable_expenseMonth)

lemma unparseable_not_admitted:
  "unparseable (date d) \<Longrightarrow> \<not> inMonth month year d \<and> \<not> inYear year d"
  by (auto simp: unparseable_def inMonth_def inYear_def getFullYear_def
      split: option.splits jsdate.splits)

lemma monthStep_unparseable:
  "unparseable (date d) \<Longrightarrow> monthStep targetMonth targetYear acc d = acc"
  by (auto simp: unparseable_def monthStep_def strictEq_def getMonth_def
      split: option.splits jsdate.splits)

lemma foldl_monthStep_unparseable:
  "unparseable (date d) \<Longrightarrow>
     foldl (monthStep tm ty) acc (ds @ d # ds') = foldl (monthStep tm ty) acc (ds @ ds')"
  by (simp add: monthStep_unparseable)

lemma balanceRound_unparseable:
  assumes "unparseable (date d)"
  shows "balanceRound month year (is @ d # is') es = balanceRound month year (is @ is') es"
    and "balanceRound month year is (es @ d # es') = balanceRound month year is (es @ es')"
  using assms
  by (intro ext, simp add: balanceRound_def foldl_monthStep_unparseable del: foldl_append)+

lemma fetchData_unparseable:
  assumes "unparseable (date d)"
  shows "fetchData month year (is @ d # is') es = fetchData month year (is @ is') es"
    and "fetchData month year is (es @ d # es') = fetchData month year is (es @ es')"
  using assms
  by (simp_all only: fetchData_def balanceRound_unparseable)

lemma forEach_append:
  "forEach f s (xs @ ys) = (case forEach f s xs of None \<Rightarrow> None | Some s' \<Rightarrow> forEach f s' ys)"
  by (induction xs arbitrary: s) (simp_all split: option.splits)

lemma savingsStep_unparseable:
  "unparseable (date d) \<Longrightarrow> savingsIncomeStep year monthly d = Some monthly"
  "unparseable (date d) \<Longrightarrow> savingsExpenseStep year monthly d = Some monthly"
  by (auto simp: unparseable_def savingsIncomeStep_def savingsExpenseStep_def getFullYear_def
      split: option.splits jsdate.splits)

lemma fetchSavingsData_unparseable:
  assumes "unparseable (date d)"
  shows "fetchSavingsData year (is @ d # is') es = fetchSavingsData year (is @ is') es"
    and "fetchSavingsData year is (es @ d # es') = fetchSavingsData year is (es @ es')"
  using assms
  by (simp_all add: fetchSavingsData_def forEach_append savingsStep_unparseable
      split: option.splits)

lemma transactions_unparseable:
  "unparseable (date d) \<Longrightarrow> incomeTransactions month year d = []"
  "unparseable (date d) \<Longrightarrow> expenseTransactions month year d = []"
  by (auto simp: unparseable_def incomeTransactions_def expenseTransactions_def getFullYear_def
      split: option.splits jsdate.splits)

lemma allMonthlyTransactions_unparseable:
  assumes "unparseable (date d)"
  shows "allMonthlyTransactions month year (is @ d # is') es = allMonthlyTransactions month year (is @ is') es"
    and "allMonthlyTransactions month year is (es @ d # es') = allMonthlyTransactions month year is (es @ es')"
  using assms
  by (simp_all add: allMonthlyTransactions_def transactions_unparseable)

lemma categoryStep_unparseable:
  "unparseable (date d) \<Longrightarrow> categoryStep month year cm d = cm"
  by (auto simp: unparseable_def categoryStep_def getFullYear_def split: option.splits jsdate.splits)

lemma fetchCategoryData_unparseable:
  "unparseable (date d) \<Longrightarrow>
     fetchCategoryData month year (ds @ d # ds') = fetchCategoryData month year (ds @ ds')"
  by (simp add: fetchCategoryData_def categoryStep_unparseable)

section \<open>Category keys\<close>

text \<open>
  The category chart lists exactly the categories of the admitted expense documents. The
  summary route lists the categories of the admitted expense documents and, besides,
  \<^verbatim>\<open>Test Category\<close>. The entries of the category chart come in the order of
  \<^verbatim>\<open>Object.entries\<close>, the categories that are numerals first, before they are sorted by
  value.
\<close>

lemma keys_assocUpdate: "fst ` set (assocUpdate k f kvs) = insert k (fst ` set kvs)"
  by (induction k f kvs rule: assocUpdate.induct) (auto simp: image_iff split: if_splits)

lemma set_insertKey: "set (insertKey kv kvs) = insert kv (set kvs)"
  by (induction kvs) auto

lemma set_objectEntries: "set (objectEntries kvs) = set kvs"
proof -
  have "set (foldr insertKey xs []) = set xs" for xs :: "(string \<times> 'a) list"
    by (induction xs) (simp_all add: set_insertKey)
  then show ?thesis
    by (auto simp: objectEntries_def)
qed

lemma objectEntries_example:
  "objectEntries [(''Food'', a), (''10'', b), (''7'', c)] = [(''7'', c), (''10'', b), (''Food'', a)]"
  by (simp add: objectEntries_def isArrayIndex_def isDigit_def digitsVal_def digitVal_def)

lemma categoryStep_inMonth:
  "categoryStep month year cm d
     = (if inMonth month year d
        then assocUpdate (chartCategory d) (\<lambda>prev. prev + amountNum d) cm else cm)"
  by (auto simp: categoryStep_def inMonth_def chartCategory_def amountNum_def isNumber_def Let_def
      split: option.splits jsval.splits)

lemma keys_foldl_categoryStep:
  "fst ` set (foldl (categoryStep month year) cm ds)
     = fst ` set cm \<union> chartCategory ` {d \<in> set ds. inMonth month year d}"
  by (induction ds arbitrary: cm) (auto simp: categoryStep_inMonth keys_assocUpdate)

lemma fetchCategoryData_keys:
  "cd_name ` set (fetchCategoryData month year ds)
     = chartCategory ` {d \<in> set ds. inMonth month year d}"
proof -
  have "cd_name ` set (fetchCategoryData month year ds)
          = fst ` set (foldl (categoryStep month year) [] ds)"
    by (force simp: fetchCategoryData_def Let_def set_sortBy set_objectEntries)
  then show ?thesis
    by (simp add: keys_foldl_categoryStep)
qed

lemma expenseStep_admitted:
  "snd (expenseStep f t acc d)
     = (if admitted f t d
        then (snd acc)(routeCategory d \<mapsto> lookup0 (snd acc) (routeCategory d) + amountNum d)
        else snd acc)"
  by (simp add: expenseStep_def admitted_def routeCategory_def amountNum_def isNumber_def
      lookup0_def Let_def split: jsval.splits)

lemma dom_foldl_expenseStep:
  "dom (snd (foldl (expenseStep f t) acc ds))
     = dom (snd acc) \<union> routeCategory ` {d \<in> set ds. admitted f t d}"
  by (induction ds arbitrary: acc) (auto simp: expenseStep_admitted)

lemma GET_category_keys:
  assumes "GET db (Some u) from_param to_param = Status200 s"
  shows "dom (categoryTotals s)
     = insert ''Test Category''
         (routeCategory ` {d \<in> set (whereUserId u (expenses db)).
                            admitted (parseDateParam from_param) (parseDateParam to_param) d})"
proof -
  from assms have "categoryTotals s
      = snd (foldl (expenseStep (parseDateParam from_param) (parseDateParam to_param))
               (testExpenseAmount, Map.empty(''Test Category'' \<mapsto> testExpenseAmount))
               (whereUserId u (expenses db)))"
    by (auto simp: GET_Some Let_def split: if_splits)
  then show ?thesis
    by (simp add: dom_foldl_expenseStep)
qed

section \<open>Scenarios\<close>

text \<open>
  One income of 100 on 15 January 2024 and one expense of 40 on 20 January 2024: the January
  entry of the savings chart holds both, every other month is 0. An expense dated
  \<^verbatim>\<open>not-a-date\<close> appears in no category of the category chart. In the summary route a
  window with bounds leaves such a record out.
\<close>

lemma savings_scenario:
  "fetchSavingsData 2024
     [\<lparr>doc_id = ''i1'', userId = ''u1'', amount = Number (Num 100), date = Str ''2024-01-15'',
       category = None, source = Some ''Salary'', title = None\<rparr>]
     [\<lparr>doc_id = ''e1'', userId = ''u1'', amount = Number (Num 40), date = Str ''2024-01-20'',
       category = Some ''Food'', source = None, title = None\<rparr>]
   = Some (\<lparr>sd_month = ''Jan'', sd_income = Num 100, sd_expense = Num 40, sd_savings = Num 60\<rparr>
           # map (\<lambda>m. \<lparr>sd_month = m, sd_income = Num 0, sd_expense = Num 0, sd_savings = Num 0\<rparr>)
               [''Feb'', ''Mar'', ''Apr'', ''May'', ''Jun'', ''Jul'', ''Aug'', ''Sep'', ''Oct'',
                ''Nov'', ''Dec''])"
  by (simp add: fetchSavingsData_def savingsIncomeStep_def savingsExpenseStep_def addIncomeAt_def
      addExpenseAt_def monthNames_def MONTHS_def parseDate_def truthy_def getFullYear_def
      getMonth_def arrayIndex_def date_eval_defs calendar_defs Let_def)

lemma category_scenario:
  "fetchCategoryData 0 2024
     [\<lparr>doc_id = ''e1'', userId = ''u1'', amount = Number (Num 40), date = Str ''2024-01-20'',
       category = Some ''Food'', source = None, title = None\<rparr>,
      \<lparr>doc_id = ''e2'', userId = ''u1'', amount = Number (Num 50), date = Str ''not-a-date'',
       category = Some ''Rent'', source = None, title = None\<rparr>]
   = [\<lparr>cd_name = ''Food'', cd_value = Num 40\<rparr>]"
  by (simp add: fetchCategoryData_def categoryStep_def sortBy_def parseDate_def truthy_def
      getFullYear_def getMonth_def orElse_def date_eval_defs calendar_defs Let_def
      objectEntries_def isArrayIndex_def isDigit_def)

lemma route_window_scenario:
  "GET \<lparr>incomes = [\<lparr>doc_id = ''i1'', userId = ''u1'', amount = Number (Num 50),
                     date = Str ''not-a-date'', category = None, source = Some ''Salary'',
                     title = None\<rparr>],
        expenses = []\<rparr> (Some ''u1'') (Some ''2024-01-01'') (Some ''2024-12-31'')
     = Status200 \<lparr>totalIncome = Num 5000, totalExpense = Num 2000, savings = Num 3000,
                  categoryTotals = [''Test Category'' \<mapsto> Num 2000]\<rparr>"
  by (simp add: GET_eval_defs date_eval_defs)

section \<open>The date normalizers on the shapes of a date\<close>

text \<open>
  An absent value and a value of no known shape give \<^verbatim>\<open>null\<close>; an ISO string, a timestamp
  and a native date of the same instant give the same date in \<^verbatim>\<open>parseDate\<close>. The normalizer
  of the summary route reads a plain map with a \<^verbatim>\<open>seconds\<close> field, which \<^verbatim>\<open>parseDate\<close> does not,
  and does not read a native date, which \<^verbatim>\<open>parseDate\<close> does. The guard of the income chart
  turns the malformed string away.
\<close>

lemma normalizers_absent:
  "parseDate Undefined = None" "parseDate Null = None" "parseDate (Str []) = None"
  "parseFirestoreDate Undefined = None" "parseFirestoreDate Null = None"
  "parseFirestoreDate (Str []) = None"
  by (simp_all add: parseDate_def parseFirestoreDate_def truthy_def)

lemma normalizers_unknown_shape:
  "parseDate (Bool True) = None" "parseDate (Number (Num 5)) = None"
  "parseFirestoreDate (Bool True) = None" "parseFirestoreDate (Number (Num 5)) = None"
  by (simp_all add: parseDate_def parseFirestoreDate_def truthy_def num_truthy_def)

lemma Timestamp_toDate_example: "Timestamp_toDate 1705314600 0 = ValidDate 1705314600000"
  by (simp add: Timestamp_toDate_def TimeClip_def truncToInt_def)

lemma parseDate_three_shapes:
  "parseDate (Str ''2024-01-15T10:30:00.000Z'') = Some (ValidDate 1705314600000)"
  "parseDate (Timestamp 1705314600 0) = Some (ValidDate 1705314600000)"
  "parseDate (DateObj (ValidDate 1705314600000)) = Some (ValidDate 1705314600000)"
  by (simp_all add: parseDate_def truthy_def Date_parse_example Timestamp_toDate_example)

lemma parseFirestoreDate_shapes:
  "parseFirestoreDate (Str ''2024-01-15T10:30:00.000Z'') = Some (ValidDate 1705314600000)"
  "parseFirestoreDate (Timestamp 1705314600 0) = Some (ValidDate 1705314600000)"
  "parseFirestoreDate (Object [(''seconds'', Number (Num 1705314600))])
     = Some (ValidDate 1705314600000)"
  "parseFirestoreDate (DateObj (ValidDate 1705314600000)) = None"
  by (simp_all add: parseFirestoreDate_def truthy_def Date_parse_example Timestamp_toDate_example
      TimeClip_def truncToInt_def)

lemma parseDate_plain_map: "parseDate (Object [(''seconds'', Number (Num 1705314600))]) = None"
  by (simp add: parseDate_def truthy_def)

lemma parseIncomeDate_malformed:
  "parseIncomeDate (Str ''not-a-date'') = Some InvalidDate"
  "hasValidDate \<lparr>ir_amount = Num 50, ir_date = Str ''not-a-date''\<rparr> = False"
  by (simp_all add: parseIncomeDate_def hasValidDate_def truthy_def parseISO_def dateTime_def
      parseDatePart_def)

section \<open>The bullet parser on lines that are not indented\<close>

lemma trimEnd_empty_iff: "trimEnd s = [] \<longleftrightarrow> list_all isWhiteSpace s"
  by (simp add: trimEnd_def dropWhile_eq_Nil_conv list_all_iff)

lemma trimEnd_Cons:
  "trimEnd (c # cs) = (if isWhiteSpace c \<and> trimEnd cs = [] then [] else c # trimEnd cs)"
  by (auto simp: trimEnd_def dropWhile_append dropWhile_eq_Nil_conv)

lemma trimStart_trimEnd: "trimStart (trimEnd s) = trimEnd (trimStart s)"
proof (induction s)
  case Nil
  then show ?case by (simp add: trimStart_def trimEnd_def)
next
  case (Cons c cs)
  show ?case
  proof (cases "isWhiteSpace c")
    case True
    show ?thesis
    proof (cases "trimEnd cs = []")
      case True
      then have "list_all isWhiteSpace cs" by (simp add: trimEnd_empty_iff)
      with \<open>isWhiteSpace c\<close> have at_start: "trimStart (c # cs) = []"
        by (simp add: trimStart_def dropWhile_eq_Nil_conv list_all_iff)
      from \<open>isWhiteSpace c\<close> True have at_end: "trimEnd (c # cs) = []"
        by (simp add: trimEnd_Cons)
      show ?thesis
        unfolding at_start at_end by (simp add: trimStart_def trimEnd_def)
    next
      case False
      with \<open>isWhiteSpace c\<close> Cons.IH show ?thesis
        by (simp add: trimEnd_Cons) (simp add: trimStart_def)
    qed
  next
    case False
    then show ?thesis
      by (simp add: trimEnd_Cons) (simp add: trimStart_def trimEnd_Cons)
  qed
qed

lemma trimEnd_idem: "trimEnd (trimEnd s) = trimEnd s"
  by (simp add: trimEnd_def)

lemma trimStart_idem: "trimStart (trimStart s) = trimStart s"
  by (simp add: trimStart_def)

lemma stripMarker_unindented:
  "trim (stripMarker (CHR ''*'' # cs)) = trim (tl (trim (CHR ''*'' # cs)))"
proof -
  have "trim (stripMarker (CHR ''*'' # cs)) = trimEnd (trimStart cs)"
    by (simp add: stripMarker_def trim_def trimStart_def)
  moreover have "trim (CHR ''*'' # cs) = CHR ''*'' # trimEnd cs"
    by (simp add: trim_def trimStart_def trimEnd_Cons)
  moreover have "trim (trimEnd cs) = trimEnd (trimStart cs)"
    by (simp add: trim_def trimStart_trimEnd trimEnd_idem)
  ultimately show ?thesis by simp
qed

lemma startsWith_star: "startsWith l ''*'' \<longleftrightarrow> (\<exists>cs. l = CHR ''*'' # cs)"
  by (cases l) (simp_all add: startsWith_def)

text \<open>When no kept line is indented, the card shows what the specification's parser gives.\<close>

lemma parseBullets_unindented:
  assumes "\<forall>l \<in> set (split (CHR 0x0A) content). startsWith (trim l) ''*'' \<longrightarrow> startsWith l ''*''"
  shows "take 3 (parseBullets content) = spec_bullets content"
proof -
  have "map (\<lambda>line. trim (stripMarker line))
          (filter (\<lambda>line. startsWith (trim line) ''*'') (split (CHR 0x0A) content))
      = map (\<lambda>line. trim (tl (trim line)))
          (filter (\<lambda>line. startsWith (trim line) ''*'') (split (CHR 0x0A) content))"
    using assms by (intro map_cong) (auto simp: startsWith_star stripMarker_unindented)
  then show ?thesis
    by (simp only: parseBullets_def spec_bullets_def)
qed

end
